theory Spec2Isabelle
  imports Complex_Main "HOL-Library.Multiset"
begin

section \<open>Python exceptions and results\<close>

text \<open>
  Every \<^verbatim>\<open>raise\<close> and every failing \<^verbatim>\<open>assert\<close> of the source is a value of
  \<open>error\<close>; a function that may raise returns \<open>error + 'a\<close>, with \<open>Inl\<close> the
  exception. \<open>AttributeError\<close> and \<open>KeyError\<close> carry the name that was looked up.
\<close>

datatype error =
    AssertionError
  | IndexError
  | KeyError string
  | AttributeError string
  | NotImplementedError
  | TypeError
  | ValueError
  | LinAlgError

text \<open>Sequencing of two steps that may raise: the second runs only when the first returned.\<close>

definition and_then :: "error + 'a \<Rightarrow> ('a \<Rightarrow> error + 'b) \<Rightarrow> error + 'b" where
  "and_then r f = (case r of Inl e \<Rightarrow> Inl e | Inr v \<Rightarrow> f v)"

section \<open>The numpy operations the repository uses on one-dimensional arrays\<close>

text \<open>
  \<^verbatim>\<open>np.searchsorted(a, v)\<close> with the default \<^verbatim>\<open>side='left'\<close>: numpy's binary search
  \<^verbatim>\<open>
  while (min_idx < max_idx) {
      mid = min_idx + ((max_idx - min_idx) >> 1);
      if (arr[mid] < key) min_idx = mid + 1; else max_idx = mid;
  }
  return min_idx;
  \<close>
  run once for every key.
\<close>

function bisect_left :: "'a::linorder list \<Rightarrow> 'a \<Rightarrow> nat \<Rightarrow> nat \<Rightarrow> nat" where
  "bisect_left arr v lo hi =
     (if lo < hi then
        (let mid = lo + (hi - lo) div 2
         in if arr ! mid < v then bisect_left arr v (mid + 1) hi
            else bisect_left arr v lo mid)
      else lo)"
  by pat_completeness auto
termination
  by (relation "measure (\<lambda>(arr, v, lo, hi). hi - lo)") auto

declare bisect_left.simps [simp del]

definition searchsorted :: "'a::linorder list \<Rightarrow> 'a list \<Rightarrow> nat list" where
  "searchsorted arr vs = map (\<lambda>v. bisect_left arr v 0 (length arr)) vs"

text \<open>\<^verbatim>\<open>a[mask]\<close>: the entries of \<open>a\<close> where the boolean mask is true, in order.\<close>

fun mask_select :: "bool list \<Rightarrow> 'a list \<Rightarrow> 'a list" where
  "mask_select (m # ms) (x # xs) = (if m then x # mask_select ms xs else mask_select ms xs)"
| "mask_select _ _ = []"

text \<open>\<^verbatim>\<open>a[idx]\<close> for an array of indices: \<^verbatim>\<open>IndexError\<close> when one is out of bounds.\<close>

fun fancy_index :: "'a list \<Rightarrow> nat list \<Rightarrow> error + 'a list" where
  "fancy_index arr [] = Inr []"
| "fancy_index arr (i # js) =
     (if i < length arr
      then and_then (fancy_index arr js) (\<lambda>rest. Inr (arr ! i # rest))
      else Inl IndexError)"

text \<open>
  \<^verbatim>\<open>a[mask] = vals\<close>: the entries of \<open>a\<close> where the mask is true are replaced, in
  order, by the entries of \<open>vals\<close>; numpy raises \<^verbatim>\<open>ValueError\<close> when \<open>vals\<close> has
  not exactly one entry per true position, \<^verbatim>\<open>IndexError\<close> when the mask has another
  length than \<open>a\<close>.
\<close>

fun mask_assign :: "'a list \<Rightarrow> bool list \<Rightarrow> 'a list \<Rightarrow> error + 'a list" where
  "mask_assign [] [] [] = Inr []"
| "mask_assign [] [] (v # vs) = Inl ValueError"
| "mask_assign (x # xs) (m # ms) vals =
     (if m then
        (case vals of
           [] \<Rightarrow> Inl ValueError
         | v # vs \<Rightarrow> and_then (mask_assign xs ms vs) (\<lambda>rest. Inr (v # rest)))
      else and_then (mask_assign xs ms vals) (\<lambda>rest. Inr (x # rest)))"
| "mask_assign _ _ _ = Inl IndexError"

section \<open>relaxed/halo\_filters.py: intersect\<close>

text \<open>
  \<^verbatim>\<open>
  def intersect(ids1, ids2):
      assert type(ids1) == type(ids2) == np.ndarray
      assert np.all(np.sort(ids1) == ids1)
      assert np.all(np.sort(ids2) == ids2)
      indx = np.searchsorted(ids2, ids1)
      indx_ok = indx < len(ids2)
      indx_ok[indx_ok] &= ids2[indx[indx_ok]] == ids1[indx_ok]
      return indx_ok
  \<close>
  Both arguments are one-dimensional integer arrays (the first assertion holds by the
  type of the model). The augmented assignment reads \<^verbatim>\<open>indx_ok[indx_ok]\<close>, conjoins it
  elementwise with the comparison, and writes it back through the same mask.
\<close>

definition intersect :: "int list \<Rightarrow> int list \<Rightarrow> error + bool list" where
  "intersect ids1 ids2 =
     (if sort ids1 \<noteq> ids1 then Inl AssertionError
      else if sort ids2 \<noteq> ids2 then Inl AssertionError
      else
        let indx = searchsorted ids2 ids1;
            indx_ok = map (\<lambda>i. i < length ids2) indx
        in and_then (fancy_index ids2 (mask_select indx_ok indx)) (\<lambda>taken.
             mask_assign indx_ok indx_ok
               (map2 (\<and>) (mask_select indx_ok indx_ok)
                         (map2 (=) taken (mask_select indx_ok ids1)))))"

section \<open>relaxed/halo\_filters.py: HaloFilter\<close>

text \<open>
  A catalog is a table (an astropy \<^verbatim>\<open>Table\<close>): named columns, every column with one
  entry per halo, so row \<open>i\<close> of the table is entry \<open>i\<close> of every column.
  \<^verbatim>\<open>cat[mask]\<close> with a boolean array builds a new table that holds, of every column,
  the entries where the mask is true; a mask of another length than the table raises
  \<^verbatim>\<open>IndexError\<close>.
\<close>

type_synonym 'v catalog = "(string \<times> 'v list) list"

definition nrows :: "'v catalog \<Rightarrow> nat" where
  "nrows tab = (case tab of [] \<Rightarrow> 0 | (k, col) # rest \<Rightarrow> length col)"

definition wf_catalog :: "'v catalog \<Rightarrow> bool" where
  "wf_catalog tab = list_all (\<lambda>(k, col). length col = nrows tab) tab"

definition cat_getitem_mask :: "'v catalog \<Rightarrow> bool list \<Rightarrow> error + 'v catalog" where
  "cat_getitem_mask tab msk =
     (if length msk \<noteq> nrows tab then Inl IndexError
      else Inr (map (\<lambda>(k, col). (k, mask_select msk col)) tab))"

text \<open>
  The halo catalog object handed to a filter has the attributes \<^verbatim>\<open>cat\<close> (its table)
  and \<^verbatim>\<open>name\<close>; whatever else it carries is the record's extension. Objects live in
  a store, addressed by their position; \<^verbatim>\<open>deepcopy\<close> allocates a new object with
  the same contents (the table is part of the object's value, so it is copied too).
\<close>

record 'v hcat =
  cat :: "'v catalog"
  name :: string

definition deepcopy :: "'o list \<Rightarrow> nat \<Rightarrow> nat \<times> 'o list" where
  "deepcopy store a = (length store, store @ [store ! a])"

text \<open>
  \<^verbatim>\<open>
  class HaloFilter:
      def __init__(self, filters, name="filtered_cat"):
          self.filters = filters
          self.name = name

      def filter_cat(self, cat):
          # Always do filtering in real space NOT log space.
          for param, ft in self.filters.items():
              hparam = halo_parameters.get_hparam(param, log=False)
              cat = cat[ft(hparam.get_values(cat))]
          return cat

      def __call__(self, hcat, copy=True):
          if not copy:
              raise NotImplementedError
          # creates a new copy of hcat
          new_hcat = deepcopy(hcat)
          new_cat = self.filter_cat(new_hcat.cat)
          new_hcat.cat = new_cat
          new_hcat.name = self.name
          return new_hcat
  \<close>
  \<^verbatim>\<open>self.filters\<close> is a dictionary from parameter keys to predicates, read in
  insertion order: a list of pairs. relaxed/halo\_parameters.py is not among the
  sources; \<^verbatim>\<open>get_hparam(param, log=False).get_values(cat)\<close> is the parameter
  \<open>get_values\<close> of the model, a function of the key and the table that may raise.
\<close>

record 'v HaloFilter =
  filters :: "(string \<times> ('v list \<Rightarrow> bool list)) list"
  name :: string

definition HaloFilter_init :: "(string \<times> ('v list \<Rightarrow> bool list)) list \<Rightarrow> string \<Rightarrow> 'v HaloFilter" where
  "HaloFilter_init fs nm = \<lparr>filters = fs, name = nm\<rparr>"

fun filter_loop ::
  "(string \<Rightarrow> 'v catalog \<Rightarrow> error + 'v list) \<Rightarrow> (string \<times> ('v list \<Rightarrow> bool list)) list
     \<Rightarrow> 'v catalog \<Rightarrow> error + 'v catalog" where
  "filter_loop hparam_values [] tab = Inr tab"
| "filter_loop hparam_values ((param, ft) # rest) tab =
     and_then (hparam_values param tab) (\<lambda>vals.
     and_then (cat_getitem_mask tab (ft vals)) (\<lambda>tab'.
       filter_loop hparam_values rest tab'))"

definition filter_cat ::
  "(string \<Rightarrow> 'v catalog \<Rightarrow> error + 'v list) \<Rightarrow> 'v HaloFilter \<Rightarrow> 'v catalog
     \<Rightarrow> error + 'v catalog" where
  "filter_cat hparam_values self tab = filter_loop hparam_values (filters self) tab"

text \<open>
  \<^verbatim>\<open>__call__\<close> takes the address of \<^verbatim>\<open>hcat\<close> and the store, and returns the
  address of the new object or the exception, with the store as the call leaves it.
\<close>

definition HaloFilter_call ::
  "(string \<Rightarrow> 'v catalog \<Rightarrow> error + 'v list) \<Rightarrow> 'v HaloFilter \<Rightarrow> nat \<Rightarrow> bool
     \<Rightarrow> 'v hcat list \<Rightarrow> (error + nat) \<times> 'v hcat list" where
  "HaloFilter_call hparam_values self hcat copy store =
     (if \<not> copy then (Inl NotImplementedError, store)
      else
        let (new_hcat, store1) = deepcopy store hcat
        in case filter_cat hparam_values self (cat (store1 ! new_hcat)) of
             Inl e \<Rightarrow> (Inl e, store1)
           | Inr new_cat \<Rightarrow>
               let store2 = store1[new_hcat := (store1 ! new_hcat)\<lparr>cat := new_cat\<rparr>];
                   store3 = store2[new_hcat := (store2 ! new_hcat)\<lparr>hcat.name := HaloFilter.name self\<rparr>]
               in (Inr new_hcat, store3))"

text \<open>
  The mask that selects, from the original rows, what two successive selections keep
  (used to state that the surviving rows are rows of the source, in their order).
\<close>

fun mask_compose :: "bool list \<Rightarrow> bool list \<Rightarrow> bool list" where
  "mask_compose [] m2 = []"
| "mask_compose (False # m1) m2 = False # mask_compose m1 m2"
| "mask_compose (True # m1) [] = False # mask_compose m1 []"
| "mask_compose (True # m1) (b # m2) = b # mask_compose m1 m2"

section \<open>intro/src/Params.py: Param\<close>

text \<open>
  \<^verbatim>\<open>cat[key]\<close>: the column of that name, \<^verbatim>\<open>KeyError\<close> when the table has none.
\<close>

definition cat_getitem :: "'v catalog \<Rightarrow> string \<Rightarrow> error + 'v list" where
  "cat_getitem tab k = (case map_of tab k of None \<Rightarrow> Inl (KeyError k) | Some col \<Rightarrow> Inr col)"

text \<open>
  The derivation rules of \<^verbatim>\<open>info_params\<close> combine columns elementwise. Column
  entries are real numbers here: the arithmetic is exact, and a division by zero (which
  numpy answers with a warning and \<^verbatim>\<open>inf\<close> or \<^verbatim>\<open>nan\<close>) has HOL's value.
  \<^verbatim>\<open>
  def get_phi_l(cat):
      return np.arccos(
          ((cat['A[x]'] * cat['Jx'] + cat['A[y]'] * cat['Jy'] + cat['A[z]'] * cat['Jz'])
           /
           (np.sqrt(cat['A[x]'] ** 2 + cat['A[y]'] ** 2 + cat['A[z]'] ** 2) * np.sqrt(
               cat['Jx'] ** 2 + cat['Jy'] ** 2 + cat['Jz'] ** 2))))
  \<close>
\<close>

definition col_op :: "(real \<Rightarrow> real \<Rightarrow> real) \<Rightarrow> real catalog \<Rightarrow> string \<Rightarrow> string \<Rightarrow> error + real list" where
  "col_op f tab k1 k2 =
     and_then (cat_getitem tab k1) (\<lambda>c1.
     and_then (cat_getitem tab k2) (\<lambda>c2. Inr (map2 f c1 c2)))"

definition get_phi_l :: "real catalog \<Rightarrow> error + real list" where
  "get_phi_l tab =
     and_then (col_op (*) tab ''A[x]'' ''Jx'') (\<lambda>ax_jx.
     and_then (col_op (*) tab ''A[y]'' ''Jy'') (\<lambda>ay_jy.
     and_then (col_op (*) tab ''A[z]'' ''Jz'') (\<lambda>az_jz.
     and_then (cat_getitem tab ''A[x]'') (\<lambda>ax.
     and_then (cat_getitem tab ''A[y]'') (\<lambda>ay.
     and_then (cat_getitem tab ''A[z]'') (\<lambda>az.
     and_then (cat_getitem tab ''Jx'') (\<lambda>jx.
     and_then (cat_getitem tab ''Jy'') (\<lambda>jy.
     and_then (cat_getitem tab ''Jz'') (\<lambda>jz.
       let num = map2 (+) (map2 (+) ax_jx ay_jy) az_jz;
           na = map sqrt (map2 (+) (map2 (+) (map (\<lambda>v. v ^ 2) ax) (map (\<lambda>v. v ^ 2) ay))
                                   (map (\<lambda>v. v ^ 2) az));
           nj = map sqrt (map2 (+) (map2 (+) (map (\<lambda>v. v ^ 2) jx) (map (\<lambda>v. v ^ 2) jy))
                                   (map (\<lambda>v. v ^ 2) jz))
       in Inr (map arccos (map2 (/) num (map2 (*) na nj))))))))))))"

text \<open>
  \<^verbatim>\<open>params_dict\<close>: for every key its derivation rule (\<open>None\<close>: read the column) and
  its units. The two LaTeX strings of an entry only feed \<^verbatim>\<open>get_text\<close> and are left
  out, as is the \<^verbatim>\<open>text\<close> attribute computed from them.
  \<^verbatim>\<open>
  'tdyn': (lambda cat: np.sqrt(2) * cat['rvir'] / cat['vrms'], 'kpc/h / km/s', ...),
  'cvir': (lambda cat: cat['rvir'] / cat['rs'], '', ...),
  'q': (lambda cat: (1/2)*(cat['b_to_a'] + cat['c_to_a']), '', ...),
  'phi_l': (get_phi_l, '', ...),
  'xoff': (lambda cat: cat['Xoff']/cat['rvir'], '', ...),
  'voff': (lambda cat: cat['Voff']/cat['vrms'], '', ...),
  \<close>
\<close>

definition params_dict :: "(string \<times> (real catalog \<Rightarrow> error + real list) option \<times> string) list" where
  "params_dict =
     [(''mvir'', None, ''Msun/h''),
      (''rvir'', None, ''kpc/h''),
      (''rs'', None, ''kpc/h''),
      (''Xoff'', None, ''kpc/h''),
      (''Voff'', None, ''km/s''),
      (''vrms'', None, ''km/s''),
      (''Acc_Rate_1*Tdyn'', None, ''Msun/h/yr''),
      (''Acc_Rate_Inst'', None, ''Msun/h/yr''),
      (''T/|U|'', None, ''''),
      (''Spin'', None, ''''),
      (''scale_of_last_MM'', None, ''''),
      (''tdyn'', Some (\<lambda>tab. and_then (cat_getitem tab ''rvir'') (\<lambda>rvir.
                              and_then (cat_getitem tab ''vrms'') (\<lambda>vrms.
                                Inr (map2 (/) (map (\<lambda>v. sqrt 2 * v) rvir) vrms)))),
        ''kpc/h / km/s''),
      (''cvir'', Some (\<lambda>tab. col_op (/) tab ''rvir'' ''rs''), ''''),
      (''q'', Some (\<lambda>tab. and_then (col_op (+) tab ''b_to_a'' ''c_to_a'')
                              (\<lambda>s. Inr (map (\<lambda>v. (1 / 2) * v) s))), ''''),
      (''phi_l'', Some get_phi_l, ''''),
      (''xoff'', Some (\<lambda>tab. col_op (/) tab ''Xoff'' ''rvir''), ''''),
      (''voff'', Some (\<lambda>tab. col_op (/) tab ''Voff'' ''vrms''), '''')]"

text \<open>
  \<^verbatim>\<open>
  class Param(object):
      def __init__(self, key, log=False):
          self.key = key
          self.latex_param = params_dict[key]['latex_param']
          self.latex_units = params_dict[key]['latex_units']
          self.units = params_dict[key]['units']
          self.derive = params_dict[key]['derive']
          self.log = log
          self.text = self.get_text()
          self.values = None

      def get_values(self, cat):
          if self.values is not None:
              return self.values
          if self.derive is None:
              values = cat[self.key]
          else:
              values = self.derive(cat)
          if self.log:
              values = np.log(values)
          return values

      def set_values(self, cat):
          self.values = self.get_values(cat)
  \<close>
  \<^verbatim>\<open>get_values\<close> assigns to no attribute of the object: it returns a value only.
  \<^verbatim>\<open>set_values\<close> is the one method that writes \<^verbatim>\<open>self.values\<close>.
\<close>

record Param =
  key :: string
  units :: string
  derive :: "(real catalog \<Rightarrow> error + real list) option"
  log' :: bool
  values' :: "real list option"

definition Param_init :: "string \<Rightarrow> bool \<Rightarrow> error + Param" where
  "Param_init k lg =
     (case map_of params_dict k of
        None \<Rightarrow> Inl (KeyError k)
      | Some (d, u) \<Rightarrow> Inr \<lparr>key = k, units = u, derive = d, log' = lg, values' = None\<rparr>)"

definition get_values :: "Param \<Rightarrow> real catalog \<Rightarrow> error + real list" where
  "get_values self tab =
     (case values' self of
        Some cached \<Rightarrow> Inr cached
      | None \<Rightarrow>
          and_then (case derive self of
                      None \<Rightarrow> cat_getitem tab (key self)
                    | Some d \<Rightarrow> d tab) (\<lambda>vals.
            Inr (if log' self then map ln vals else vals)))"

definition set_values :: "Param \<Rightarrow> real catalog \<Rightarrow> error + Param" where
  "set_values self tab =
     and_then (get_values self tab) (\<lambda>vals. Inr (self\<lparr>values' := Some vals\<rparr>))"

section \<open>relaxed/models.py: arrays, library routines and objects\<close>

subsection \<open>Arrays\<close>

text \<open>
  An entry of a floating-point array is a number or \<^verbatim>\<open>nan\<close> (a missing value).
  Numbers are real numbers: where the model computes with entries (the CAM marks and
  the interpolation below) the arithmetic is exact, without rounding, overflow or
  infinities. An array is its shape and its entries in row-major order; in a
  well-formed array the entries are as many as the shape says.
\<close>

datatype npfloat = Num real | NaN

record ndarray =
  shape :: "nat list"
  data :: "npfloat list"

definition wf_array :: "ndarray \<Rightarrow> bool" where
  "wf_array a = (length (data a) = prod_list (shape a))"

text \<open>\<^verbatim>\<open>np.sum(np.isnan(a))\<close>: the number of missing values.\<close>

definition isnan_sum :: "ndarray \<Rightarrow> nat" where
  "isnan_sum a = length (filter (\<lambda>v. v = NaN) (data a))"

text \<open>\<^verbatim>\<open>a.shape[i]\<close>: \<^verbatim>\<open>IndexError\<close> when the array has no such axis.\<close>

definition shape_at :: "ndarray \<Rightarrow> nat \<Rightarrow> error + nat" where
  "shape_at a i = (if i < length (shape a) then Inr (shape a ! i) else Inl IndexError)"

text \<open>\<^verbatim>\<open>len(a)\<close>: the first extent; \<^verbatim>\<open>TypeError\<close> for an array without axes.\<close>

definition len_array :: "ndarray \<Rightarrow> error + nat" where
  "len_array a = (case shape a of [] \<Rightarrow> Inl TypeError | n # rest \<Rightarrow> Inr n)"

text \<open>
  \<^verbatim>\<open>a.reshape(-1)\<close>, \<^verbatim>\<open>a.reshape(-1, 1)\<close> and \<^verbatim>\<open>a.reshape(-1, k)\<close>: the same
  entries under another shape (\<^verbatim>\<open>ValueError\<close> when they cannot be cut into rows of
  \<open>k\<close>).
\<close>

definition reshape_flat :: "ndarray \<Rightarrow> ndarray" where
  "reshape_flat a = \<lparr>shape = [length (data a)], data = data a\<rparr>"

definition reshape_column :: "ndarray \<Rightarrow> ndarray" where
  "reshape_column a = \<lparr>shape = [length (data a), 1], data = data a\<rparr>"

definition reshape_rows :: "ndarray \<Rightarrow> nat \<Rightarrow> error + ndarray" where
  "reshape_rows a k =
     (if k = 0 \<or> length (data a) mod k \<noteq> 0 then Inl ValueError
      else Inr \<lparr>shape = [length (data a) div k, k], data = data a\<rparr>)"

text \<open>\<^verbatim>\<open>a.reshape(dims)\<close> with every extent given.\<close>

definition reshape :: "ndarray \<Rightarrow> nat list \<Rightarrow> error + ndarray" where
  "reshape a dims =
     (if prod_list dims \<noteq> length (data a) then Inl ValueError
      else Inr \<lparr>shape = dims, data = data a\<rparr>)"

text \<open>Column \<open>c\<close> of a two-dimensional array (\<^verbatim>\<open>a[:, c]\<close>), and its transpose.\<close>

definition column :: "ndarray \<Rightarrow> nat \<Rightarrow> npfloat list" where
  "column a c = map (\<lambda>r. data a ! (r * (shape a ! 1) + c)) [0..<shape a ! 0]"

definition transpose2 :: "ndarray \<Rightarrow> ndarray" where
  "transpose2 a =
     \<lparr>shape = [shape a ! 1, shape a ! 0],
      data = concat (map (column a) [0..<shape a ! 1])\<rparr>"

text \<open>\<^verbatim>\<open>a[i, j]\<close> on a two-dimensional array.\<close>

definition getitem2 :: "ndarray \<Rightarrow> nat \<Rightarrow> nat \<Rightarrow> error + npfloat" where
  "getitem2 a i j =
     (if length (shape a) = 2 \<and> i < shape a ! 0 \<and> j < shape a ! 1
         \<and> i * (shape a ! 1) + j < length (data a)
      then Inr (data a ! (i * (shape a ! 1) + j))
      else Inl IndexError)"

text \<open>Running a step that may raise over a list, left to right, up to the first exception.\<close>

fun traverse :: "('a \<Rightarrow> error + 'b) \<Rightarrow> 'a list \<Rightarrow> error + 'b list" where
  "traverse f [] = Inr []"
| "traverse f (x # xs) =
     and_then (f x) (\<lambda>v. and_then (traverse f xs) (\<lambda>vs. Inr (v # vs)))"

subsection \<open>Sorting, marks and interpolation\<close>

text \<open>
  Arithmetic on entries: a missing value makes the result missing.
\<close>

definition fl_add :: "npfloat \<Rightarrow> npfloat \<Rightarrow> npfloat" where
  "fl_add a b = (case (a, b) of (Num x, Num y) \<Rightarrow> Num (x + y) | _ \<Rightarrow> NaN)"

definition fl_sub :: "npfloat \<Rightarrow> npfloat \<Rightarrow> npfloat" where
  "fl_sub a b = (case (a, b) of (Num x, Num y) \<Rightarrow> Num (x - y) | _ \<Rightarrow> NaN)"

definition fl_mul :: "npfloat \<Rightarrow> npfloat \<Rightarrow> npfloat" where
  "fl_mul a b = (case (a, b) of (Num x, Num y) \<Rightarrow> Num (x * y) | _ \<Rightarrow> NaN)"

text \<open>
  \<^verbatim>\<open>np.sort\<close> of a one-dimensional array: the numbers in ascending order, the
  missing values after them. \<^verbatim>\<open>c * a\<close> for a number \<open>c\<close>: entry by entry.
\<close>

definition nums :: "npfloat list \<Rightarrow> real list" where
  "nums vs = concat (map (\<lambda>v. case v of Num r \<Rightarrow> [r] | NaN \<Rightarrow> []) vs)"

definition np_sort :: "npfloat list \<Rightarrow> npfloat list" where
  "np_sort vs = map Num (sort (nums vs)) @ filter (\<lambda>v. v = NaN) vs"

definition scale :: "npfloat \<Rightarrow> npfloat list \<Rightarrow> npfloat list" where
  "scale c vs = map (fl_mul c) vs"

text \<open>
  The CAM marks:
  \<^verbatim>\<open>
  marks = np.arange(len(y_sort)) / len(y_sort)
  marks += (marks[1] - marks[0]) / 2
  \<close>
  \<^verbatim>\<open>marks[1]\<close> raises \<^verbatim>\<open>IndexError\<close> when there are fewer than two marks (for no
  mark at all the division is one of an empty array and raises nothing).
\<close>

definition cam_marks :: "nat \<Rightarrow> error + real list" where
  "cam_marks n =
     (let marks = map (\<lambda>i. real i / real n) [0..<n]
      in if length marks \<le> 1 then Inl IndexError
         else Inr (map (\<lambda>m. m + (marks ! 1 - marks ! 0) / 2) marks))"

text \<open>
  \<^verbatim>\<open>scipy.interpolate.interp1d(x, y, fill_value=(below, above), bounds_error=False)\<close>,
  from its documentation: linear interpolation through the points, which are first
  ordered by \<open>x\<close> with a stable sort; a point below the smallest \<open>x\<close> gets \<open>below\<close>,
  one above the largest gets \<open>above\<close>, a missing value stays missing. Between two
  neighbours the value is \<^verbatim>\<open>slope * (x_new - x_lo) + y_lo\<close> with
  \<^verbatim>\<open>slope = (y_hi - y_lo) / (x_hi - x_lo)\<close>, the neighbours found by
  \<^verbatim>\<open>searchsorted(x, x_new).clip(1, len(x) - 1)\<close>. The constructor raises
  \<^verbatim>\<open>ValueError\<close> when \<open>x\<close> and \<open>y\<close> differ in length or are empty. The abscissae are
  numbers; the ordinates and the fill values may be missing.
\<close>

record interp1d =
  ix :: "real list"
  iy :: "npfloat list"
  fill_below :: npfloat
  fill_above :: npfloat

definition interp1d_init :: "real list \<Rightarrow> npfloat list \<Rightarrow> npfloat \<times> npfloat \<Rightarrow> error + interp1d" where
  "interp1d_init xs ys fill_value =
     (if length xs \<noteq> length ys \<or> xs = [] then Inl ValueError
      else
        let ps = sort_key fst (zip xs ys)
        in Inr \<lparr>ix = map fst ps, iy = map snd ps,
                fill_below = fst fill_value, fill_above = snd fill_value\<rparr>)"

definition linear_between :: "real \<Rightarrow> real \<Rightarrow> npfloat \<Rightarrow> npfloat \<Rightarrow> real \<Rightarrow> npfloat" where
  "linear_between x_lo x_hi y_lo y_hi x_new =
     (case (y_lo, y_hi) of
        (Num a, Num b) \<Rightarrow>
          if x_hi = x_lo then NaN
          else Num ((b - a) / (x_hi - x_lo) * (x_new - x_lo) + a)
      | _ \<Rightarrow> NaN)"

definition interp1d_call :: "interp1d \<Rightarrow> npfloat \<Rightarrow> npfloat" where
  "interp1d_call f x_new =
     (case x_new of
        NaN \<Rightarrow> NaN
      | Num v \<Rightarrow>
          if v < hd (ix f) then fill_below f
          else if last (ix f) < v then fill_above f
          else
            let hi = max 1 (min (bisect_left (ix f) v 0 (length (ix f))) (length (ix f) - 1));
                lo = hi - 1
            in linear_between (ix f ! lo) (ix f ! hi) (iy f ! lo) (iy f ! hi) v)"

subsection \<open>Library routines taken as parameters\<close>

text \<open>
  The numerical routines of numpy and scikit-learn whose results no property below
  depends on, and \<^verbatim>\<open>relaxed.analysis.get_an_from_am\<close> (not among the sources), are
  parameters of the model: every function of the model that calls one takes the record
  \<open>E\<close> of them. A fitted \<^verbatim>\<open>QuantileTransformer\<close> or regressor is represented by the
  array of what it learned. \<^verbatim>\<open>get_an_from_am\<close> returns one number per halo (the
  entries of its result, read in order); it is given the attributes \<^verbatim>\<open>mass_bins\<close>
  and \<^verbatim>\<open>mrange\<close> as they are.
\<close>

datatype pyval =
    VNone
  | VBool bool
  | VInt int
  | VFloat npfloat
  | VArr ndarray
  | VSeq "real list"
  | VInterp interp1d
  | VQt ndarray
  | VEstimator ndarray

record numpy =
  np_log :: "ndarray \<Rightarrow> ndarray"
  np_exp :: "ndarray \<Rightarrow> ndarray"
  np_mean :: "ndarray \<Rightarrow> npfloat"
  np_std :: "ndarray \<Rightarrow> npfloat"
  np_nanmean :: "ndarray \<Rightarrow> npfloat"
  np_nanmean_axis0 :: "ndarray \<Rightarrow> ndarray"
  np_cov :: "npfloat list \<Rightarrow> npfloat list \<Rightarrow> ndarray"
  np_corrcoef :: "npfloat list \<Rightarrow> npfloat list \<Rightarrow> ndarray"
  np_dot :: "ndarray \<Rightarrow> ndarray \<Rightarrow> error + ndarray"
  np_add :: "ndarray \<Rightarrow> ndarray \<Rightarrow> error + ndarray"
  np_sub :: "ndarray \<Rightarrow> ndarray \<Rightarrow> error + ndarray"
  linalg_inv :: "ndarray \<Rightarrow> error + ndarray"
  random_normal :: "pyval \<Rightarrow> pyval \<Rightarrow> nat \<Rightarrow> ndarray"
  qt_fit :: "nat \<Rightarrow> ndarray \<Rightarrow> error + ndarray"
  qt_transform :: "ndarray \<Rightarrow> ndarray \<Rightarrow> error + ndarray"
  qt_inverse_transform :: "ndarray \<Rightarrow> ndarray \<Rightarrow> error + ndarray"
  linreg_fit :: "ndarray \<Rightarrow> ndarray \<Rightarrow> error + ndarray"
  lasso_fit :: "pyval \<Rightarrow> ndarray \<Rightarrow> ndarray \<Rightarrow> error + ndarray"
  select_from_model_fit :: "pyval \<Rightarrow> ndarray \<Rightarrow> ndarray \<Rightarrow> error + unit"
  lasso_coef :: "ndarray \<Rightarrow> ndarray"
  sk_predict :: "ndarray \<Rightarrow> ndarray \<Rightarrow> error + ndarray"
  get_an_from_am :: "ndarray \<Rightarrow> pyval \<Rightarrow> pyval \<Rightarrow> error + real list"

subsection \<open>Objects\<close>

text \<open>
  Arrays of more than two axes are outside the model. A model object is its class and
  its attribute dictionary. Reading an attribute that
  was never assigned raises \<^verbatim>\<open>AttributeError\<close>; an assignment adds or replaces the
  entry. A method that may raise after it has assigned attributes returns, with the
  exception, the object as it stands at the \<^verbatim>\<open>raise\<close>.
\<close>

datatype model_class =
    MultiVariateGaussian
  | CAM
  | LinearRegression
  | LASSO
  | LogNormalRandomSample

record pyobj =
  cls :: model_class
  attrs :: "string \<rightharpoonup> pyval"

definition getattr :: "pyobj \<Rightarrow> string \<Rightarrow> error + pyval" where
  "getattr self a = (case attrs self a of None \<Rightarrow> Inl (AttributeError a) | Some v \<Rightarrow> Inr v)"

definition setattr :: "pyobj \<Rightarrow> string \<Rightarrow> pyval \<Rightarrow> pyobj" where
  "setattr self a v = self\<lparr>attrs := (attrs self)(a \<mapsto> v)\<rparr>"

subsection \<open>Python values as operands\<close>

text \<open>
  \<open>VSeq\<close> is a tuple of numbers. The number a value is in arithmetic and in a
  comparison: a boolean counts as 0 or 1, as \<^verbatim>\<open>bool\<close> is a subclass of \<^verbatim>\<open>int\<close>.
  \<^verbatim>\<open>isinstance(v, int)\<close> holds of integers and booleans.
\<close>

definition number :: "pyval \<Rightarrow> npfloat option" where
  "number v =
     (case v of
        VBool b \<Rightarrow> Some (Num (if b then 1 else 0))
      | VInt i \<Rightarrow> Some (Num (of_int i))
      | VFloat f \<Rightarrow> Some f
      | _ \<Rightarrow> None)"

definition int_value :: "pyval \<Rightarrow> int option" where
  "int_value v =
     (case v of VBool b \<Rightarrow> Some (if b then 1 else 0) | VInt i \<Rightarrow> Some i | _ \<Rightarrow> None)"

text \<open>
  Truth of a value under \<^verbatim>\<open>if\<close> and \<^verbatim>\<open>assert\<close>: \<^verbatim>\<open>None\<close>, \<^verbatim>\<open>False\<close>, zero and the
  empty tuple are false, a missing value is true, an object of a class without
  \<^verbatim>\<open>__bool__\<close> and \<^verbatim>\<open>__len__\<close> is true. An array of one entry has the truth of the
  entry; the truth of any other array is a \<^verbatim>\<open>ValueError\<close> (for an array without
  entries from numpy 2.2 on; older versions warn and take it for false).
\<close>

definition truth :: "pyval \<Rightarrow> error + bool" where
  "truth v =
     (case v of
        VNone \<Rightarrow> Inr False
      | VBool b \<Rightarrow> Inr b
      | VInt i \<Rightarrow> Inr (i \<noteq> 0)
      | VFloat f \<Rightarrow> Inr (f \<noteq> Num 0)
      | VArr a \<Rightarrow> (case data a of [x] \<Rightarrow> Inr (x \<noteq> Num 0) | _ \<Rightarrow> Inl ValueError)
      | VSeq xs \<Rightarrow> Inr (xs \<noteq> [])
      | _ \<Rightarrow> Inr True)"

text \<open>
  Truth of \<^verbatim>\<open>v == n\<close> for an integer \<open>n\<close>: numbers are compared by value (so
  \<^verbatim>\<open>True == 1\<close> and \<^verbatim>\<open>1.0 == 1\<close> hold, and a missing value equals nothing); an array
  is compared entry by entry, and the result is an array, with the truth of an array;
  any other value differs from every integer.
\<close>

definition eq_int :: "pyval \<Rightarrow> int \<Rightarrow> error + bool" where
  "eq_int v n =
     (case v of
        VArr a \<Rightarrow> (case data a of [x] \<Rightarrow> Inr (x = Num (of_int n)) | _ \<Rightarrow> Inl ValueError)
      | _ \<Rightarrow> Inr (number v = Some (Num (of_int n))))"

text \<open>
  Sequencing for methods that change the object: the next step runs on the object the
  previous one returned; an exception carries the object as it was when raised.
\<close>

definition then_on :: "(error \<times> pyobj) + pyobj \<Rightarrow> (pyobj \<Rightarrow> (error \<times> pyobj) + pyobj)
    \<Rightarrow> (error \<times> pyobj) + pyobj" where
  "then_on r f = (case r of Inl x \<Rightarrow> Inl x | Inr self \<Rightarrow> f self)"

text \<open>A step that raises without having changed the object, inside such a method.\<close>

definition eval_on :: "pyobj \<Rightarrow> error + 'a \<Rightarrow> ('a \<Rightarrow> (error \<times> pyobj) + pyobj)
    \<Rightarrow> (error \<times> pyobj) + pyobj" where
  "eval_on self r f = (case r of Inl e \<Rightarrow> Inl (e, self) | Inr v \<Rightarrow> f v)"

section \<open>relaxed/models.py: the prediction models\<close>

text \<open>
  \<^verbatim>\<open>self.n_features\<close> where a count is needed (\<^verbatim>\<open>range(n_features + 1)\<close>,
  \<^verbatim>\<open>np.zeros((1 + n_features, 1 + n_features))\<close>): an integer or a boolean; with
  any other value the sum is no integer and the call a \<^verbatim>\<open>TypeError\<close>. As the extent
  of an axis (\<^verbatim>\<open>reshape(n_features, 1)\<close>) numpy takes an integer and refuses a boolean.
\<close>

definition as_count :: "pyval \<Rightarrow> error + nat" where
  "as_count v = (case int_value v of Some i \<Rightarrow> Inr (nat i) | None \<Rightarrow> Inl TypeError)"

definition as_dimension :: "pyval \<Rightarrow> error + nat" where
  "as_dimension v = (case v of VInt i \<Rightarrow> Inr (nat i) | _ \<Rightarrow> Inl TypeError)"

text \<open>A value used as an array: any other value has not the method or operator asked for.\<close>

definition as_array :: "error \<Rightarrow> pyval \<Rightarrow> error + ndarray" where
  "as_array e v = (case v of VArr a \<Rightarrow> Inr a | _ \<Rightarrow> Inl e)"

text \<open>
  Truth of \<^verbatim>\<open>(use_logs + use_qt) <= 1\<close>. Two numbers are added and the sum compared
  (a missing value is not below anything). When one operand is an array, the other is
  taken as an array too (a number as one entry, a tuple as its entries), and sum and
  comparison go entry by entry after broadcasting: the result has a truth only when it
  has one entry, that is when both operands have one; otherwise the broadcast or the
  truth of the result is a \<^verbatim>\<open>ValueError\<close>. Every other pair of operands is a
  \<^verbatim>\<open>TypeError\<close>, of the sum or of the comparison.
\<close>

definition at_most_one :: "npfloat \<Rightarrow> bool" where
  "at_most_one f = (case f of Num r \<Rightarrow> r \<le> 1 | NaN \<Rightarrow> False)"

definition elements :: "pyval \<Rightarrow> npfloat list option" where
  "elements v =
     (case v of
        VArr a \<Rightarrow> Some (data a)
      | VSeq xs \<Rightarrow> Some (map Num xs)
      | _ \<Rightarrow> (case number v of Some x \<Rightarrow> Some [x] | None \<Rightarrow> None))"

definition is_ndarray :: "pyval \<Rightarrow> bool" where
  "is_ndarray v = (case v of VArr a \<Rightarrow> True | _ \<Rightarrow> False)"

definition sum_at_most_one :: "pyval \<Rightarrow> pyval \<Rightarrow> error + bool" where
  "sum_at_most_one a b =
     (case (number a, number b) of
        (Some x, Some y) \<Rightarrow> Inr (at_most_one (fl_add x y))
      | _ \<Rightarrow>
          if is_ndarray a \<or> is_ndarray b then
            (case (elements a, elements b) of
               (Some [x], Some [y]) \<Rightarrow> Inr (at_most_one (fl_add x y))
             | (Some xs, Some ys) \<Rightarrow> Inl ValueError
             | _ \<Rightarrow> Inl TypeError)
          else Inl TypeError)"

subsection \<open>Constructors\<close>

text \<open>
  \<^verbatim>\<open>
  class PredictionModel(ABC):
      def __init__(self, n_features: int) -> None:
          assert isinstance(n_features, int) and n_features > 0
          self.n_features = n_features
          self.trained = False  # whether model has been trained yet.
  \<close>
  The attribute keeps the value given: \<^verbatim>\<open>True\<close> passes the assertion and is stored
  as \<^verbatim>\<open>True\<close>.
\<close>

definition new_object :: "model_class \<Rightarrow> pyobj" where
  "new_object c = \<lparr>cls = c, attrs = Map.empty\<rparr>"

definition PredictionModel_init :: "pyobj \<Rightarrow> pyval \<Rightarrow> (error \<times> pyobj) + pyobj" where
  "PredictionModel_init self n_features =
     (case int_value n_features of
        Some n \<Rightarrow>
          if n > 0
          then Inr (setattr (setattr self ''n_features'' n_features) ''trained'' (VBool False))
          else Inl (AssertionError, self)
      | None \<Rightarrow> Inl (AssertionError, self))"

text \<open>
  \<^verbatim>\<open>
  class PredictionModelTransform(PredictionModel, ABC):
      def __init__(self, n_features: int, use_qt: bool = False, use_logs: bool = False) -> None:
          super().__init__(n_features)
          assert (use_logs + use_qt) <= 1
          self.use_qt = use_qt  # whether to transform data to be gaussian using quantiles.
          self.use_logs = use_logs  # whether to convert quantities to log space.
          # fit attributes
          self.qt_x = None
          self.qt_y = None
  \<close>
\<close>

definition PredictionModelTransform_init ::
  "pyobj \<Rightarrow> pyval \<Rightarrow> pyval \<Rightarrow> pyval \<Rightarrow> (error \<times> pyobj) + pyobj" where
  "PredictionModelTransform_init self n_features use_qt use_logs =
     then_on (PredictionModel_init self n_features) (\<lambda>self.
       eval_on self (sum_at_most_one use_logs use_qt) (\<lambda>ok.
         if \<not> ok then Inl (AssertionError, self)
         else Inr (setattr (setattr (setattr (setattr self
                ''use_qt'' use_qt) ''use_logs'' use_logs) ''qt_x'' VNone) ''qt_y'' VNone)))"

text \<open>
  \<^verbatim>\<open>
  class LogNormalRandomSample(PredictionModel):
      def __init__(self, n_features: int) -> None:
          super().__init__(n_features)
          self.mu = None
          self.sigma = None
  \<close>
\<close>

definition LogNormalRandomSample_init :: "pyobj \<Rightarrow> pyval \<Rightarrow> (error \<times> pyobj) + pyobj" where
  "LogNormalRandomSample_init self n_features =
     then_on (PredictionModel_init self n_features) (\<lambda>self.
       Inr (setattr (setattr self ''mu'' VNone) ''sigma'' VNone))"

text \<open>
  \<^verbatim>\<open>
  class LinearRegression(PredictionModelTransform):
      def __init__(self, n_features: int, use_qt: bool = False, use_logs: bool = False) -> None:
          super().__init__(n_features, use_qt, use_logs)
          self.reg = None
  \<close>
\<close>

definition LinearRegression_init ::
  "pyobj \<Rightarrow> pyval \<Rightarrow> pyval \<Rightarrow> pyval \<Rightarrow> (error \<times> pyobj) + pyobj" where
  "LinearRegression_init self n_features use_qt use_logs =
     then_on (PredictionModelTransform_init self n_features use_qt use_logs) (\<lambda>self.
       Inr (setattr self ''reg'' VNone))"

text \<open>
  \<^verbatim>\<open>
  class LASSO(PredictionModelTransform):
      def __init__(self, n_features: int, alpha: float = 0.1, use_qt=False, use_logs=False) -> None:
          # alpha is the regularization parameter.
          super().__init__(n_features, use_qt, use_logs)
          self.alpha = alpha
          # attributes of fit
          self.lasso = None
          self.importance = None
  \<close>
\<close>

definition LASSO_init ::
  "pyobj \<Rightarrow> pyval \<Rightarrow> pyval \<Rightarrow> pyval \<Rightarrow> pyval \<Rightarrow> (error \<times> pyobj) + pyobj" where
  "LASSO_init self n_features alpha use_qt use_logs =
     then_on (PredictionModelTransform_init self n_features use_qt use_logs) (\<lambda>self.
       Inr (setattr (setattr (setattr self ''alpha'' alpha) ''lasso'' VNone) ''importance'' VNone))"

text \<open>
  \<^verbatim>\<open>
  class MultiVariateGaussian(PredictionModelTransform):
      def __init__(self, n_features: int, use_qt: bool = False, use_logs: bool = False) -> None:
          super().__init__(n_features, use_qt, use_logs)
          self.mu1 = None
          self.mu2 = None
          self.Sigma = None
          self.rho = None
          self.sigma_cond = None
  \<close>
\<close>

definition MultiVariateGaussian_init ::
  "pyobj \<Rightarrow> pyval \<Rightarrow> pyval \<Rightarrow> pyval \<Rightarrow> (error \<times> pyobj) + pyobj" where
  "MultiVariateGaussian_init self n_features use_qt use_logs =
     then_on (PredictionModelTransform_init self n_features use_qt use_logs) (\<lambda>self.
       Inr (setattr (setattr (setattr (setattr (setattr self
              ''mu1'' VNone) ''mu2'' VNone) ''Sigma'' VNone) ''rho'' VNone) ''sigma_cond'' VNone))"

text \<open>
  \<^verbatim>\<open>
  class CAM(PredictionModel):
      def __init__(
          self, n_features: int, mass_bins: np.ndarray, mrange: Iterable, cam_order: int = -1
      ) -> None:
          # cam_order: +1 or -1 depending on correlation of a_{n} with y
          assert n_features == len(mass_bins)
          super().__init__(n_features)
          assert cam_order in {-1, 1}
          assert isinstance(mrange, Iterable) and len(mrange) == 2
          assert isinstance(mass_bins, np.ndarray)
          self.mrange = mrange
          self.cam_order = cam_order
          self.mass_bins = mass_bins
          # fit attributes
          self.an_to_mark = None
          self.mark_to_Y = None
  \<close>
  The values with a length are arrays and tuples; \<^verbatim>\<open>len\<close> of another value is a
  \<^verbatim>\<open>TypeError\<close>. Membership in the set \<^verbatim>\<open>{-1, 1}\<close> goes by hash and \<^verbatim>\<open>==\<close>: the
  numbers equal to \<open>-1\<close> or \<open>1\<close> are members, whatever their type (\<^verbatim>\<open>1.0\<close> and
  \<^verbatim>\<open>True\<close> are), an array has no hash (\<^verbatim>\<open>TypeError\<close>), any other value is no member.
  The instances of \<^verbatim>\<open>Iterable\<close> are the arrays and the tuples; \<^verbatim>\<open>len\<close> of an array
  without axes is a \<^verbatim>\<open>TypeError\<close>.
\<close>

definition py_len :: "pyval \<Rightarrow> error + nat" where
  "py_len v =
     (case v of VArr a \<Rightarrow> len_array a | VSeq xs \<Rightarrow> Inr (length xs) | _ \<Rightarrow> Inl TypeError)"

definition in_minus_one_one :: "pyval \<Rightarrow> error + bool" where
  "in_minus_one_one v =
     (case v of
        VArr a \<Rightarrow> Inl TypeError
      | _ \<Rightarrow> Inr (number v = Some (Num (- 1)) \<or> number v = Some (Num 1)))"

definition iterable_of_two :: "pyval \<Rightarrow> error + bool" where
  "iterable_of_two v =
     (case v of
        VSeq r \<Rightarrow> Inr (length r = 2)
      | VArr a \<Rightarrow> and_then (len_array a) (\<lambda>n. Inr (n = 2))
      | _ \<Rightarrow> Inr False)"

definition CAM_init ::
  "pyobj \<Rightarrow> pyval \<Rightarrow> pyval \<Rightarrow> pyval \<Rightarrow> pyval \<Rightarrow> (error \<times> pyobj) + pyobj" where
  "CAM_init self n_features mass_bins mrange cam_order =
     eval_on self (py_len mass_bins) (\<lambda>n_bins.
     eval_on self (eq_int n_features (int n_bins)) (\<lambda>same.
       if \<not> same then Inl (AssertionError, self)
       else
         then_on (PredictionModel_init self n_features) (\<lambda>self.
         eval_on self (in_minus_one_one cam_order) (\<lambda>member.
           if \<not> member then Inl (AssertionError, self)
           else
             eval_on self (iterable_of_two mrange) (\<lambda>two.
               if \<not> two then Inl (AssertionError, self)
               else if \<not> is_ndarray mass_bins then Inl (AssertionError, self)
               else Inr (setattr (setattr (setattr (setattr (setattr self
                      ''mrange'' mrange) ''cam_order'' cam_order) ''mass_bins'' mass_bins)
                      ''an_to_mark'' VNone) ''mark_to_Y'' VNone))))))"

subsection \<open>The \_fit and \_predict methods of the classes\<close>

text \<open>
  \<^verbatim>\<open>
  class LogNormalRandomSample(PredictionModel):
      def _fit(self, x, y):
          assert np.all(y > 0)
          mu, sigma = np.mean(np.log(y)), np.std(np.log(y))
          self.mu = mu
          self.sigma = sigma

      def _predict(self, x):
          n_test = len(x)
          return np.exp(np.random.normal(self.mu, self.sigma, n_test))
  \<close>
\<close>

definition LogNormalRandomSample__fit ::
  "numpy \<Rightarrow> pyobj \<Rightarrow> ndarray \<Rightarrow> ndarray \<Rightarrow> (error \<times> pyobj) + pyobj" where
  "LogNormalRandomSample__fit E self x y =
     (if \<not> list_all (\<lambda>v. case v of Num r \<Rightarrow> 0 < r | NaN \<Rightarrow> False) (data y)
      then Inl (AssertionError, self)
      else
        let mu = np_mean E (np_log E y); sigma = np_std E (np_log E y)
        in Inr (setattr (setattr self ''mu'' (VFloat mu)) ''sigma'' (VFloat sigma)))"

definition LogNormalRandomSample__predict :: "numpy \<Rightarrow> pyobj \<Rightarrow> ndarray \<Rightarrow> error + ndarray" where
  "LogNormalRandomSample__predict E self x =
     and_then (len_array x) (\<lambda>n_test.
     and_then (getattr self ''mu'') (\<lambda>mu.
     and_then (getattr self ''sigma'') (\<lambda>sigma.
       Inr (np_exp E (random_normal E mu sigma n_test)))))"

text \<open>
  \<^verbatim>\<open>
  class LinearRegression(PredictionModelTransform):
      def _fit(self, x, y):
          self.reg = linear_model.LinearRegression().fit(x, y)

      def _predict(self, x):
          return self.reg.predict(x)
  \<close>
\<close>

definition LinearRegression__fit ::
  "numpy \<Rightarrow> pyobj \<Rightarrow> ndarray \<Rightarrow> ndarray \<Rightarrow> (error \<times> pyobj) + pyobj" where
  "LinearRegression__fit E self x y =
     eval_on self (linreg_fit E x y) (\<lambda>reg. Inr (setattr self ''reg'' (VEstimator reg)))"

definition estimator_predict :: "numpy \<Rightarrow> pyval \<Rightarrow> ndarray \<Rightarrow> error + ndarray" where
  "estimator_predict E est x =
     (case est of VEstimator reg \<Rightarrow> sk_predict E reg x | _ \<Rightarrow> Inl (AttributeError ''predict''))"

definition LinearRegression__predict :: "numpy \<Rightarrow> pyobj \<Rightarrow> ndarray \<Rightarrow> error + ndarray" where
  "LinearRegression__predict E self x =
     and_then (getattr self ''reg'') (\<lambda>reg. estimator_predict E reg x)"

text \<open>
  \<^verbatim>\<open>
  class LASSO(PredictionModelTransform):
      def _fit(self, x, y):
          # use lasso linear regression.
          _lasso = linear_model.Lasso(alpha=self.alpha)
          selector = SelectFromModel(estimator=_lasso).fit(x, y)
          self.lasso = _lasso.fit(x, y)
          self.importance = selector.estimator.coef_

      def _predict(self, x):
          return self.lasso.predict(x)
  \<close>
\<close>

definition LASSO__fit ::
  "numpy \<Rightarrow> pyobj \<Rightarrow> ndarray \<Rightarrow> ndarray \<Rightarrow> (error \<times> pyobj) + pyobj" where
  "LASSO__fit E self x y =
     eval_on self (getattr self ''alpha'') (\<lambda>alpha.
     eval_on self (select_from_model_fit E alpha x y) (\<lambda>selector.
     eval_on self (lasso_fit E alpha x y) (\<lambda>fitted.
       let self1 = setattr self ''lasso'' (VEstimator fitted)
       in Inr (setattr self1 ''importance'' (VArr (lasso_coef E fitted))))))"

definition LASSO__predict :: "numpy \<Rightarrow> pyobj \<Rightarrow> ndarray \<Rightarrow> error + ndarray" where
  "LASSO__predict E self x =
     and_then (getattr self ''lasso'') (\<lambda>lasso. estimator_predict E lasso x)"

text \<open>
  \<^verbatim>\<open>
  class MultiVariateGaussian(PredictionModelTransform):
      def _fit(self, x, y):
          n_features = self.n_features

          # calculate sigma/correlation matrix bewteen all quantities
          z = np.vstack([y.reshape(1, -1), x.T]).T

          # some sanity checks
          assert z.shape == (y.shape[0], n_features + 1)
          np.testing.assert_equal(y, z[:, 0])
          np.testing.assert_equal(x[:, 0], z[:, 1])  # ignore mutual nan's
          np.testing.assert_equal(x[:, -1], z[:, -1])

          # calculate covariances
          Sigma = np.zeros((1 + n_features, 1 + n_features))
          rho = np.zeros((1 + n_features, 1 + n_features))
          for i in range(n_features + 1):
              for j in range(n_features + 1):
                  if i <= j:
                      # calculate correlation coefficient keeping only non-nan values
                      z1, z2 = z[:, i], z[:, j]
                      keep = ~np.isnan(z1) & ~np.isnan(z2)
                      cov = np.cov(z1[keep], z2[keep])
                      assert cov.shape == (2, 2)
                      Sigma[i, j] = cov[0, 1]
                      rho[i, j] = np.corrcoef(z1[keep], z2[keep])[0, 1]
                  else:
                      rho[i, j] = rho[j, i]
                      Sigma[i, j] = Sigma[j, i]

          # more sanity
          assert np.all(~np.isnan(Sigma))
          assert np.all(~np.isnan(rho))

          mu1 = np.nanmean(y).reshape(1, 1)
          mu2 = np.nanmean(x, axis=0).reshape(n_features, 1)
          Sigma11 = Sigma[0, 0].reshape(1, 1)
          Sigma12 = Sigma[0, 1:].reshape(1, n_features)
          Sigma22 = Sigma[1:, 1:].reshape(n_features, n_features)
          sigma_cond = Sigma11 - Sigma12.dot(np.linalg.inv(Sigma22)).dot(Sigma12.T)

          # update prediction attributes
          self.mu1 = mu1
          self.mu2 = mu2
          self.Sigma = Sigma
          self.rho = rho
          self.sigma_cond = sigma_cond

      def _predict(self, x):
          # returns mu_cond evaluated given x.
          assert np.sum(np.isnan(x)) == 0
          x = x.reshape(-1, self.n_features).T
          mu_cond = self.mu1 + self.Sigma12.dot(np.linalg.inv(self.Sigma22)).dot(x - self.mu2)
          return mu_cond.reshape(-1)
  \<close>
  \<^verbatim>\<open>_fit\<close> is reached through \<^verbatim>\<open>fit\<close>, whose assertions make \<open>x\<close> two-dimensional
  with \<^verbatim>\<open>n_features\<close> columns and \<open>y\<close> of as many entries as \<open>x\<close> has rows. The columns
  of \<open>z\<close> are then \<open>y\<close> and the columns of \<open>x\<close>, the first sanity check holds, and
  \<^verbatim>\<open>np.testing.assert_equal(y, z[:, 0])\<close> compares shapes before entries: it raises
  \<^verbatim>\<open>AssertionError\<close> unless \<open>y\<close> is one-dimensional (it takes missing values for equal,
  as the next two checks do). An entry below the diagonal is a copy of the entry above,
  computed earlier in the loop. With \<^verbatim>\<open>n_features\<close> the boolean \<^verbatim>\<open>True\<close> the sums
  \<^verbatim>\<open>n_features + 1\<close> are integers, and the first call that refuses the boolean is
  \<^verbatim>\<open>reshape(n_features, 1)\<close>. \<^verbatim>\<open>Sigma12\<close> and \<^verbatim>\<open>Sigma22\<close> are local variables of
  \<^verbatim>\<open>_fit\<close>; the five assignments at its end are the only ones, and nothing assigns
  \<^verbatim>\<open>self.Sigma12\<close> or \<^verbatim>\<open>self.Sigma22\<close>.
\<close>

definition z_columns :: "ndarray \<Rightarrow> ndarray \<Rightarrow> npfloat list list" where
  "z_columns x y = data y # map (column x) [0..<shape x ! 1]"

definition sigma_entry :: "numpy \<Rightarrow> npfloat list list \<Rightarrow> nat \<Rightarrow> nat \<Rightarrow> error + npfloat \<times> npfloat" where
  "sigma_entry E z i j =
     (let z1 = z ! i; z2 = z ! j;
          keep = map2 (\<lambda>a b. a \<noteq> NaN \<and> b \<noteq> NaN) z1 z2;
          cov = np_cov E (mask_select keep z1) (mask_select keep z2)
      in if shape cov \<noteq> [2, 2] then Inl AssertionError
         else
           and_then (getitem2 cov 0 1) (\<lambda>s.
           and_then (getitem2 (np_corrcoef E (mask_select keep z1) (mask_select keep z2)) 0 1)
             (\<lambda>r. Inr (s, r))))"

definition sigma_rho :: "numpy \<Rightarrow> npfloat list list \<Rightarrow> nat \<Rightarrow> error + ndarray \<times> ndarray" where
  "sigma_rho E z n_features =
     and_then (traverse (\<lambda>(i, j). if i \<le> j then sigma_entry E z i j else sigma_entry E z j i)
                 (List.product [0..<n_features + 1] [0..<n_features + 1])) (\<lambda>entries.
       Inr (\<lparr>shape = [1 + n_features, 1 + n_features], data = map fst entries\<rparr>,
            \<lparr>shape = [1 + n_features, 1 + n_features], data = map snd entries\<rparr>))"

text \<open>\<^verbatim>\<open>Sigma[0, 1:]\<close> and \<^verbatim>\<open>Sigma[1:, 1:]\<close> of a square array of side \<open>1 + n\<close>.\<close>

definition first_row_tail :: "ndarray \<Rightarrow> nat \<Rightarrow> ndarray" where
  "first_row_tail a n = \<lparr>shape = [n], data = take n (drop 1 (data a))\<rparr>"

definition lower_right :: "ndarray \<Rightarrow> nat \<Rightarrow> ndarray" where
  "lower_right a n =
     \<lparr>shape = [n, n],
      data = concat (map (\<lambda>r. take n (drop (r * (1 + n) + 1) (data a))) [1..<1 + n])\<rparr>"

definition MultiVariateGaussian__fit ::
  "numpy \<Rightarrow> pyobj \<Rightarrow> ndarray \<Rightarrow> ndarray \<Rightarrow> (error \<times> pyobj) + pyobj" where
  "MultiVariateGaussian__fit E self x y =
     eval_on self (getattr self ''n_features'') (\<lambda>nf.
       if length (shape y) \<noteq> 1 then Inl (AssertionError, self)
       else
         eval_on self (as_count nf) (\<lambda>n_features.
         eval_on self (sigma_rho E (z_columns x y) n_features) (\<lambda>(Sigma, rho).
           if isnan_sum Sigma \<noteq> 0 then Inl (AssertionError, self)
           else if isnan_sum rho \<noteq> 0 then Inl (AssertionError, self)
           else
             let mu1 = \<lparr>shape = [1, 1], data = [np_nanmean E y]\<rparr>
             in eval_on self (as_dimension nf) (\<lambda>n_features.
                eval_on self (reshape (np_nanmean_axis0 E x) [n_features, 1]) (\<lambda>mu2.
                eval_on self (getitem2 Sigma 0 0) (\<lambda>s00.
                  let Sigma11 = \<lparr>shape = [1, 1], data = [s00]\<rparr>
                  in eval_on self (reshape (first_row_tail Sigma n_features) [1, n_features]) (\<lambda>Sigma12.
                     eval_on self (reshape (lower_right Sigma n_features) [n_features, n_features]) (\<lambda>Sigma22.
                     eval_on self (linalg_inv E Sigma22) (\<lambda>inv22.
                     eval_on self (np_dot E Sigma12 inv22) (\<lambda>t.
                     eval_on self (np_dot E t (transpose2 Sigma12)) (\<lambda>u.
                     eval_on self (np_sub E Sigma11 u) (\<lambda>sigma_cond.
                       Inr (setattr (setattr (setattr (setattr (setattr self
                              ''mu1'' (VArr mu1)) ''mu2'' (VArr mu2)) ''Sigma'' (VArr Sigma))
                              ''rho'' (VArr rho)) ''sigma_cond'' (VArr sigma_cond))))))))))))))"

definition MultiVariateGaussian__predict :: "numpy \<Rightarrow> pyobj \<Rightarrow> ndarray \<Rightarrow> error + ndarray" where
  "MultiVariateGaussian__predict E self x =
     (if isnan_sum x \<noteq> 0 then Inl AssertionError
      else
        and_then (getattr self ''n_features'') (\<lambda>nf.
        and_then (as_dimension nf) (\<lambda>n_features.
        and_then (reshape_rows x n_features) (\<lambda>xr.
          let xt = transpose2 xr
          in and_then (getattr self ''mu1'') (\<lambda>mu1.
             and_then (getattr self ''Sigma12'') (\<lambda>Sigma12.
             and_then (as_array (AttributeError ''dot'') Sigma12) (\<lambda>Sigma12.
             and_then (getattr self ''Sigma22'') (\<lambda>Sigma22.
             and_then (as_array TypeError Sigma22) (\<lambda>Sigma22.
             and_then (linalg_inv E Sigma22) (\<lambda>inv22.
             and_then (np_dot E Sigma12 inv22) (\<lambda>t.
             and_then (getattr self ''mu2'') (\<lambda>mu2.
             and_then (as_array TypeError mu2) (\<lambda>mu2.
             and_then (np_sub E xt mu2) (\<lambda>centred.
             and_then (np_dot E t centred) (\<lambda>u.
             and_then (as_array TypeError mu1) (\<lambda>mu1.
             and_then (np_add E mu1 u) (\<lambda>mu_cond.
               Inr (reshape_flat mu_cond))))))))))))))))))"

text \<open>
  \<^verbatim>\<open>
  class CAM(PredictionModel):
      def _fit(self, am, y):
          an_train = get_an_from_am(am, self.mass_bins, mrange=self.mrange).reshape(-1)
          assert an_train.shape[0] == am.shape[0]

          y_sort, an_sort = self.cam_order * np.sort(self.cam_order * y), np.sort(an_train)
          marks = np.arange(len(y_sort)) / len(y_sort)
          marks += (marks[1] - marks[0]) / 2
          self.an_to_mark = interp1d(an_sort, marks, fill_value=(0, 1), bounds_error=False)
          self.mark_to_Y = interp1d(
              marks, y_sort, fill_value=(y_sort[0], y_sort[-1]), bounds_error=False
          )

      def _predict(self, am):
          an = get_an_from_am(am, self.mass_bins, mrange=self.mrange)
          return self.mark_to_Y(self.an_to_mark(an))
  \<close>
  \<^verbatim>\<open>fit\<close> lets \<open>y\<close> be one-dimensional or a single column. \<^verbatim>\<open>np.sort\<close> orders along
  the last axis, so a column is left as it is; its length along that axis is one, and
  the second \<^verbatim>\<open>interp1d\<close>, given two marks or more, raises \<^verbatim>\<open>ValueError\<close> after
  \<^verbatim>\<open>an_to_mark\<close> has been assigned. The prediction is returned as a one-dimensional
  array, one entry per number \<^verbatim>\<open>get_an_from_am\<close> gave. \<^verbatim>\<open>cam_order\<close> multiplies
  as the number it is (the constructor lets integers, floats and \<^verbatim>\<open>True\<close> through);
  the product of an array with a value that is no number and no array is a
  \<^verbatim>\<open>TypeError\<close>, and a \<^verbatim>\<open>cam_order\<close> that is an array or a tuple, which no
  constructed object has, is not modelled further (\<^verbatim>\<open>TypeError\<close> stands for it).
\<close>

definition as_factor :: "pyval \<Rightarrow> error + npfloat" where
  "as_factor v = (case number v of Some c \<Rightarrow> Inr c | None \<Rightarrow> Inl TypeError)"

definition CAM__fit ::
  "numpy \<Rightarrow> pyobj \<Rightarrow> ndarray \<Rightarrow> ndarray \<Rightarrow> (error \<times> pyobj) + pyobj" where
  "CAM__fit E self am y =
     eval_on self (getattr self ''mass_bins'') (\<lambda>mass_bins.
     eval_on self (getattr self ''mrange'') (\<lambda>mrange.
     eval_on self (get_an_from_am E am mass_bins mrange) (\<lambda>an_train.
     eval_on self (shape_at am 0) (\<lambda>n_am.
       if length an_train \<noteq> n_am then Inl (AssertionError, self)
       else
         eval_on self (getattr self ''cam_order'') (\<lambda>cam_order.
         eval_on self (as_factor cam_order) (\<lambda>cam_order.
           let y_sort = (if length (shape y) = 1
                         then scale cam_order (np_sort (scale cam_order (data y)))
                         else scale cam_order (scale cam_order (data y)));
               an_sort = sort an_train
           in eval_on self (len_array y) (\<lambda>n.
              eval_on self (cam_marks n) (\<lambda>marks.
              eval_on self (interp1d_init an_sort (map Num marks) (Num 0, Num 1)) (\<lambda>an_to_mark.
                let self1 = setattr self ''an_to_mark'' (VInterp an_to_mark)
                in if length (shape y) \<noteq> 1 then Inl (ValueError, self1)
                   else
                     eval_on self1 (interp1d_init marks y_sort (hd y_sort, last y_sort))
                       (\<lambda>mark_to_Y. Inr (setattr self1 ''mark_to_Y'' (VInterp mark_to_Y))))))))))))"

definition as_interp :: "pyval \<Rightarrow> error + interp1d" where
  "as_interp v = (case v of VInterp f \<Rightarrow> Inr f | _ \<Rightarrow> Inl TypeError)"

definition CAM__predict :: "numpy \<Rightarrow> pyobj \<Rightarrow> ndarray \<Rightarrow> error + ndarray" where
  "CAM__predict E self am =
     and_then (getattr self ''mass_bins'') (\<lambda>mass_bins.
     and_then (getattr self ''mrange'') (\<lambda>mrange.
     and_then (get_an_from_am E am mass_bins mrange) (\<lambda>an.
     and_then (getattr self ''mark_to_Y'') (\<lambda>mark_to_Y.
     and_then (getattr self ''an_to_mark'') (\<lambda>an_to_mark.
     and_then (as_interp an_to_mark) (\<lambda>an_to_mark.
     and_then (as_interp mark_to_Y) (\<lambda>mark_to_Y.
       Inr \<lparr>shape = [length an],
            data = map (\<lambda>a. interp1d_call mark_to_Y (interp1d_call an_to_mark (Num a))) an\<rparr>)))))))"

subsection \<open>fit and predict\<close>

text \<open>The method a call of \<^verbatim>\<open>self._fit\<close> or \<^verbatim>\<open>self._predict\<close> reaches, by the class.\<close>

definition dispatch__fit ::
  "numpy \<Rightarrow> pyobj \<Rightarrow> ndarray \<Rightarrow> ndarray \<Rightarrow> (error \<times> pyobj) + pyobj" where
  "dispatch__fit E self x y =
     (case cls self of
        MultiVariateGaussian \<Rightarrow> MultiVariateGaussian__fit E self x y
      | CAM \<Rightarrow> CAM__fit E self x y
      | LinearRegression \<Rightarrow> LinearRegression__fit E self x y
      | LASSO \<Rightarrow> LASSO__fit E self x y
      | LogNormalRandomSample \<Rightarrow> LogNormalRandomSample__fit E self x y)"

definition dispatch__predict :: "numpy \<Rightarrow> pyobj \<Rightarrow> ndarray \<Rightarrow> error + ndarray" where
  "dispatch__predict E self x =
     (case cls self of
        MultiVariateGaussian \<Rightarrow> MultiVariateGaussian__predict E self x
      | CAM \<Rightarrow> CAM__predict E self x
      | LinearRegression \<Rightarrow> LinearRegression__predict E self x
      | LASSO \<Rightarrow> LASSO__predict E self x
      | LogNormalRandomSample \<Rightarrow> LogNormalRandomSample__predict E self x)"

text \<open>
  \<^verbatim>\<open>
  class PredictionModel(ABC):
      def predict(self, x):
          assert len(x.shape) == 2
          assert x.shape[1] == self.n_features
          assert np.sum(np.isnan(x)) == 0
          assert self.trained
          return self._predict(x)

      def fit(self, x, y):
          assert np.sum(np.isnan(x)) == np.sum(np.isnan(y)) == 0
          assert x.shape[0] == y.shape[0]
          assert len(y.shape) == 1 or y.shape[1] == 1
          assert len(x.shape) == 2
          assert x.shape[1] == self.n_features
          self._fit(x, y)
          self.trained = True
  \<close>
\<close>

definition PredictionModel_predict :: "numpy \<Rightarrow> pyobj \<Rightarrow> ndarray \<Rightarrow> error + ndarray" where
  "PredictionModel_predict E self x =
     (if length (shape x) \<noteq> 2 then Inl AssertionError
      else
        and_then (shape_at x 1) (\<lambda>x1.
        and_then (getattr self ''n_features'') (\<lambda>n_features.
        and_then (eq_int n_features (int x1)) (\<lambda>same.
          if \<not> same then Inl AssertionError
          else if isnan_sum x \<noteq> 0 then Inl AssertionError
          else
            and_then (getattr self ''trained'') (\<lambda>trained.
            and_then (truth trained) (\<lambda>trained.
              if \<not> trained then Inl AssertionError
              else dispatch__predict E self x))))))"

definition fit_assertions :: "pyobj \<Rightarrow> ndarray \<Rightarrow> ndarray \<Rightarrow> error + unit" where
  "fit_assertions self x y =
     (if \<not> (isnan_sum x = isnan_sum y \<and> isnan_sum y = 0) then Inl AssertionError
      else
        and_then (shape_at x 0) (\<lambda>x0.
        and_then (shape_at y 0) (\<lambda>y0.
          if x0 \<noteq> y0 then Inl AssertionError
          else
            and_then (if length (shape y) = 1 then Inr True
                      else and_then (shape_at y 1) (\<lambda>y1. Inr (y1 = 1))) (\<lambda>one_column.
              if \<not> one_column then Inl AssertionError
              else if length (shape x) \<noteq> 2 then Inl AssertionError
              else
                and_then (shape_at x 1) (\<lambda>x1.
                and_then (getattr self ''n_features'') (\<lambda>n_features.
                and_then (eq_int n_features (int x1)) (\<lambda>same.
                  if \<not> same then Inl AssertionError
                  else Inr ())))))))"

definition PredictionModel_fit ::
  "numpy \<Rightarrow> pyobj \<Rightarrow> ndarray \<Rightarrow> ndarray \<Rightarrow> (error \<times> pyobj) + pyobj" where
  "PredictionModel_fit E self x y =
     eval_on self (fit_assertions self x y) (\<lambda>checked.
       then_on (dispatch__fit E self x y) (\<lambda>self.
         Inr (setattr self ''trained'' (VBool True))))"

text \<open>
  \<^verbatim>\<open>
  class PredictionModelTransform(PredictionModel, ABC):
      def fit(self, x, y):
          if self.use_qt:
              self.qt_y = QuantileTransformer(n_quantiles=len(y), output_distribution="normal").fit(
                  y.reshape(-1, 1)
              )
              self.qt_x = QuantileTransformer(n_quantiles=len(x), output_distribution="normal").fit(x)
              x_trans = self.qt_x.transform(x)
              y_trans = self.qt_y.transform(y.reshape(-1, 1)).reshape(-1)
              super().fit(x_trans, y_trans)
          elif self.use_logs:
              super().fit(np.log(x), np.log(y))
          else:
              super().fit(x, y)

      def predict(self, x):
          if self.use_qt:
              x_trans = self.qt_x.transform(x)
              y_trans = super().predict(x_trans)
              return self.qt_y.inverse_transform(y_trans.reshape(-1, 1)).reshape(-1)
          elif self.use_logs:
              return np.exp(super().predict(np.log(x)))
          else:
              return super().predict(x)
  \<close>
\<close>

definition transformer_apply ::
  "(ndarray \<Rightarrow> ndarray \<Rightarrow> error + ndarray) \<Rightarrow> string \<Rightarrow> pyval \<Rightarrow> ndarray \<Rightarrow> error + ndarray" where
  "transformer_apply f method_name qt a =
     (case qt of VQt q \<Rightarrow> f q a | _ \<Rightarrow> Inl (AttributeError method_name))"

definition PredictionModelTransform_fit ::
  "numpy \<Rightarrow> pyobj \<Rightarrow> ndarray \<Rightarrow> ndarray \<Rightarrow> (error \<times> pyobj) + pyobj" where
  "PredictionModelTransform_fit E self x y =
     eval_on self (getattr self ''use_qt'') (\<lambda>use_qt.
     eval_on self (truth use_qt) (\<lambda>use_qt.
       if use_qt then
         eval_on self (len_array y) (\<lambda>len_y.
         eval_on self (qt_fit E len_y (reshape_column y)) (\<lambda>qt_y.
           let self1 = setattr self ''qt_y'' (VQt qt_y)
           in eval_on self1 (len_array x) (\<lambda>len_x.
              eval_on self1 (qt_fit E len_x x) (\<lambda>qt_x.
                let self2 = setattr self1 ''qt_x'' (VQt qt_x)
                in eval_on self2 (qt_transform E qt_x x) (\<lambda>x_trans.
                   eval_on self2 (qt_transform E qt_y (reshape_column y)) (\<lambda>y_col.
                     PredictionModel_fit E self2 x_trans (reshape_flat y_col)))))))
       else
         eval_on self (getattr self ''use_logs'') (\<lambda>use_logs.
         eval_on self (truth use_logs) (\<lambda>use_logs.
           if use_logs then PredictionModel_fit E self (np_log E x) (np_log E y)
           else PredictionModel_fit E self x y))))"

definition PredictionModelTransform_predict :: "numpy \<Rightarrow> pyobj \<Rightarrow> ndarray \<Rightarrow> error + ndarray" where
  "PredictionModelTransform_predict E self x =
     and_then (getattr self ''use_qt'') (\<lambda>use_qt.
     and_then (truth use_qt) (\<lambda>use_qt.
       if use_qt then
         and_then (getattr self ''qt_x'') (\<lambda>qt_x.
         and_then (transformer_apply (qt_transform E) ''transform'' qt_x x) (\<lambda>x_trans.
         and_then (PredictionModel_predict E self x_trans) (\<lambda>y_trans.
         and_then (getattr self ''qt_y'') (\<lambda>qt_y.
         and_then (transformer_apply (qt_inverse_transform E) ''inverse_transform'' qt_y
                     (reshape_column y_trans)) (\<lambda>y_col.
           Inr (reshape_flat y_col))))))
       else
         and_then (getattr self ''use_logs'') (\<lambda>use_logs.
         and_then (truth use_logs) (\<lambda>use_logs.
           if use_logs
           then and_then (PredictionModel_predict E self (np_log E x)) (\<lambda>p. Inr (np_exp E p))
           else PredictionModel_predict E self x))))"

text \<open>
  \<^verbatim>\<open>model.fit(x, y)\<close> and \<^verbatim>\<open>model.predict(x)\<close>: the three classes under
  \<^verbatim>\<open>PredictionModelTransform\<close> inherit its methods, the two others those of
  \<^verbatim>\<open>PredictionModel\<close>.
\<close>

definition fit :: "numpy \<Rightarrow> pyobj \<Rightarrow> ndarray \<Rightarrow> ndarray \<Rightarrow> (error \<times> pyobj) + pyobj" where
  "fit E self x y =
     (case cls self of
        CAM \<Rightarrow> PredictionModel_fit E self x y
      | LogNormalRandomSample \<Rightarrow> PredictionModel_fit E self x y
      | _ \<Rightarrow> PredictionModelTransform_fit E self x y)"

definition predict :: "numpy \<Rightarrow> pyobj \<Rightarrow> ndarray \<Rightarrow> error + ndarray" where
  "predict E self x =
     (case cls self of
        CAM \<Rightarrow> PredictionModel_predict E self x
      | LogNormalRandomSample \<Rightarrow> PredictionModel_predict E self x
      | _ \<Rightarrow> PredictionModelTransform_predict E self x)"

text \<open>The attributes that some \<^verbatim>\<open>fit\<close> or \<^verbatim>\<open>_fit\<close> of the module assigns.\<close>

definition assigned_by_fit :: "string set" where
  "assigned_by_fit = {''trained'', ''qt_x'', ''qt_y'', ''mu1'', ''mu2'', ''Sigma'', ''rho'',
     ''sigma_cond'', ''an_to_mark'', ''mark_to_Y'', ''reg'', ''lasso'', ''importance'',
     ''mu'', ''sigma''}"

section \<open>relaxed/models.py: training\_suite\<close>

text \<open>
  \<^verbatim>\<open>
  available_models = {
      "gaussian": MultiVariateGaussian,
      "cam": CAM,
      "linear": LinearRegression,
      "lasso": LASSO,
      "lognormal": LogNormalRandomSample,
  }
  \<close>
\<close>

definition available_models :: "(string \<times> model_class) list" where
  "available_models =
     [(''gaussian'', MultiVariateGaussian),
      (''cam'', CAM),
      (''linear'', LinearRegression),
      (''lasso'', LASSO),
      (''lognormal'', LogNormalRandomSample)]"

text \<open>
  A call \<^verbatim>\<open>cls(n_features, **kwargs)\<close> binds the keyword arguments to the parameters
  of \<^verbatim>\<open>__init__\<close> that follow \<^verbatim>\<open>n_features\<close>: a keyword that names none of them
  (or names \<^verbatim>\<open>n_features\<close> again) and a parameter without default that gets no
  value are \<^verbatim>\<open>TypeError\<close>s. A constructor that raises gives no object.
\<close>

definition parameters :: "model_class \<Rightarrow> (string \<times> pyval option) list" where
  "parameters c =
     (case c of
        MultiVariateGaussian \<Rightarrow> [(''use_qt'', Some (VBool False)), (''use_logs'', Some (VBool False))]
      | CAM \<Rightarrow> [(''mass_bins'', None), (''mrange'', None), (''cam_order'', Some (VInt (- 1)))]
      | LinearRegression \<Rightarrow> [(''use_qt'', Some (VBool False)), (''use_logs'', Some (VBool False))]
      | LASSO \<Rightarrow> [(''alpha'', Some (VFloat (Num (1 / 10)))), (''use_qt'', Some (VBool False)),
                  (''use_logs'', Some (VBool False))]
      | LogNormalRandomSample \<Rightarrow> [])"

definition bind_arguments ::
  "(string \<times> pyval option) list \<Rightarrow> (string \<times> pyval) list \<Rightarrow> error + pyval list" where
  "bind_arguments params kw =
     (if \<not> list_all (\<lambda>(k, v). k \<in> set (map fst params)) kw then Inl TypeError
      else
        traverse (\<lambda>(p, default).
                    case map_of kw p of
                      Some v \<Rightarrow> Inr v
                    | None \<Rightarrow> (case default of Some d \<Rightarrow> Inr d | None \<Rightarrow> Inl TypeError))
          params)"

definition construct :: "model_class \<Rightarrow> pyval \<Rightarrow> (string \<times> pyval) list \<Rightarrow> error + pyobj" where
  "construct c nf kw =
     and_then (bind_arguments (parameters c) kw) (\<lambda>args.
       case (case c of
               MultiVariateGaussian \<Rightarrow>
                 MultiVariateGaussian_init (new_object c) nf (args ! 0) (args ! 1)
             | CAM \<Rightarrow> CAM_init (new_object c) nf (args ! 0) (args ! 1) (args ! 2)
             | LinearRegression \<Rightarrow> LinearRegression_init (new_object c) nf (args ! 0) (args ! 1)
             | LASSO \<Rightarrow> LASSO_init (new_object c) nf (args ! 0) (args ! 1) (args ! 2)
             | LogNormalRandomSample \<Rightarrow> LogNormalRandomSample_init (new_object c) nf) of
         Inl (e, partial) \<Rightarrow> Inl e
       | Inr self \<Rightarrow> Inr self)"

text \<open>
  \<^verbatim>\<open>
  def training_suite(data: dict):
      # check data dict is in the right format.
      assert isinstance(data, dict)
      for name in data:
          assert isinstance(data[name]["xy"], tuple)
          assert data[name]["model"] in available_models
          assert isinstance(data[name]["n_features"], int)
          assert isinstance(data[name]["kwargs"], dict)
          assert data[name]["n_features"] == data[name]["xy"][0].shape[1]

      trained_models = {}
      for name in data:
          m = data[name]["model"]
          kwargs = data[name]["kwargs"]
          n_features = data[name]["n_features"]
          x, y = data[name]["xy"]
          model = available_models[m](n_features, **kwargs)
          model.fit(x, y)
          trained_models[name] = model

      return trained_models
  \<close>
  \<open>data\<close> is a dictionary, read in insertion order: a list of pairs. An entry is a
  dictionary that may lack any of its four keys (\<open>None\<close>: the key is absent, and
  reading it raises \<^verbatim>\<open>KeyError\<close>). The value under \<^verbatim>\<open>xy\<close> is a tuple of arrays or
  something else, the one under \<^verbatim>\<open>kwargs\<close> a dictionary or something else, the one
  under \<^verbatim>\<open>n_features\<close> any value (the instances of \<^verbatim>\<open>int\<close> are the integers and
  the booleans, and \<^verbatim>\<open>True == 1\<close>). The result is a dictionary from names to model
  objects.
\<close>

datatype xy_value = XYTuple "ndarray list" | XYOther

datatype kwargs_value = KwDict "(string \<times> pyval) list" | KwOther

record info =
  xy :: "xy_value option"
  model :: "string option"
  n_features :: "pyval option"
  kwargs :: "kwargs_value option"

definition getitem :: "'a option \<Rightarrow> string \<Rightarrow> error + 'a" where
  "getitem field k = (case field of None \<Rightarrow> Inl (KeyError k) | Some v \<Rightarrow> Inr v)"

definition tuple_first :: "xy_value \<Rightarrow> error + ndarray" where
  "tuple_first v =
     (case v of XYTuple (x # rest) \<Rightarrow> Inr x | XYTuple [] \<Rightarrow> Inl IndexError | XYOther \<Rightarrow> Inl TypeError)"

definition unpack_pair :: "xy_value \<Rightarrow> error + ndarray \<times> ndarray" where
  "unpack_pair v =
     (case v of XYTuple [x, y] \<Rightarrow> Inr (x, y) | XYTuple other \<Rightarrow> Inl ValueError
              | XYOther \<Rightarrow> Inl TypeError)"

definition check_entry :: "info \<Rightarrow> error + unit" where
  "check_entry i =
     and_then (getitem (xy i) ''xy'') (\<lambda>v.
       if \<not> (case v of XYTuple t \<Rightarrow> True | XYOther \<Rightarrow> False) then Inl AssertionError
       else
     and_then (getitem (model i) ''model'') (\<lambda>m.
       if map_of available_models m = None then Inl AssertionError
       else
     and_then (getitem (n_features i) ''n_features'') (\<lambda>nf.
       if int_value nf = None then Inl AssertionError
       else
     and_then (getitem (kwargs i) ''kwargs'') (\<lambda>kw.
       if \<not> (case kw of KwDict d \<Rightarrow> True | KwOther \<Rightarrow> False) then Inl AssertionError
       else
     and_then (tuple_first v) (\<lambda>x.
     and_then (shape_at x 1) (\<lambda>x1.
       if int_value nf \<noteq> Some (int x1) then Inl AssertionError else Inr ()))))))"

definition train_entry :: "numpy \<Rightarrow> info \<Rightarrow> error + pyobj" where
  "train_entry E i =
     and_then (getitem (model i) ''model'') (\<lambda>m.
     and_then (getitem (kwargs i) ''kwargs'') (\<lambda>kw.
     and_then (getitem (n_features i) ''n_features'') (\<lambda>nf.
     and_then (getitem (xy i) ''xy'') (\<lambda>v.
     and_then (unpack_pair v) (\<lambda>(x, y).
     and_then (case map_of available_models m of
                 None \<Rightarrow> Inl (KeyError m)
               | Some c \<Rightarrow> Inr c) (\<lambda>c.
     and_then (case kw of KwDict d \<Rightarrow> Inr d | KwOther \<Rightarrow> Inl TypeError) (\<lambda>d.
     and_then (construct c nf d) (\<lambda>new_model.
       case fit E new_model x y of
         Inl (e, partial) \<Rightarrow> Inl e
       | Inr fitted \<Rightarrow> Inr fitted))))))))"

fun train_loop ::
  "numpy \<Rightarrow> (string \<times> info) list \<Rightarrow> (string \<rightharpoonup> pyobj) \<Rightarrow> error + (string \<rightharpoonup> pyobj)" where
  "train_loop E [] trained_models = Inr trained_models"
| "train_loop E ((nm, i) # rest) trained_models =
     and_then (train_entry E i) (\<lambda>fitted.
       train_loop E rest (trained_models(nm \<mapsto> fitted)))"

definition training_suite :: "numpy \<Rightarrow> (string \<times> info) list \<Rightarrow> error + (string \<rightharpoonup> pyobj)" where
  "training_suite E entries =
     and_then (traverse check_entry (map snd entries)) (\<lambda>checked.
       train_loop E entries Map.empty)"

text \<open>
  What the specification calls a mismatch in an entry. An unknown model name. A feature
  count that differs from the column count of the entry's \<open>x\<close>. Malformed keyword
  arguments: a keyword that is no parameter of the constructor of the entry's class
  (\<^verbatim>\<open>n_features\<close>, given by position, is none), a parameter without default that gets
  no value, or both flags \<^verbatim>\<open>use_qt\<close> and \<^verbatim>\<open>use_logs\<close> set. A malformed entry: a key
  is missing, \<^verbatim>\<open>xy\<close> is no tuple of two arrays or its first array has no second axis,
  \<^verbatim>\<open>n_features\<close> is no integer, \<^verbatim>\<open>kwargs\<close> is no dictionary or holds malformed
  keyword arguments. An entry whose model raises: the entry is read without an
  exception, and the constructor call or the fit it describes raises.
\<close>

definition unknown_model :: "info \<Rightarrow> bool" where
  "unknown_model i = (case model i of Some m \<Rightarrow> m \<notin> set (map fst available_models) | None \<Rightarrow> False)"

definition feature_mismatch :: "info \<Rightarrow> bool" where
  "feature_mismatch i =
     (case (n_features i, xy i) of
        (Some nf, Some (XYTuple (x # rest))) \<Rightarrow>
           (case int_value nf of
              Some n \<Rightarrow> 2 \<le> length (shape x) \<and> n \<noteq> int (shape x ! 1)
            | None \<Rightarrow> False)
      | _ \<Rightarrow> False)"

definition malformed_kwargs :: "model_class \<Rightarrow> (string \<times> pyval) list \<Rightarrow> bool" where
  "malformed_kwargs c d =
     (list_ex (\<lambda>(k, v). k \<notin> set (map fst (parameters c))) d
      \<or> list_ex (\<lambda>(p, default). default = None \<and> p \<notin> set (map fst d)) (parameters c)
      \<or> (map_of d ''use_qt'' = Some (VBool True) \<and> map_of d ''use_logs'' = Some (VBool True)))"

definition malformed :: "info \<Rightarrow> bool" where
  "malformed i =
     (xy i = None \<or> model i = None \<or> n_features i = None \<or> kwargs i = None
      \<or> (case xy i of
            Some (XYTuple [x, y]) \<Rightarrow> length (shape x) < 2
          | _ \<Rightarrow> True)
      \<or> (case n_features i of Some nf \<Rightarrow> int_value nf = None | None \<Rightarrow> True)
      \<or> (case kwargs i of
            Some (KwDict d) \<Rightarrow>
              (case model i of
                 Some m \<Rightarrow> (case map_of available_models m of
                              Some c \<Rightarrow> malformed_kwargs c d
                            | None \<Rightarrow> False)
               | None \<Rightarrow> False)
          | _ \<Rightarrow> True))"

definition model_raises :: "numpy \<Rightarrow> info \<Rightarrow> bool" where
  "model_raises E i =
     (case (model i, n_features i, kwargs i, xy i) of
        (Some m, Some nf, Some (KwDict d), Some (XYTuple [x, y])) \<Rightarrow>
          (case map_of available_models m of
             Some c \<Rightarrow>
               (case construct c nf d of
                  Inl e \<Rightarrow> True
                | Inr new_model \<Rightarrow> (case fit E new_model x y of Inl e \<Rightarrow> True | Inr fitted \<Rightarrow> False))
           | None \<Rightarrow> False)
      | _ \<Rightarrow> False)"

section \<open>Exact versions of library routines, to run the model on data\<close>

text \<open>
  The parameters of the model stand for any behaviour of the libraries. To run the
  model on a concrete input some of them are instantiated: the sample mean, covariance
  and correlation in exact arithmetic (a quotient by zero is \<^verbatim>\<open>nan\<close>, as \<open>0/0\<close> is),
  the matrix product, the entrywise difference of arrays of one shape, the inverse of a
  one-by-one matrix, and, for \<^verbatim>\<open>get_an_from_am\<close>, the first column of its argument.
\<close>

definition exact_mean :: "real list \<Rightarrow> npfloat" where
  "exact_mean xs = (if xs = [] then NaN else Num (sum_list xs / real (length xs)))"

definition exact_cov_entry :: "real list \<Rightarrow> real list \<Rightarrow> npfloat" where
  "exact_cov_entry xs ys =
     (if length xs \<le> 1 then NaN
      else
        let mx = sum_list xs / real (length xs); my = sum_list ys / real (length ys)
        in Num (sum_list (map2 (\<lambda>a b. (a - mx) * (b - my)) xs ys) / real (length xs - 1)))"

definition exact_cov :: "npfloat list \<Rightarrow> npfloat list \<Rightarrow> ndarray" where
  "exact_cov z1 z2 =
     (let xs = nums z1; ys = nums z2
      in \<lparr>shape = [2, 2],
          data = [exact_cov_entry xs xs, exact_cov_entry xs ys,
                  exact_cov_entry xs ys, exact_cov_entry ys ys]\<rparr>)"

definition exact_corr_entry :: "npfloat \<Rightarrow> npfloat \<Rightarrow> npfloat \<Rightarrow> npfloat" where
  "exact_corr_entry c vx vy =
     (case (c, vx, vy) of
        (Num c', Num vx', Num vy') \<Rightarrow>
           if vx' = 0 \<or> vy' = 0 then NaN else Num (c' / sqrt vx' / sqrt vy')
      | _ \<Rightarrow> NaN)"

definition exact_corrcoef :: "npfloat list \<Rightarrow> npfloat list \<Rightarrow> ndarray" where
  "exact_corrcoef z1 z2 =
     (let xs = nums z1; ys = nums z2;
          vx = exact_cov_entry xs xs; vy = exact_cov_entry ys ys; c = exact_cov_entry xs ys
      in \<lparr>shape = [2, 2],
          data = [exact_corr_entry vx vx vx, exact_corr_entry c vx vy,
                  exact_corr_entry c vx vy, exact_corr_entry vy vy vy]\<rparr>)"

definition exact_dot :: "ndarray \<Rightarrow> ndarray \<Rightarrow> error + ndarray" where
  "exact_dot a b =
     (if length (shape a) = 2 \<and> length (shape b) = 2 \<and> shape a ! 1 = shape b ! 0 then
        Inr \<lparr>shape = [shape a ! 0, shape b ! 1],
             data = concat (map (\<lambda>r. map (\<lambda>c.
                      foldr fl_add
                        (map (\<lambda>k. fl_mul (data a ! (r * (shape a ! 1) + k))
                                          (data b ! (k * (shape b ! 1) + c)))
                             [0..<shape a ! 1])
                        (Num 0))
                      [0..<shape b ! 1]) [0..<shape a ! 0])\<rparr>
      else Inl ValueError)"

definition exact_sub :: "ndarray \<Rightarrow> ndarray \<Rightarrow> error + ndarray" where
  "exact_sub a b =
     (if shape a = shape b then Inr \<lparr>shape = shape a, data = map2 fl_sub (data a) (data b)\<rparr>
      else Inl ValueError)"

definition inv_1x1 :: "ndarray \<Rightarrow> error + ndarray" where
  "inv_1x1 a =
     (case data a of
        [Num v] \<Rightarrow> if v = 0 then Inl LinAlgError else Inr \<lparr>shape = [1, 1], data = [Num (1 / v)]\<rparr>
      | _ \<Rightarrow> Inl LinAlgError)"

definition column_means :: "ndarray \<Rightarrow> ndarray" where
  "column_means a =
     \<lparr>shape = [shape a ! 1], data = map (\<lambda>c. exact_mean (nums (column a c))) [0..<shape a ! 1]\<rparr>"

definition first_column :: "ndarray \<Rightarrow> pyval \<Rightarrow> pyval \<Rightarrow> error + real list" where
  "first_column am mass_bins mrange = Inr (nums (column am 0))"

definition with_exact :: "numpy \<Rightarrow> numpy" where
  "with_exact E =
     E\<lparr>np_nanmean := (\<lambda>a. exact_mean (nums (data a))),
       np_nanmean_axis0 := column_means,
       np_cov := exact_cov,
       np_corrcoef := exact_corrcoef,
       np_dot := exact_dot,
       np_sub := exact_sub,
       linalg_inv := inv_1x1,
       get_an_from_am := first_column\<rparr>"

section \<open>Lemmas: intersect\<close>

subsection \<open>The binary search finds the leftmost insertion point\<close>

lemma bisect_left_spec:
  assumes "sorted arr" "lo \<le> hi" "hi \<le> length arr"
    and "\<forall>i<lo. arr ! i < v"
    and "\<forall>i. hi \<le> i \<and> i < length arr \<longrightarrow> v \<le> arr ! i"
  shows "bisect_left arr v lo hi \<le> length arr
       \<and> (\<forall>i<bisect_left arr v lo hi. arr ! i < v)
       \<and> (\<forall>i. bisect_left arr v lo hi \<le> i \<and> i < length arr \<longrightarrow> v \<le> arr ! i)"
  using assms
proof (induction arr v lo hi rule: bisect_left.induct)
  case (1 arr v lo hi)
  show ?case
  proof (cases "lo < hi")
    case False
    with "1.prems" have "lo = hi" by simp
    with False "1.prems" show ?thesis
      by (simp add: bisect_left.simps)
  next
    case True
    define mid where "mid = lo + (hi - lo) div 2"
    have mid: "lo \<le> mid" "mid < hi" using True by (auto simp: mid_def)
    show ?thesis
    proof (cases "arr ! mid < v")
      case less: True
      have below: "\<forall>i<mid + 1. arr ! i < v"
      proof (intro allI impI)
        fix i assume "i < mid + 1"
        then have "i \<le> mid" by simp
        moreover have "mid < length arr" using mid "1.prems" by simp
        ultimately have "arr ! i \<le> arr ! mid"
          using \<open>sorted arr\<close> by (simp add: sorted_nth_mono)
        with less show "arr ! i < v" by simp
      qed
      have "bisect_left arr v lo hi = bisect_left arr v (mid + 1) hi"
        using True less by (subst bisect_left.simps) (simp add: mid_def Let_def)
      moreover have "bisect_left arr v (mid + 1) hi \<le> length arr
          \<and> (\<forall>i<bisect_left arr v (mid + 1) hi. arr ! i < v)
          \<and> (\<forall>i. bisect_left arr v (mid + 1) hi \<le> i \<and> i < length arr \<longrightarrow> v \<le> arr ! i)"
        using "1.IH"(1) [OF True mid_def less] "1.prems" mid below by simp
      ultimately show ?thesis by simp
    next
      case geq: False
      have above: "\<forall>i. mid \<le> i \<and> i < length arr \<longrightarrow> v \<le> arr ! i"
      proof (intro allI impI)
        fix i assume "mid \<le> i \<and> i < length arr"
        then have "arr ! mid \<le> arr ! i"
          using \<open>sorted arr\<close> by (simp add: sorted_nth_mono)
        with geq show "v \<le> arr ! i" by simp
      qed
      have "bisect_left arr v lo hi = bisect_left arr v lo mid"
        using True geq by (subst bisect_left.simps) (simp add: mid_def Let_def)
      moreover have "bisect_left arr v lo mid \<le> length arr
          \<and> (\<forall>i<bisect_left arr v lo mid. arr ! i < v)
          \<and> (\<forall>i. bisect_left arr v lo mid \<le> i \<and> i < length arr \<longrightarrow> v \<le> arr ! i)"
        using "1.IH"(2) [OF True mid_def geq] "1.prems" mid above by simp
      ultimately show ?thesis by simp
    qed
  qed
qed

lemma bisect_left_found:
  assumes "sorted arr"
  shows "(bisect_left arr v 0 (length arr) < length arr
          \<and> arr ! bisect_left arr v 0 (length arr) = v) \<longleftrightarrow> v \<in> set arr"
proof -
  let ?r = "bisect_left arr v 0 (length arr)"
  have "?r \<le> length arr \<and> (\<forall>i<?r. arr ! i < v)
      \<and> (\<forall>i. ?r \<le> i \<and> i < length arr \<longrightarrow> v \<le> arr ! i)"
    by (rule bisect_left_spec [OF assms]) auto
  then have spec: "?r \<le> length arr" "\<forall>i<?r. arr ! i < v"
    "\<forall>i. ?r \<le> i \<and> i < length arr \<longrightarrow> v \<le> arr ! i"
    by blast+
  show ?thesis
  proof
    assume "?r < length arr \<and> arr ! ?r = v"
    then show "v \<in> set arr" by (metis nth_mem)
  next
    assume "v \<in> set arr"
    then obtain j where j: "j < length arr" "arr ! j = v"
      by (auto simp: in_set_conv_nth)
    have "?r \<le> j"
    proof (rule ccontr)
      assume "\<not> ?r \<le> j"
      then have "arr ! j < v" using spec(2) by simp
      with j show False by simp
    qed
    then have lt: "?r < length arr" using j by simp
    have "arr ! ?r \<le> arr ! j"
      by (rule sorted_nth_mono [OF assms \<open>?r \<le> j\<close> j(1)])
    moreover have "v \<le> arr ! ?r" using spec(3) lt by simp
    ultimately show "?r < length arr \<and> arr ! ?r = v" using lt j by simp
  qed
qed

subsection \<open>The masked update, position by position\<close>

lemma fancy_index_selected:
  "fancy_index arr (mask_select (map (\<lambda>i. i < length arr) indx) indx)
     = Inr (map ((!) arr) (mask_select (map (\<lambda>i. i < length arr) indx) indx))"
  by (induction indx) (simp_all add: and_then_def)

lemma masked_update_pointwise:
  "length indx = length ids1 \<Longrightarrow>
   mask_assign (map (\<lambda>i. i < n) indx) (map (\<lambda>i. i < n) indx)
     (map2 (\<and>) (mask_select (map (\<lambda>i. i < n) indx) (map (\<lambda>i. i < n) indx))
        (map2 (=) (map ((!) arr) (mask_select (map (\<lambda>i. i < n) indx) indx))
                  (mask_select (map (\<lambda>i. i < n) indx) ids1)))
   = Inr (map2 (\<lambda>i a. i < n \<and> arr ! i = a) indx ids1)"
proof (induction indx arbitrary: ids1)
  case Nil
  then show ?case by simp
next
  case (Cons i indx)
  then obtain a rest where ids1: "ids1 = a # rest" "length indx = length rest"
    by (cases ids1) auto
  show ?case
    using Cons.IH [OF ids1(2)] by (simp add: ids1 and_then_def)
qed

lemma intersect_sorted:
  assumes "sorted ids1" "sorted ids2"
  shows "intersect ids1 ids2 = Inr (map (\<lambda>a. a \<in> set ids2) ids1)"
proof -
  let ?indx = "searchsorted ids2 ids1"
  have len: "length ?indx = length ids1" by (simp add: searchsorted_def)
  have "intersect ids1 ids2
      = Inr (map2 (\<lambda>i a. i < length ids2 \<and> ids2 ! i = a) ?indx ids1)"
    using assms masked_update_pointwise [OF len, of "length ids2" ids2]
    by (simp add: intersect_def sorted_sort_id Let_def fancy_index_selected and_then_def)
  also have "map2 (\<lambda>i a. i < length ids2 \<and> ids2 ! i = a) ?indx ids1
      = map (\<lambda>a. a \<in> set ids2) ids1"
    using bisect_left_found [OF assms(2)]
    by (simp add: searchsorted_def zip_map1 zip_same_conv_map)
  finally show ?thesis .
qed

section \<open>Lemmas: filtering a catalog\<close>

lemma mask_select_Nil2: "mask_select m [] = []"
  by (cases m) simp_all

lemma mask_select_all_true: "mask_select (replicate (length xs) True) xs = xs"
  by (induction xs) simp_all

lemma length_mask_compose: "length (mask_compose m1 m2) = length m1"
  by (induction m1 m2 rule: mask_compose.induct) simp_all

lemma mask_select_compose:
  "mask_select (mask_compose m1 m2) xs = mask_select m2 (mask_select m1 xs)"
proof (induction m1 m2 arbitrary: xs rule: mask_compose.induct)
  case (1 m2)
  then show ?case by (simp add: mask_select_Nil2)
next
  case (2 m1 m2)
  then show ?case by (cases xs) (simp_all add: mask_select_Nil2)
next
  case (3 m1)
  then show ?case by (cases xs) simp_all
next
  case (4 m1 b m2)
  then show ?case by (cases xs) (simp_all add: mask_select_Nil2)
qed

lemma length_mask_select:
  "length m = length xs \<Longrightarrow> length (mask_select m xs) = length (filter (\<lambda>b. b) m)"
  by (induction m xs rule: mask_select.induct) simp_all

lemma cat_getitem_mask_all_true:
  assumes "wf_catalog tab"
  shows "cat_getitem_mask tab (replicate (nrows tab) True) = Inr tab"
proof -
  have "map (\<lambda>(k, col). (k, mask_select (replicate (nrows tab) True) col)) tab = map (\<lambda>p. p) tab"
  proof (rule map_cong [OF refl])
    fix p assume "p \<in> set tab"
    then have "length (snd p) = nrows tab"
      using assms by (auto simp: wf_catalog_def list_all_iff)
    then show "(case p of (k, col) \<Rightarrow> (k, mask_select (replicate (nrows tab) True) col)) = p"
      using mask_select_all_true [of "snd p"] by (cases p) simp
  qed
  then show ?thesis by (simp add: cat_getitem_mask_def)
qed

lemma cat_getitem_mask_wf:
  assumes "wf_catalog tab" "cat_getitem_mask tab msk = Inr tab'"
  shows "wf_catalog tab'"
proof -
  have len: "length msk = nrows tab"
    and tab': "tab' = map (\<lambda>(k, col). (k, mask_select msk col)) tab"
    using assms(2) by (auto simp: cat_getitem_mask_def split: if_splits)
  have cols: "\<And>k col. (k, col) \<in> set tab \<Longrightarrow>
      length (mask_select msk col) = length (filter (\<lambda>b. b) msk)"
    using assms(1) len by (auto simp: wf_catalog_def list_all_iff intro!: length_mask_select)
  have "nrows tab' = (if tab = [] then 0 else length (filter (\<lambda>b. b) msk))"
    using cols by (cases tab) (auto simp: tab' nrows_def)
  then show ?thesis
    using cols by (auto simp: wf_catalog_def list_all_iff tab')
qed

lemma filter_loop_all_true:
  assumes "wf_catalog tab"
    and "\<And>param ft. (param, ft) \<in> set fs \<Longrightarrow>
           \<exists>vals. hparam_values param tab = Inr vals \<and> ft vals = replicate (nrows tab) True"
  shows "filter_loop hparam_values fs tab = Inr tab"
  using assms(2)
proof (induction fs)
  case Nil
  then show ?case by simp
next
  case (Cons f fs)
  obtain param ft where f: "f = (param, ft)" by (cases f)
  from Cons.prems [of param ft] f obtain vals where
    v: "hparam_values param tab = Inr vals" "ft vals = replicate (nrows tab) True"
    by auto
  have "filter_loop hparam_values fs tab = Inr tab"
    by (rule Cons.IH) (use Cons.prems in auto)
  then show ?case
    by (simp add: f v and_then_def cat_getitem_mask_all_true [OF assms(1)])
qed

lemma filter_loop_is_mask:
  "wf_catalog tab \<Longrightarrow> filter_loop hparam_values fs tab = Inr tab' \<Longrightarrow>
   \<exists>mask. length mask = nrows tab \<and> tab' = map (\<lambda>(k, col). (k, mask_select mask col)) tab"
proof (induction fs arbitrary: tab)
  case Nil
  then have "cat_getitem_mask tab (replicate (nrows tab) True) = Inr tab'"
    by (simp add: cat_getitem_mask_all_true)
  then have "tab' = map (\<lambda>(k, col). (k, mask_select (replicate (nrows tab) True) col)) tab"
    by (simp add: cat_getitem_mask_def)
  then show ?case
    by (intro exI [of _ "replicate (nrows tab) True"]) simp
next
  case (Cons f fs)
  obtain param ft where f: "f = (param, ft)" by (cases f)
  from Cons.prems(2) obtain vals tab1 where
    step: "hparam_values param tab = Inr vals" "cat_getitem_mask tab (ft vals) = Inr tab1"
      "filter_loop hparam_values fs tab1 = Inr tab'"
    by (auto simp: f and_then_def split: sum.splits)
  have m1: "length (ft vals) = nrows tab"
    and tab1: "tab1 = map (\<lambda>(k, col). (k, mask_select (ft vals) col)) tab"
    using step(2) by (auto simp: cat_getitem_mask_def split: if_splits)
  have "wf_catalog tab1"
    by (rule cat_getitem_mask_wf [OF Cons.prems(1) step(2)])
  from Cons.IH [OF this step(3)] obtain m2 where
    m2: "tab' = map (\<lambda>(k, col). (k, mask_select m2 col)) tab1"
    by auto
  have "tab' = map (\<lambda>(k, col). (k, mask_select (mask_compose (ft vals) m2) col)) tab"
    by (simp add: m2 tab1 mask_select_compose case_prod_unfold)
  then show ?case
    using m1 by (intro exI [of _ "mask_compose (ft vals) m2"]) (simp add: length_mask_compose)
qed

lemma HaloFilter_call_frame:
  assumes "hcat < length store"
    and "HaloFilter_call hparam_values self hcat True store = (r, store')"
  shows "take (length store) store' = store"
  using assms
  by (auto simp: HaloFilter_call_def deepcopy_def Let_def split: sum.splits)

lemma HaloFilter_call_result:
  assumes "hcat < length store"
    and "HaloFilter_call hparam_values self hcat True store = (Inr new_hcat, store')"
  shows "new_hcat = length store \<and> length store' = Suc (length store)
       \<and> filter_cat hparam_values self (cat (store ! hcat)) = Inr (cat (store' ! new_hcat))
       \<and> hcat.name (store' ! new_hcat) = HaloFilter.name self
       \<and> hcat.more (store' ! new_hcat) = hcat.more (store ! hcat)"
  using assms
  by (auto simp: HaloFilter_call_def deepcopy_def Let_def nth_append split: sum.splits)

section \<open>Lemmas: the prediction models\<close>

subsection \<open>Sequencing\<close>

lemma and_then_Inr_iff: "and_then r f = Inr v \<longleftrightarrow> (\<exists>a. r = Inr a \<and> f a = Inr v)"
  by (cases r) (simp_all add: and_then_def)

lemma eval_on_Inr_iff: "eval_on self r f = Inr s \<longleftrightarrow> (\<exists>a. r = Inr a \<and> f a = Inr s)"
  by (cases r) (simp_all add: eval_on_def)

lemma then_on_Inr_iff: "then_on r f = Inr s \<longleftrightarrow> (\<exists>s1. r = Inr s1 \<and> f s1 = Inr s)"
  by (cases r) (simp_all add: then_on_def)

lemma attrs_setattr: "attrs (setattr self a v) b = (if b = a then Some v else attrs self b)"
  by (simp add: setattr_def)

lemma cls_setattr: "cls (setattr self a v) = cls self"
  by (simp add: setattr_def)

lemma PredictionModel_fit_trained:
  "PredictionModel_fit E self x y = Inr self' \<Longrightarrow> attrs self' ''trained'' = Some (VBool True)"
  by (auto simp: PredictionModel_fit_def eval_on_Inr_iff then_on_Inr_iff attrs_setattr)

lemma fit_trained:
  "fit E self x y = Inr self' \<Longrightarrow> attrs self' ''trained'' = Some (VBool True)"
  by (auto simp: fit_def PredictionModelTransform_fit_def eval_on_Inr_iff Let_def
      split: model_class.splits if_splits dest: PredictionModel_fit_trained)

subsection \<open>What fit assigns\<close>

lemma MultiVariateGaussian__fit_attrs:
  "MultiVariateGaussian__fit E self x y = Inr self' \<Longrightarrow>
   a \<notin> {''mu1'', ''mu2'', ''Sigma'', ''rho'', ''sigma_cond''} \<Longrightarrow> attrs self' a = attrs self a"
  by (auto simp: MultiVariateGaussian__fit_def eval_on_Inr_iff Let_def attrs_setattr
      split: if_splits prod.splits)

lemma CAM__fit_attrs:
  "CAM__fit E self x y = Inr self' \<Longrightarrow>
   a \<notin> {''an_to_mark'', ''mark_to_Y''} \<Longrightarrow> attrs self' a = attrs self a"
  by (auto simp: CAM__fit_def eval_on_Inr_iff Let_def attrs_setattr split: if_splits)

lemma LinearRegression__fit_attrs:
  "LinearRegression__fit E self x y = Inr self' \<Longrightarrow> a \<noteq> ''reg'' \<Longrightarrow> attrs self' a = attrs self a"
  by (auto simp: LinearRegression__fit_def eval_on_Inr_iff attrs_setattr)

lemma LASSO__fit_attrs:
  "LASSO__fit E self x y = Inr self' \<Longrightarrow> a \<notin> {''lasso'', ''importance''} \<Longrightarrow>
   attrs self' a = attrs self a"
  by (auto simp: LASSO__fit_def eval_on_Inr_iff attrs_setattr Let_def)

lemma LogNormalRandomSample__fit_attrs:
  "LogNormalRandomSample__fit E self x y = Inr self' \<Longrightarrow> a \<notin> {''mu'', ''sigma''} \<Longrightarrow>
   attrs self' a = attrs self a"
  by (auto simp: LogNormalRandomSample__fit_def attrs_setattr Let_def split: if_splits)

lemma drop_state_Inr_iff:
  "(case r of Inl (e, partial) \<Rightarrow> Inl e | Inr s \<Rightarrow> Inr s) = Inr s' \<longleftrightarrow> r = Inr s'"
  by (cases r) auto

lemma PredictionModel_init_attrs:
  "PredictionModel_init self nf = Inr s \<Longrightarrow>
   attrs s = (attrs self)(''n_features'' \<mapsto> nf, ''trained'' \<mapsto> VBool False)
   \<and> cls s = cls self \<and> (\<exists>n. int_value nf = Some n \<and> 0 < n)"
  by (auto simp: PredictionModel_init_def setattr_def split: option.splits if_splits)

lemma PredictionModelTransform_init_attrs:
  "PredictionModelTransform_init self nf use_qt use_logs = Inr s \<Longrightarrow>
   attrs s = (attrs self)(''n_features'' \<mapsto> nf, ''trained'' \<mapsto> VBool False,
      ''use_qt'' \<mapsto> use_qt, ''use_logs'' \<mapsto> use_logs, ''qt_x'' \<mapsto> VNone, ''qt_y'' \<mapsto> VNone)
   \<and> cls s = cls self"
proof -
  assume a: "PredictionModelTransform_init self nf use_qt use_logs = Inr s"
  then obtain s1 where s1: "PredictionModel_init self nf = Inr s1"
    and rest: "s = setattr (setattr (setattr (setattr s1
      ''use_qt'' use_qt) ''use_logs'' use_logs) ''qt_x'' VNone) ''qt_y'' VNone"
    by (auto simp: PredictionModelTransform_init_def then_on_Inr_iff eval_on_Inr_iff
        split: if_splits)
  with PredictionModel_init_attrs [OF s1] show ?thesis
    by (simp add: setattr_def)
qed

lemma PredictionModelTransform_init_flags:
  "PredictionModelTransform_init self nf use_qt use_logs = Inr s \<Longrightarrow>
   sum_at_most_one use_logs use_qt = Inr True"
  by (auto simp: PredictionModelTransform_init_def then_on_Inr_iff eval_on_Inr_iff
      split: if_splits)

lemma MultiVariateGaussian_init_attrs:
  "MultiVariateGaussian_init self nf use_qt use_logs = Inr s \<Longrightarrow>
   attrs s = (attrs self)(''n_features'' \<mapsto> nf, ''trained'' \<mapsto> VBool False,
      ''use_qt'' \<mapsto> use_qt, ''use_logs'' \<mapsto> use_logs, ''qt_x'' \<mapsto> VNone, ''qt_y'' \<mapsto> VNone,
      ''mu1'' \<mapsto> VNone, ''mu2'' \<mapsto> VNone, ''Sigma'' \<mapsto> VNone, ''rho'' \<mapsto> VNone,
      ''sigma_cond'' \<mapsto> VNone)
   \<and> cls s = cls self"
  by (auto simp: MultiVariateGaussian_init_def then_on_Inr_iff setattr_def
      dest!: PredictionModelTransform_init_attrs)

lemma construct_Sigma12:
  "construct MultiVariateGaussian nf kw = Inr self \<Longrightarrow>
   attrs self ''Sigma12'' = None \<and> attrs self ''Sigma22'' = None"
  by (auto simp: construct_def and_then_Inr_iff drop_state_Inr_iff new_object_def
      dest!: MultiVariateGaussian_init_attrs)

lemma MultiVariateGaussian__predict_raises:
  "attrs self ''Sigma12'' = None \<Longrightarrow> MultiVariateGaussian__predict E self x \<noteq> Inr p"
  by (auto simp: MultiVariateGaussian__predict_def and_then_Inr_iff getattr_def Let_def
      split: if_splits)


lemma PredictionModel_predict_MVG_raises:
  "cls self = MultiVariateGaussian \<Longrightarrow> attrs self ''Sigma12'' = None \<Longrightarrow>
   PredictionModel_predict E self x \<noteq> Inr p"
  by (auto simp: PredictionModel_predict_def and_then_Inr_iff dispatch__predict_def
      MultiVariateGaussian__predict_raises split: if_splits)

lemma predict_MVG_raises:
  assumes "cls self = MultiVariateGaussian" "attrs self ''Sigma12'' = None"
  shows "predict E self x \<noteq> Inr p"
  using assms PredictionModel_predict_MVG_raises [OF assms]
  by (auto simp: predict_def PredictionModelTransform_predict_def and_then_Inr_iff
      split: if_splits)

lemma predict_MVG_AttributeError:
  assumes "cls self = MultiVariateGaussian"
    and "attrs self ''use_qt'' = Some (VBool False)" "attrs self ''use_logs'' = Some (VBool False)"
    and "attrs self ''n_features'' = Some (VInt (int n))" "0 < n"
    and "attrs self ''trained'' = Some (VBool True)"
    and "attrs self ''mu1'' = Some v" "attrs self ''Sigma12'' = None"
    and "shape x = [rows, n]" "length (data x) = rows * n" "isnan_sum x = 0"
  shows "predict E self x = Inl (AttributeError ''Sigma12'')"
  using assms
  by (simp add: predict_def PredictionModelTransform_predict_def PredictionModel_predict_def
      dispatch__predict_def MultiVariateGaussian__predict_def and_then_def getattr_def
      truth_def eq_int_def number_def shape_at_def as_dimension_def reshape_rows_def Let_def)

lemma PredictionModel_predict_rejects:
  assumes "attrs self ''n_features'' = Some (VInt (int n))"
    and "length (shape x) \<noteq> 2 \<or> shape x ! 1 \<noteq> n \<or> isnan_sum x \<noteq> 0
         \<or> attrs self ''trained'' = Some (VBool False)"
  shows "PredictionModel_predict E self x = Inl AssertionError"
  using assms
  by (auto simp: PredictionModel_predict_def and_then_def getattr_def truth_def eq_int_def
      number_def shape_at_def)

lemma PredictionModel_predict_accepts:
  assumes "attrs self ''n_features'' = Some (VInt (int n))"
    and "length (shape x) = 2" "shape x ! 1 = n" "isnan_sum x = 0"
    and "attrs self ''trained'' = Some (VBool True)"
  shows "PredictionModel_predict E self x = dispatch__predict E self x"
  using assms
  by (auto simp: PredictionModel_predict_def and_then_def getattr_def truth_def eq_int_def
      number_def shape_at_def)

lemma dispatch__fit_cls:
  "dispatch__fit E self x y = Inr self' \<Longrightarrow> cls self' = cls self"
  by (auto simp: dispatch__fit_def MultiVariateGaussian__fit_def CAM__fit_def
      LinearRegression__fit_def LASSO__fit_def LogNormalRandomSample__fit_def
      eval_on_Inr_iff Let_def cls_setattr split: model_class.splits if_splits prod.splits)

lemma PredictionModel_fit_cls:
  "PredictionModel_fit E self x y = Inr self' \<Longrightarrow> cls self' = cls self"
  by (auto simp: PredictionModel_fit_def eval_on_Inr_iff then_on_Inr_iff cls_setattr
      dest: dispatch__fit_cls)

lemma fit_cls:
  "fit E self x y = Inr self' \<Longrightarrow> cls self' = cls self"
  by (auto simp: fit_def PredictionModelTransform_fit_def eval_on_Inr_iff Let_def cls_setattr
      split: model_class.splits if_splits dest!: PredictionModel_fit_cls)

lemma unassigned_neq:
  assumes "a \<notin> assigned_by_fit"
  shows "a \<noteq> ''trained''" "a \<noteq> ''qt_x''" "a \<noteq> ''qt_y''"
    "a \<notin> {''mu1'', ''mu2'', ''Sigma'', ''rho'', ''sigma_cond''}"
    "a \<notin> {''an_to_mark'', ''mark_to_Y''}" "a \<noteq> ''reg''"
    "a \<notin> {''lasso'', ''importance''}" "a \<notin> {''mu'', ''sigma''}"
  using assms by (simp_all add: assigned_by_fit_def)

lemma dispatch__fit_unassigned:
  assumes "dispatch__fit E self x y = Inr self'" "a \<notin> assigned_by_fit"
  shows "attrs self' a = attrs self a"
proof (cases "cls self")
  case MultiVariateGaussian
  with assms(1) show ?thesis
    by (simp add: dispatch__fit_def MultiVariateGaussian__fit_attrs [OF _ unassigned_neq(4) [OF assms(2)]])
next
  case CAM
  with assms(1) show ?thesis
    by (simp add: dispatch__fit_def CAM__fit_attrs [OF _ unassigned_neq(5) [OF assms(2)]])
next
  case LinearRegression
  with assms(1) show ?thesis
    by (simp add: dispatch__fit_def LinearRegression__fit_attrs [OF _ unassigned_neq(6) [OF assms(2)]])
next
  case LASSO
  with assms(1) show ?thesis
    by (simp add: dispatch__fit_def LASSO__fit_attrs [OF _ unassigned_neq(7) [OF assms(2)]])
next
  case LogNormalRandomSample
  with assms(1) show ?thesis
    by (simp add: dispatch__fit_def LogNormalRandomSample__fit_attrs [OF _ unassigned_neq(8) [OF assms(2)]])
qed

lemma PredictionModel_fit_unassigned:
  assumes "PredictionModel_fit E self x y = Inr self'" "a \<notin> assigned_by_fit"
  shows "attrs self' a = attrs self a"
proof -
  from assms(1) obtain s1 where s1: "dispatch__fit E self x y = Inr s1"
    "self' = setattr s1 ''trained'' (VBool True)"
    by (auto simp: PredictionModel_fit_def eval_on_Inr_iff then_on_Inr_iff)
  show ?thesis
    using dispatch__fit_unassigned [OF s1(1) assms(2)] unassigned_neq(1) [OF assms(2)]
    by (simp add: s1(2) attrs_setattr)
qed

lemma PredictionModelTransform_fit_unassigned:
  assumes "PredictionModelTransform_fit E self x y = Inr self'" "a \<notin> assigned_by_fit"
  shows "attrs self' a = attrs self a"
proof -
  note neq = unassigned_neq(2,3) [OF assms(2)]
  from assms(1) obtain use_qt b where u: "getattr self ''use_qt'' = Inr use_qt"
    "truth use_qt = Inr b"
    by (auto simp: PredictionModelTransform_fit_def eval_on_Inr_iff)
  show ?thesis
  proof (cases b)
    case True
    with assms(1) u obtain qt_y qt_x x_trans y_trans where
      "PredictionModel_fit E (setattr (setattr self ''qt_y'' (VQt qt_y)) ''qt_x'' (VQt qt_x))
         x_trans y_trans = Inr self'"
      by (auto simp: PredictionModelTransform_fit_def eval_on_Inr_iff Let_def)
    from PredictionModel_fit_unassigned [OF this assms(2)] neq show ?thesis
      by (simp add: attrs_setattr)
  next
    case False
    with assms(1) u obtain x' y' where "PredictionModel_fit E self x' y' = Inr self'"
      by (auto simp: PredictionModelTransform_fit_def eval_on_Inr_iff split: if_splits)
    from PredictionModel_fit_unassigned [OF this assms(2)] show ?thesis .
  qed
qed

lemma fit_unassigned:
  assumes "fit E self x y = Inr self'" "a \<notin> assigned_by_fit"
  shows "attrs self' a = attrs self a"
  using assms PredictionModel_fit_unassigned [of E self x y self' a]
    PredictionModelTransform_fit_unassigned [of E self x y self' a]
  by (cases "cls self") (simp_all add: fit_def)

lemma MultiVariateGaussian__fit_mu1:
  "MultiVariateGaussian__fit E self x y = Inr self' \<Longrightarrow> \<exists>v. attrs self' ''mu1'' = Some v"
  by (auto simp: MultiVariateGaussian__fit_def eval_on_Inr_iff Let_def attrs_setattr
      split: if_splits prod.splits)

lemma PredictionModel_fit_MVG_mu1:
  assumes "PredictionModel_fit E self x y = Inr self'" "cls self = MultiVariateGaussian"
  shows "\<exists>v. attrs self' ''mu1'' = Some v"
proof -
  from assms obtain s1 where s1: "MultiVariateGaussian__fit E self x y = Inr s1"
    "self' = setattr s1 ''trained'' (VBool True)"
    by (auto simp: PredictionModel_fit_def eval_on_Inr_iff then_on_Inr_iff dispatch__fit_def)
  from MultiVariateGaussian__fit_mu1 [OF s1(1)] show ?thesis
    by (simp add: s1(2) attrs_setattr)
qed

lemma fit_MVG_mu1:
  assumes "fit E self x y = Inr self'" "cls self = MultiVariateGaussian"
  shows "\<exists>v. attrs self' ''mu1'' = Some v"
proof -
  from assms have t: "PredictionModelTransform_fit E self x y = Inr self'"
    by (simp add: fit_def)
  then obtain use_qt b where u: "getattr self ''use_qt'' = Inr use_qt"
    "truth use_qt = Inr b"
    by (auto simp: PredictionModelTransform_fit_def eval_on_Inr_iff)
  show ?thesis
  proof (cases b)
    case True
    with t u obtain qt_y qt_x x_trans y_trans where
      "PredictionModel_fit E (setattr (setattr self ''qt_y'' (VQt qt_y)) ''qt_x'' (VQt qt_x))
         x_trans y_trans = Inr self'"
      by (auto simp: PredictionModelTransform_fit_def eval_on_Inr_iff Let_def)
    from PredictionModel_fit_MVG_mu1 [OF this] assms(2) show ?thesis
      by (simp add: cls_setattr)
  next
    case False
    with t u obtain x' y' where "PredictionModel_fit E self x' y' = Inr self'"
      by (auto simp: PredictionModelTransform_fit_def eval_on_Inr_iff split: if_splits)
    from PredictionModel_fit_MVG_mu1 [OF this assms(2)] show ?thesis .
  qed
qed


lemma construct_MVG_default:
  assumes "construct MultiVariateGaussian nf [] = Inr m0"
  shows "cls m0 = MultiVariateGaussian"
    and "attrs m0 ''n_features'' = Some nf" "attrs m0 ''use_qt'' = Some (VBool False)"
    and "attrs m0 ''use_logs'' = Some (VBool False)" "\<exists>k. int_value nf = Some k \<and> 0 < k"
proof -
  have b: "bind_arguments (parameters MultiVariateGaussian) [] = Inr [VBool False, VBool False]"
    by (simp add: bind_arguments_def parameters_def and_then_def)
  from assms have i: "MultiVariateGaussian_init (new_object MultiVariateGaussian) nf
      (VBool False) (VBool False) = Inr m0"
    by (simp add: construct_def b and_then_def drop_state_Inr_iff)
  note a = MultiVariateGaussian_init_attrs [OF i]
  show "cls m0 = MultiVariateGaussian" using a by (simp add: new_object_def)
  show "attrs m0 ''n_features'' = Some nf" "attrs m0 ''use_qt'' = Some (VBool False)"
    "attrs m0 ''use_logs'' = Some (VBool False)"
    using a by simp_all
  from i show "\<exists>k. int_value nf = Some k \<and> 0 < k"
    by (auto simp: MultiVariateGaussian_init_def PredictionModelTransform_init_def
        then_on_Inr_iff dest: PredictionModel_init_attrs)
qed

subsection \<open>Running the model on data\<close>

lemmas mvg_run_defs = construct_def bind_arguments_def parameters_def MultiVariateGaussian_init_def
  PredictionModelTransform_init_def PredictionModel_init_def new_object_def setattr_def getattr_def
  then_on_def eval_on_def and_then_def sum_at_most_one_def at_most_one_def number_def
  int_value_def eq_int_def truth_def as_count_def as_dimension_def fit_def
  PredictionModelTransform_fit_def
  PredictionModel_fit_def fit_assertions_def dispatch__fit_def MultiVariateGaussian__fit_def
  isnan_sum_def shape_at_def sigma_rho_def sigma_entry_def z_columns_def
  column_def getitem2_def reshape_def first_row_tail_def lower_right_def transpose2_def
  with_exact_def exact_cov_def exact_corrcoef_def exact_cov_entry_def exact_corr_entry_def
  exact_mean_def nums_def exact_dot_def exact_sub_def inv_1x1_def column_means_def
  fl_add_def fl_sub_def fl_mul_def Let_def

section \<open>Lemmas: training\_suite\<close>

lemma traverse_Inr:
  "traverse f xs = Inr ys \<Longrightarrow> x \<in> set xs \<Longrightarrow> \<exists>v. f x = Inr v"
  by (induction xs arbitrary: ys) (auto simp: and_then_Inr_iff)

lemma check_entry_Inr:
  assumes "check_entry i = Inr u"
  shows "\<exists>x rest m c nf d.
      xy i = Some (XYTuple (x # rest)) \<and> model i = Some m \<and> map_of available_models m = Some c
    \<and> n_features i = Some nf \<and> int_value nf = Some (int (shape x ! 1))
    \<and> kwargs i = Some (KwDict d) \<and> 2 \<le> length (shape x)"
proof -
  from assms obtain t m nf d x where
    f: "xy i = Some (XYTuple t)" "model i = Some m" "map_of available_models m \<noteq> None"
       "n_features i = Some nf" "kwargs i = Some (KwDict d)"
       "tuple_first (XYTuple t) = Inr x" "1 < length (shape x)"
       "int_value nf = Some (int (shape x ! 1))"
    by (auto simp: check_entry_def and_then_Inr_iff getitem_def shape_at_def
        split: option.splits if_splits xy_value.splits kwargs_value.splits)
  from f(6) obtain rest where t: "t = x # rest"
    by (cases t) (auto simp: tuple_first_def)
  from f(3) obtain c where c: "map_of available_models m = Some c" by auto
  from f(1,2,4,5,7,8) t c show ?thesis by auto
qed

lemma check_entry_no_mismatch:
  assumes "check_entry i = Inr u"
  shows "\<not> unknown_model i" "\<not> feature_mismatch i"
proof -
  from check_entry_Inr [OF assms] obtain x rest m c nf d where
    f: "xy i = Some (XYTuple (x # rest))" "model i = Some m"
       "map_of available_models m = Some c" "n_features i = Some nf"
       "int_value nf = Some (int (shape x ! 1))"
    by blast
  show "\<not> unknown_model i"
    using f(2,3) by (auto simp: unknown_model_def map_of_eq_None_iff [symmetric])
  show "\<not> feature_mismatch i"
    using f(1,4,5) by (simp add: feature_mismatch_def)
qed

lemma train_entry_Inr:
  assumes "train_entry E i = Inr fitted"
  shows "\<exists>m c nf d x y new_model.
      model i = Some m \<and> map_of available_models m = Some c
    \<and> n_features i = Some nf \<and> kwargs i = Some (KwDict d) \<and> xy i = Some (XYTuple [x, y])
    \<and> construct c nf d = Inr new_model \<and> fit E new_model x y = Inr fitted"
proof -
  from assms obtain m kw nf v x y c d new_model where
    f: "model i = Some m" "kwargs i = Some kw" "n_features i = Some nf" "xy i = Some v"
       "unpack_pair v = Inr (x, y)" "map_of available_models m = Some c"
       "kw = KwDict d" "construct c nf d = Inr new_model" "fit E new_model x y = Inr fitted"
    by (auto simp: train_entry_def and_then_Inr_iff getitem_def drop_state_Inr_iff
        split: option.splits kwargs_value.splits)
  from f(5) have "v = XYTuple [x, y]"
    by (auto simp: unpack_pair_def split: xy_value.splits list.splits)
  with f show ?thesis by blast
qed

lemma train_entry_trained:
  "train_entry E i = Inr m \<Longrightarrow> attrs m ''trained'' = Some (VBool True)"
  using train_entry_Inr [of E i m] by (auto dest: fit_trained)

subsection \<open>The constructors keep the class and refuse malformed keyword arguments\<close>

lemma bind_arguments_Inr:
  assumes "bind_arguments params kw = Inr args"
  shows "\<forall>(k, v) \<in> set kw. k \<in> set (map fst params)"
    and "\<forall>(p, default) \<in> set params. default = None \<longrightarrow> p \<in> set (map fst kw)"
proof -
  from assms have all: "list_all (\<lambda>(k, v). k \<in> set (map fst params)) kw"
    and t: "traverse (\<lambda>(p, default).
                    case map_of kw p of
                      Some v \<Rightarrow> Inr v
                    | None \<Rightarrow> (case default of Some d \<Rightarrow> Inr d | None \<Rightarrow> Inl TypeError))
          params = Inr args"
    by (auto simp: bind_arguments_def split: if_splits)
  from all show "\<forall>(k, v) \<in> set kw. k \<in> set (map fst params)"
    by (simp add: list_all_iff)
  show "\<forall>(p, default) \<in> set params. default = None \<longrightarrow> p \<in> set (map fst kw)"
  proof (intro ballI, clarify)
    fix p assume "(p, None) \<in> set params"
    from traverse_Inr [OF t this] have "map_of kw p \<noteq> None"
      by (auto split: option.splits)
    then show "p \<in> set (map fst kw)"
      by (simp add: map_of_eq_None_iff)
  qed
qed

lemma init_cls:
  "PredictionModel_init self nf = Inr s \<Longrightarrow> cls s = cls self"
  "PredictionModelTransform_init self nf q l = Inr s \<Longrightarrow> cls s = cls self"
  "LogNormalRandomSample_init self nf = Inr s \<Longrightarrow> cls s = cls self"
  "LinearRegression_init self nf q l = Inr s \<Longrightarrow> cls s = cls self"
  "LASSO_init self nf al q l = Inr s \<Longrightarrow> cls s = cls self"
  "MultiVariateGaussian_init self nf q l = Inr s \<Longrightarrow> cls s = cls self"
  "CAM_init self nf mb mr co = Inr s \<Longrightarrow> cls s = cls self"
proof -
  show 1: "PredictionModel_init self nf = Inr s \<Longrightarrow> cls s = cls self" for self s
    by (simp add: PredictionModel_init_attrs)
  show 2: "PredictionModelTransform_init self nf q l = Inr s \<Longrightarrow> cls s = cls self" for self s
    by (simp add: PredictionModelTransform_init_attrs)
  show "LogNormalRandomSample_init self nf = Inr s \<Longrightarrow> cls s = cls self"
    by (auto simp: LogNormalRandomSample_init_def then_on_Inr_iff cls_setattr dest: 1)
  show "LinearRegression_init self nf q l = Inr s \<Longrightarrow> cls s = cls self"
    by (auto simp: LinearRegression_init_def then_on_Inr_iff cls_setattr dest: 2)
  show "LASSO_init self nf al q l = Inr s \<Longrightarrow> cls s = cls self"
    by (auto simp: LASSO_init_def then_on_Inr_iff cls_setattr dest: 2)
  show "MultiVariateGaussian_init self nf q l = Inr s \<Longrightarrow> cls s = cls self"
    by (simp add: MultiVariateGaussian_init_attrs)
  show "CAM_init self nf mb mr co = Inr s \<Longrightarrow> cls s = cls self"
    by (auto simp: CAM_init_def then_on_Inr_iff eval_on_Inr_iff cls_setattr
        split: if_splits dest: 1)
qed

lemma construct_cls:
  assumes "construct c nf d = Inr new_model"
  shows "cls new_model = c"
  using assms
  by (cases c)
     (auto simp: construct_def and_then_Inr_iff drop_state_Inr_iff new_object_def
        dest: init_cls)

lemma flags_both_set: "sum_at_most_one (VBool True) (VBool True) = Inr False"
  by (simp add: sum_at_most_one_def number_def at_most_one_def fl_add_def)

lemma transform_init_flags:
  "LinearRegression_init self nf q l = Inr s \<Longrightarrow> sum_at_most_one l q = Inr True"
  "LASSO_init self nf al q l = Inr s \<Longrightarrow> sum_at_most_one l q = Inr True"
  "MultiVariateGaussian_init self nf q l = Inr s \<Longrightarrow> sum_at_most_one l q = Inr True"
  by (auto simp: LinearRegression_init_def LASSO_init_def MultiVariateGaussian_init_def
      then_on_Inr_iff dest: PredictionModelTransform_init_flags)

lemma bind_arguments_flags:
  assumes "bind_arguments params kw = Inr args"
    and "k < length params" "fst (params ! k) = p" "map_of kw p = Some v"
  shows "args ! k = v"
proof -
  let ?f = "\<lambda>(p, default).
                    case map_of kw p of
                      Some v \<Rightarrow> Inr v
                    | None \<Rightarrow> (case default of Some d \<Rightarrow> Inr d | None \<Rightarrow> Inl TypeError)"
  from assms(1) have t: "traverse ?f params = Inr args"
    by (auto simp: bind_arguments_def split: if_splits)
  have nth: "traverse f xs = Inr ys \<Longrightarrow> k < length xs \<Longrightarrow> f (xs ! k) = Inr (ys ! k)"
    for f :: "string \<times> pyval option \<Rightarrow> error + pyval" and xs ys k
    by (induction xs arbitrary: ys k) (auto simp: and_then_Inr_iff nth_Cons split: nat.splits)
  from nth [OF t assms(2)] assms(3,4) show ?thesis
    by (cases "params ! k") auto
qed

lemma construct_kwargs:
  assumes "construct c nf d = Inr new_model"
  shows "\<not> malformed_kwargs c d"
proof -
  from assms obtain args where b: "bind_arguments (parameters c) d = Inr args"
    by (auto simp: construct_def and_then_Inr_iff)
  note k = bind_arguments_Inr [OF b]
  have 1: "\<not> list_ex (\<lambda>(k, v). k \<notin> set (map fst (parameters c))) d"
    using k(1) by (auto simp: list_ex_iff)
  have 2: "\<not> list_ex (\<lambda>(p, default). default = None \<and> p \<notin> set (map fst d)) (parameters c)"
    using k(2) by (auto simp: list_ex_iff)
  have 3: "\<not> (map_of d ''use_qt'' = Some (VBool True) \<and> map_of d ''use_logs'' = Some (VBool True))"
  proof
    assume f: "map_of d ''use_qt'' = Some (VBool True) \<and> map_of d ''use_logs'' = Some (VBool True)"
    then have in_d: "(''use_qt'', VBool True) \<in> set d"
      by (simp add: map_of_SomeD)
    with k(1) have p: "''use_qt'' \<in> set (map fst (parameters c))" by auto
    show False
    proof (cases c)
      case MultiVariateGaussian
      have "args ! 0 = VBool True" "args ! 1 = VBool True"
        using f
        by (auto intro!: bind_arguments_flags [OF b] simp: MultiVariateGaussian parameters_def)
      with assms MultiVariateGaussian b show False
        by (auto simp: construct_def and_then_def drop_state_Inr_iff flags_both_set
            dest!: transform_init_flags)
    next
      case CAM
      with p show False by (simp add: parameters_def)
    next
      case LinearRegression
      have "args ! 0 = VBool True" "args ! 1 = VBool True"
        using f
        by (auto intro!: bind_arguments_flags [OF b] simp: LinearRegression parameters_def)
      with assms LinearRegression b show False
        by (auto simp: construct_def and_then_def drop_state_Inr_iff flags_both_set
            dest!: transform_init_flags)
    next
      case LASSO
      have "args ! 1 = VBool True" "args ! 2 = VBool True"
        using f
        by (auto intro!: bind_arguments_flags [OF b] simp: LASSO parameters_def)
      with assms LASSO b show False
        by (auto simp: construct_def and_then_def drop_state_Inr_iff flags_both_set
            dest!: transform_init_flags)
    next
      case LogNormalRandomSample
      with p show False by (simp add: parameters_def)
    qed
  qed
  from 1 2 3 show ?thesis by (simp add: malformed_kwargs_def)
qed

subsection \<open>The two loops\<close>

lemma train_loop_entries:
  "train_loop E entries acc = Inr res \<Longrightarrow> (nm, i) \<in> set entries \<Longrightarrow>
   \<exists>fitted. train_entry E i = Inr fitted"
proof (induction entries arbitrary: acc)
  case Nil
  then show ?case by simp
next
  case (Cons e entries)
  obtain nm' i' where e: "e = (nm', i')" by (cases e)
  from Cons.prems(1) obtain fitted where f: "train_entry E i' = Inr fitted"
    and r: "train_loop E entries (acc(nm' \<mapsto> fitted)) = Inr res"
    by (auto simp: e and_then_Inr_iff)
  show ?case
  proof (cases "(nm, i) = (nm', i')")
    case True
    with f show ?thesis by auto
  next
    case False
    with Cons.prems(2) e have "(nm, i) \<in> set entries" by auto
    from Cons.IH [OF r this] show ?thesis .
  qed
qed

lemma train_loop_result:
  "train_loop E entries acc = Inr res \<Longrightarrow>
   dom res = dom acc \<union> fst ` set entries
   \<and> (\<forall>nm. nm \<notin> fst ` set entries \<longrightarrow> res nm = acc nm)
   \<and> (distinct (map fst entries) \<longrightarrow>
        (\<forall>(nm, i) \<in> set entries. \<exists>fitted. train_entry E i = Inr fitted \<and> res nm = Some fitted))"
proof (induction entries arbitrary: acc)
  case Nil
  then show ?case by simp
next
  case (Cons e entries)
  obtain nm i where e: "e = (nm, i)" by (cases e)
  from Cons.prems obtain fitted where f: "train_entry E i = Inr fitted"
    and r: "train_loop E entries (acc(nm \<mapsto> fitted)) = Inr res"
    by (auto simp: e and_then_Inr_iff)
  note ih = Cons.IH [OF r]
  have d: "dom res = dom acc \<union> fst ` set (e # entries)"
    using ih by (auto simp: e)
  have keep: "\<forall>nm'. nm' \<notin> fst ` set (e # entries) \<longrightarrow> res nm' = acc nm'"
    using ih by (auto simp: e)
  have tie: "\<forall>(nm', i') \<in> set (e # entries).
      \<exists>fitted. train_entry E i' = Inr fitted \<and> res nm' = Some fitted"
    if dist: "distinct (map fst (e # entries))"
  proof -
    from dist have nm: "nm \<notin> fst ` set entries" and dist': "distinct (map fst entries)"
      by (simp_all add: e)
    from ih nm have "res nm = Some fitted" by simp
    with f have hd: "\<exists>fitted. train_entry E i = Inr fitted \<and> res nm = Some fitted" by blast
    from ih dist' have tl: "\<forall>(nm', i') \<in> set entries.
        \<exists>fitted. train_entry E i' = Inr fitted \<and> res nm' = Some fitted"
      by blast
    from hd tl show ?thesis by (simp add: e)
  qed
  from d keep tie show ?case by blast
qed

lemma train_loop_values:
  "train_loop E entries acc = Inr res \<Longrightarrow> res nm = Some m \<Longrightarrow>
   acc nm = Some m \<or> (\<exists>i. (nm, i) \<in> set entries \<and> train_entry E i = Inr m)"
proof (induction entries arbitrary: acc)
  case Nil
  then show ?case by simp
next
  case (Cons e entries)
  obtain nm' i' where e: "e = (nm', i')" by (cases e)
  from Cons.prems(1) obtain fitted where f: "train_entry E i' = Inr fitted"
    and r: "train_loop E entries (acc(nm' \<mapsto> fitted)) = Inr res"
    by (auto simp: e and_then_Inr_iff)
  from Cons.IH [OF r Cons.prems(2)] f show ?case
    by (auto simp: e split: if_splits)
qed

lemma training_suite_Inr:
  assumes "training_suite E entries = Inr res"
  shows "\<forall>(nm, i) \<in> set entries. \<exists>u. check_entry i = Inr u"
    and "train_loop E entries Map.empty = Inr res"
proof -
  from assms obtain checked where c: "traverse check_entry (map snd entries) = Inr checked"
    and t: "train_loop E entries Map.empty = Inr res"
    by (auto simp: training_suite_def and_then_Inr_iff)
  from traverse_Inr [OF c] show "\<forall>(nm, i) \<in> set entries. \<exists>u. check_entry i = Inr u"
    by force
  from t show "train_loop E entries Map.empty = Inr res" .
qed

lemma trained_entry_well_formed:
  assumes "check_entry i = Inr u" "train_entry E i = Inr fitted"
  shows "\<not> unknown_model i" "\<not> feature_mismatch i" "\<not> malformed i" "\<not> model_raises E i"
proof -
  from train_entry_Inr [OF assms(2)] obtain m c nf d x y new_model where
    t: "model i = Some m" "map_of available_models m = Some c" "n_features i = Some nf"
       "kwargs i = Some (KwDict d)" "xy i = Some (XYTuple [x, y])"
       "construct c nf d = Inr new_model" "fit E new_model x y = Inr fitted"
    by blast
  from check_entry_Inr [OF assms(1)] t(3,5) have
    c: "int_value nf = Some (int (shape x ! 1))" "2 \<le> length (shape x)"
    by auto
  show "\<not> unknown_model i" "\<not> feature_mismatch i"
    by (rule check_entry_no_mismatch [OF assms(1)])+
  show "\<not> malformed i"
    using t(1-5) c construct_kwargs [OF t(6)] by (simp add: malformed_def)
  show "\<not> model_raises E i"
    using t by (simp add: model_raises_def)
qed

section \<open>Lemmas: conditional abundance matching\<close>

lemma cam_marks_one: "n \<le> 1 \<Longrightarrow> cam_marks n = Inl IndexError"
  by (simp add: cam_marks_def)

lemma cam_marks_two:
  assumes "2 \<le> n"
  shows "cam_marks n = Inr (map (\<lambda>i. (2 * real i + 1) / (2 * real n)) [0..<n])"
proof -
  have n: "0 < real n" using assms by simp
  have "real i / real n + (1 / real n - 0 / real n) / 2 = (2 * real i + 1) / (2 * real n)" for i
    using n by (simp add: field_simps)
  moreover have "map (\<lambda>i. real i / real n) [0..<n] ! 1 = 1 / real n"
    "map (\<lambda>i. real i / real n) [0..<n] ! 0 = 0 / real n"
    using assms by simp_all
  ultimately show ?thesis
    using assms by (simp add: cam_marks_def Let_def)
qed

lemma CAM__fit_one_row:
  assumes "len_array y = Inr n" "n \<le> 1"
  shows "\<exists>e. CAM__fit E self am y = Inl (e, self)"
  using assms
  by (auto simp: CAM__fit_def eval_on_def cam_marks_one Let_def split: sum.splits)

lemma fit_assertions_rows:
  assumes "fit_assertions self x y = Inr u"
  shows "shape_at x 0 = shape_at y 0" "\<exists>n. len_array y = Inr n \<and> shape_at x 0 = Inr n"
  using assms
  by (auto simp: fit_assertions_def and_then_Inr_iff shape_at_def len_array_def
      split: if_splits list.splits)

lemma interp1d_init_sorted:
  assumes "sorted xs" "length xs = length ys" "xs \<noteq> []"
  shows "interp1d_init xs ys fv
       = Inr \<lparr>ix = xs, iy = ys, fill_below = fst fv, fill_above = snd fv\<rparr>"
proof -
  have "sorted (map fst (zip xs ys))" using assms by simp
  then have "sort_key fst (zip xs ys) = zip xs ys" by (rule sort_key_id_if_sorted)
  then show ?thesis using assms by (simp add: interp1d_init_def)
qed

lemma bisect_left_at_node:
  assumes "sorted_wrt (<) xs" "k < length xs"
  shows "bisect_left xs (xs ! k) 0 (length xs) = k"
proof -
  let ?r = "bisect_left xs (xs ! k) 0 (length xs)"
  have s: "sorted xs" using assms(1) by (rule strict_sorted_imp_sorted)
  have "?r \<le> length xs \<and> (\<forall>i<?r. xs ! i < xs ! k)
      \<and> (\<forall>i. ?r \<le> i \<and> i < length xs \<longrightarrow> xs ! k \<le> xs ! i)"
    by (rule bisect_left_spec [OF s]) auto
  then have lo: "\<forall>i<?r. xs ! i < xs ! k" and hi: "\<forall>i. ?r \<le> i \<and> i < length xs \<longrightarrow> xs ! k \<le> xs ! i"
    by blast+
  have "\<not> k < ?r" using lo by auto
  moreover have "\<not> ?r < k"
  proof
    assume "?r < k"
    then have "xs ! ?r < xs ! k"
      using assms by (simp add: sorted_wrt_nth_less)
    moreover have "xs ! k \<le> xs ! ?r" using hi \<open>?r < k\<close> assms(2) by simp
    ultimately show False by simp
  qed
  ultimately show ?thesis by simp
qed

lemma interp1d_call_node:
  assumes "sorted_wrt (<) xs" "length ys = length xs" "2 \<le> length xs" "k < length xs"
    and "\<forall>j<length xs. \<exists>b. ys ! j = Num b"
  shows "interp1d_call \<lparr>ix = xs, iy = ys, fill_below = fb, fill_above = fa\<rparr> (Num (xs ! k))
       = ys ! k"
proof -
  have s: "sorted xs" using assms(1) by (rule strict_sorted_imp_sorted)
  have ne: "xs \<noteq> []" using assms(3) by auto
  have "xs ! 0 \<le> xs ! k" using s assms(4) by (simp add: sorted_nth_mono)
  then have below: "\<not> xs ! k < hd xs" using ne by (simp add: hd_conv_nth)
  have "xs ! k \<le> xs ! (length xs - 1)" using s assms(4) by (simp add: sorted_nth_mono)
  then have above: "\<not> last xs < xs ! k" using ne by (simp add: last_conv_nth)
  have b: "bisect_left xs (xs ! k) 0 (length xs) = k"
    by (rule bisect_left_at_node [OF assms(1,4)])
  show ?thesis
  proof (cases k)
    case 0
    obtain a b where ab: "ys ! 0 = Num a" "ys ! 1 = Num b"
      using assms(3,5) by (metis One_nat_def Suc_1 Suc_le_lessD lessI less_trans)
    have "xs ! 0 < xs ! 1" using assms(1,3) by (simp add: sorted_wrt_nth_less)
    then show ?thesis
      using below above b 0 ab by (simp add: interp1d_call_def linear_between_def)
  next
    case (Suc k')
    obtain a b where ab: "ys ! k' = Num a" "ys ! k = Num b"
      using assms(4,5) Suc by (metis Suc_lessD)
    have lt: "xs ! k' < xs ! k" using assms(1,4) Suc by (simp add: sorted_wrt_nth_less)
    have "max 1 (min k (length xs - 1)) = k" using assms(4) Suc by simp
    then show ?thesis
      using below above b Suc ab lt
      by (simp add: interp1d_call_def linear_between_def Let_def)
  qed
qed

lemma interp1d_call_below:
  "v < hd (ix f) \<Longrightarrow> interp1d_call f (Num v) = fill_below f"
  by (simp add: interp1d_call_def)

lemma interp1d_call_above:
  "\<not> v < hd (ix f) \<Longrightarrow> last (ix f) < v \<Longrightarrow> interp1d_call f (Num v) = fill_above f"
  by (simp add: interp1d_call_def)

lemma marks_strict:
  assumes "0 < n"
  shows "sorted_wrt (<) (map (\<lambda>i. (2 * real i + 1) / (2 * real n)) [0..<n])"
proof -
  have "(2 * real i + 1) / (2 * real n) < (2 * real j + 1) / (2 * real n)" if "i < j" for i j
    using assms that by (simp add: divide_strict_right_mono)
  then show ?thesis by (simp add: sorted_wrt_iff_nth_less)
qed

lemma marks_hd:
  assumes "0 < n"
  shows "0 < hd (map (\<lambda>i. (2 * real i + 1) / (2 * real n)) [0..<n])"
  using assms by (simp add: hd_map upt_conv_Cons)

lemma marks_last:
  assumes "0 < n"
  shows "last (map (\<lambda>i. (2 * real i + 1) / (2 * real n)) [0..<n]) < 1"
proof -
  have "[0..<n] \<noteq> []" using assms by simp
  then have "last (map (\<lambda>i. (2 * real i + 1) / (2 * real n)) [0..<n])
      = (2 * real (n - 1) + 1) / (2 * real n)"
    by (simp add: last_map last_conv_nth)
  also have "\<dots> < 1" using assms by (simp add: of_nat_diff)
  finally show ?thesis .
qed


lemma scale_one: "scale (Num 1) vs = vs"
  unfolding scale_def fl_mul_def by (induction vs) (auto split: npfloat.splits)

lemma no_nan_map_Num:
  assumes "filter (\<lambda>v. v = NaN) vs = []"
  shows "vs = map Num (nums vs)"
  using assms unfolding nums_def
  by (induction vs) (auto split: npfloat.splits if_splits)

lemma np_sort_no_nan:
  assumes "filter (\<lambda>v. v = NaN) vs = []"
  shows "np_sort vs = map Num (sort (nums vs))"
  using assms by (simp add: np_sort_def)

lemma length_np_sort: "length (np_sort vs) = length vs"
  unfolding np_sort_def nums_def by (induction vs) (auto split: npfloat.splits)

lemma interp1d_init_length:
  "interp1d_init xs ys fv = Inr f \<Longrightarrow> length xs = length ys \<and> xs \<noteq> []"
  by (auto simp: interp1d_init_def split: if_splits)

lemma fit_assertions_facts:
  assumes "fit_assertions self x y = Inr u"
  shows "isnan_sum x = 0" "isnan_sum y = 0" "length (shape x) = 2"
    "\<exists>nf. attrs self ''n_features'' = Some nf \<and> eq_int nf (int (shape x ! 1)) = Inr True"
    "shape y \<noteq> []" "hd (shape y) = shape x ! 0"
  using assms
  by (auto simp: fit_assertions_def and_then_Inr_iff shape_at_def getattr_def hd_conv_nth
      split: if_splits option.splits)

lemma CAM__fit_result:
  assumes "CAM__fit E self am y = Inr s1" "attrs self ''cam_order'' = Some (VInt 1)"
    and "shape y \<noteq> []" "hd (shape y) = n" "shape_at am 0 = Inr n"
  shows "\<exists>mb mr an.
      attrs self ''mass_bins'' = Some mb \<and> attrs self ''mrange'' = Some mr
    \<and> get_an_from_am E am mb mr = Inr an \<and> length an = n \<and> 2 \<le> n
    \<and> shape y = [n] \<and> length (data y) = n
    \<and> s1 = setattr (setattr self ''an_to_mark''
            (VInterp \<lparr>ix = sort an, iy = map Num (map (\<lambda>i. (2 * real i + 1) / (2 * real n)) [0..<n]),
                      fill_below = Num 0, fill_above = Num 1\<rparr>))
          ''mark_to_Y''
            (VInterp \<lparr>ix = map (\<lambda>i. (2 * real i + 1) / (2 * real n)) [0..<n],
                      iy = np_sort (data y),
                      fill_below = hd (np_sort (data y)), fill_above = last (np_sort (data y))\<rparr>)"
proof -
  let ?marks = "map (\<lambda>i. (2 * real i + 1) / (2 * real n)) [0..<n]"
  have len: "len_array y = Inr n"
    using assms(3,4) by (cases "shape y") (simp_all add: len_array_def)
  have c: "getattr self ''cam_order'' = Inr (VInt 1)" "as_factor (VInt 1) = Inr (Num 1)"
    using assms(2) by (simp_all add: as_factor_def number_def getattr_def)
  from assms(1) obtain mb mr an marks f1 f2 where
    g: "getattr self ''mass_bins'' = Inr mb" "getattr self ''mrange'' = Inr mr"
       "get_an_from_am E am mb mr = Inr an" "length an = n"
    and m: "cam_marks n = Inr marks"
    and f1: "interp1d_init (sort an) (map Num marks) (Num 0, Num 1) = Inr f1"
    and y1: "length (shape y) = 1"
    and f2: "interp1d_init marks (np_sort (data y))
               (hd (np_sort (data y)), last (np_sort (data y))) = Inr f2"
    and s1: "s1 = setattr (setattr self ''an_to_mark'' (VInterp f1)) ''mark_to_Y'' (VInterp f2)"
    using assms(5) len c
    by (auto simp: CAM__fit_def eval_on_Inr_iff Let_def scale_one split: if_splits)
  have n2: "2 \<le> n"
    using m by (cases "n \<le> 1") (simp_all add: cam_marks_one)
  have marks: "marks = ?marks"
    using m cam_marks_two [OF n2] by simp
  have sy: "shape y = [n]"
    using y1 assms(3,4) by (cases "shape y") auto
  have ly: "length (data y) = n"
    using interp1d_init_length [OF f2] by (simp add: marks length_np_sort)
  have "length (sort an) = n" using g(4) by simp
  then have ne: "sort an \<noteq> []" using n2 by (cases "sort an") simp_all
  have f1': "f1 = \<lparr>ix = sort an, iy = map Num ?marks, fill_below = Num 0, fill_above = Num 1\<rparr>"
    using f1 interp1d_init_sorted [of "sort an" "map Num ?marks" "(Num 0, Num 1)"] ne g(4)
    by (simp add: marks)
  have ms: "sorted ?marks"
    using marks_strict [of n] n2 by (simp add: strict_sorted_imp_sorted)
  have f2': "f2 = \<lparr>ix = ?marks, iy = np_sort (data y),
      fill_below = hd (np_sort (data y)), fill_above = last (np_sort (data y))\<rparr>"
    using f2 interp1d_init_sorted [OF ms, of "np_sort (data y)"
        "(hd (np_sort (data y)), last (np_sort (data y)))"] n2 ly
    by (simp add: marks length_np_sort)
  from g n2 sy ly s1 f1' f2' show ?thesis
    by (simp add: getattr_def split: option.splits)
qed


lemma hd_sort_Min:
  assumes "xs \<noteq> []"
  shows "hd (sort xs) = Min (set xs)"
proof -
  have ne: "sort xs \<noteq> []" using assms by (metis length_0_conv length_sort)
  have "hd (sort xs) \<in> set xs" using ne by (metis hd_in_set set_sort)
  moreover have "hd (sort xs) \<le> y" if "y \<in> set xs" for y
  proof -
    from that have "y \<in> set (sort xs)" by simp
    then obtain j where j: "j < length (sort xs)" "sort xs ! j = y"
      by (metis in_set_conv_nth)
    have "sort xs ! 0 \<le> sort xs ! j"
      by (rule sorted_nth_mono [OF sorted_sort _ j(1)]) simp
    then show ?thesis using ne j by (simp add: hd_conv_nth)
  qed
  ultimately show ?thesis by (intro Min_eqI [symmetric]) auto
qed

lemma last_sort_Max:
  assumes "xs \<noteq> []"
  shows "last (sort xs) = Max (set xs)"
proof -
  have ne: "sort xs \<noteq> []" using assms by (metis length_0_conv length_sort)
  have "last (sort xs) \<in> set xs" using ne by (metis last_in_set set_sort)
  moreover have "y \<le> last (sort xs)" if "y \<in> set xs" for y
  proof -
    from that have "y \<in> set (sort xs)" by simp
    then obtain j where j: "j < length (sort xs)" "sort xs ! j = y"
      by (metis in_set_conv_nth)
    have "sort xs ! j \<le> sort xs ! (length (sort xs) - 1)"
      by (rule sorted_nth_mono [OF sorted_sort]) (use j in auto)
    then show ?thesis using ne j by (simp add: last_conv_nth)
  qed
  ultimately show ?thesis by (intro Max_eqI [symmetric]) auto
qed

lemma monotone_pairing_sort:
  fixes an ys :: "real list"
  assumes "length an = length ys" "distinct an"
    and "\<forall>i<length an. \<forall>j<length an. an ! i < an ! j \<longrightarrow> ys ! i \<le> ys ! j"
    and "i < length an"
  shows "\<exists>k<length an. sort an ! k = an ! i \<and> sort ys ! k = ys ! i"
proof -
  let ?ps = "sort_key fst (zip an ys)"
  have len: "length ?ps = length an" using assms(1) by simp
  have fst_sorted: "sorted (map fst ?ps)" by (rule sorted_sort_key)
  have "mset (map fst ?ps) = mset an"
    using assms(1) by (metis map_fst_zip mset_map mset_sort)
  then have an: "sort an = map fst ?ps"
    using fst_sorted by (metis properties_for_sort)
  have pair: "\<exists>a. a < length an \<and> ?ps ! k = (an ! a, ys ! a)" if "k < length an" for k
  proof -
    have "?ps ! k \<in> set (zip an ys)" using that len by (metis nth_mem set_sort)
    then show ?thesis using assms(1) by (auto simp: in_set_zip)
  qed
  have snd_sorted: "sorted (map snd ?ps)"
    unfolding sorted_iff_nth_mono
  proof (intro allI impI)
    fix k1 k2 assume k: "k1 \<le> k2" "k2 < length (map snd ?ps)"
    then have k': "k1 < length an" "k2 < length an" using len by simp_all
    from pair [OF k'(1)] obtain a1 where a1: "a1 < length an" "?ps ! k1 = (an ! a1, ys ! a1)" by blast
    from pair [OF k'(2)] obtain a2 where a2: "a2 < length an" "?ps ! k2 = (an ! a2, ys ! a2)" by blast
    have "map fst ?ps ! k1 \<le> map fst ?ps ! k2"
      using fst_sorted k len by (simp add: sorted_iff_nth_mono del: length_sort)
    then have le: "an ! a1 \<le> an ! a2" using a1 a2 k' len by simp
    have "ys ! a1 \<le> ys ! a2"
    proof (cases "an ! a1 = an ! a2")
      case True
      then have "a1 = a2" using assms(2) a1(1) a2(1) by (simp add: nth_eq_iff_index_eq)
      then show ?thesis by simp
    next
      case False
      with le have "an ! a1 < an ! a2" by simp
      then show ?thesis using assms(3) a1(1) a2(1) by blast
    qed
    then show "map snd ?ps ! k1 \<le> map snd ?ps ! k2" using a1 a2 k' len by simp
  qed
  have "mset (map snd ?ps) = mset ys"
    using assms(1) by (metis map_snd_zip mset_map mset_sort)
  then have ys: "sort ys = map snd ?ps"
    using snd_sorted by (metis properties_for_sort)
  have "(an ! i, ys ! i) \<in> set ?ps"
    using assms(1,4) by (simp add: set_zip) blast
  then obtain k where k: "k < length ?ps" "?ps ! k = (an ! i, ys ! i)"
    by (auto simp: in_set_conv_nth simp del: length_sort set_sort)
  then show ?thesis
    using len by (intro exI [of _ k]) (simp add: an ys del: length_sort)
qed

lemma CAM_predict_fitted:
  assumes "cls s = CAM"
    and "attrs s ''n_features'' = Some nfv" "eq_int nfv (int nf) = Inr True"
    and "attrs s ''trained'' = Some (VBool True)"
    and "attrs s ''mass_bins'' = Some mb" "attrs s ''mrange'' = Some mr"
    and "attrs s ''an_to_mark'' = Some (VInterp f1)" "attrs s ''mark_to_Y'' = Some (VInterp f2)"
    and "length (shape am') = 2" "shape am' ! 1 = nf" "isnan_sum am' = 0"
    and "get_an_from_am E am' mb mr = Inr an'"
  shows "predict E s am'
       = Inr \<lparr>shape = [length an'],
              data = map (\<lambda>a. interp1d_call f2 (interp1d_call f1 (Num a))) an'\<rparr>"
  using assms
  by (simp add: predict_def PredictionModel_predict_def dispatch__predict_def CAM__predict_def
      and_then_def getattr_def shape_at_def truth_def as_interp_def)

lemma CAM_fit_result:
  assumes "cls self = CAM" "attrs self ''cam_order'' = Some (VInt 1)"
    and "fit E self am y = Inr self'"
  shows "\<exists>mb mr an n.
      attrs self ''mass_bins'' = Some mb \<and> attrs self ''mrange'' = Some mr
    \<and> get_an_from_am E am mb mr = Inr an \<and> length an = n \<and> 2 \<le> n
    \<and> shape y = [n] \<and> length (data y) = n \<and> isnan_sum y = 0 \<and> isnan_sum am = 0
    \<and> length (shape am) = 2
    \<and> (\<exists>nf. attrs self ''n_features'' = Some nf \<and> eq_int nf (int (shape am ! 1)) = Inr True)
    \<and> self' = setattr (setattr (setattr self ''an_to_mark''
            (VInterp \<lparr>ix = sort an, iy = map Num (map (\<lambda>i. (2 * real i + 1) / (2 * real n)) [0..<n]),
                      fill_below = Num 0, fill_above = Num 1\<rparr>))
          ''mark_to_Y''
            (VInterp \<lparr>ix = map (\<lambda>i. (2 * real i + 1) / (2 * real n)) [0..<n],
                      iy = np_sort (data y),
                      fill_below = hd (np_sort (data y)), fill_above = last (np_sort (data y))\<rparr>))
          ''trained'' (VBool True)"
proof -
  from assms(1,3) obtain u s1 where u: "fit_assertions self am y = Inr u"
    and s1: "CAM__fit E self am y = Inr s1" and self': "self' = setattr s1 ''trained'' (VBool True)"
    by (auto simp: fit_def PredictionModel_fit_def eval_on_Inr_iff then_on_Inr_iff
        dispatch__fit_def)
  note f = fit_assertions_facts [OF u]
  have sa: "shape_at am 0 = Inr (shape am ! 0)"
    using f(3) by (simp add: shape_at_def)
  from CAM__fit_result [OF s1 assms(2) f(5,6) sa] f(1,2,3,4) self'
  show ?thesis by auto
qed

lemma length_scale: "length (scale c vs) = length vs"
  by (simp add: scale_def)

lemma CAM_fit_succeeds:
  assumes "cls self = CAM" "2 \<le> n"
    and "shape am = [n, k]" "shape y = [n]" "length (data y) = n"
    and "isnan_sum am = 0" "isnan_sum y = 0"
    and "attrs self ''n_features'' = Some nf" "eq_int nf (int k) = Inr True"
    and "attrs self ''mass_bins'' = Some mb" "attrs self ''mrange'' = Some mr"
    and "get_an_from_am E am mb mr = Inr an" "length an = n"
    and "attrs self ''cam_order'' = Some co" "number co = Some c"
  shows "fit E self am y
       = Inr (setattr (setattr (setattr self ''an_to_mark''
            (VInterp \<lparr>ix = sort an, iy = map Num (map (\<lambda>i. (2 * real i + 1) / (2 * real n)) [0..<n]),
                      fill_below = Num 0, fill_above = Num 1\<rparr>))
          ''mark_to_Y''
            (VInterp \<lparr>ix = map (\<lambda>i. (2 * real i + 1) / (2 * real n)) [0..<n],
                      iy = scale c (np_sort (scale c (data y))),
                      fill_below = hd (scale c (np_sort (scale c (data y)))),
                      fill_above = last (scale c (np_sort (scale c (data y))))\<rparr>))
          ''trained'' (VBool True))"
proof -
  let ?marks = "map (\<lambda>i. (2 * real i + 1) / (2 * real n)) [0..<n]"
  let ?ys = "scale c (np_sort (scale c (data y)))"
  have chk: "fit_assertions self am y = Inr ()"
    using assms(3,4,6,7,8,9)
    by (simp add: fit_assertions_def shape_at_def getattr_def and_then_def)
  have m: "cam_marks n = Inr ?marks" by (rule cam_marks_two [OF assms(2)])
  have ne: "sort an \<noteq> []"
    using assms(2,13) by (metis length_sort list.size(3) not_numeral_le_zero)
  have f1: "interp1d_init (sort an) (map Num ?marks) (Num 0, Num 1)
      = Inr \<lparr>ix = sort an, iy = map Num ?marks, fill_below = Num 0, fill_above = Num 1\<rparr>"
    using interp1d_init_sorted [of "sort an" "map Num ?marks" "(Num 0, Num 1)"] ne assms(13)
    by simp
  have ms: "sorted ?marks"
    using marks_strict [of n] assms(2) by (simp add: strict_sorted_imp_sorted)
  have mne: "?marks \<noteq> []" using assms(2) by auto
  have ly: "length ?ys = n"
    by (simp add: length_scale length_np_sort assms(5))
  have f2: "interp1d_init ?marks ?ys (hd ?ys, last ?ys)
      = Inr \<lparr>ix = ?marks, iy = ?ys, fill_below = hd ?ys, fill_above = last ?ys\<rparr>"
    using interp1d_init_sorted [OF ms _ mne, of ?ys "(hd ?ys, last ?ys)"] ly by simp
  have cf: "CAM__fit E self am y
      = Inr (setattr (setattr self ''an_to_mark''
            (VInterp \<lparr>ix = sort an, iy = map Num ?marks, fill_below = Num 0, fill_above = Num 1\<rparr>))
          ''mark_to_Y''
            (VInterp \<lparr>ix = ?marks, iy = ?ys, fill_below = hd ?ys, fill_above = last ?ys\<rparr>))"
    using assms(3,4,10,11,12,13,14,15)
    by (simp add: CAM__fit_def eval_on_def getattr_def shape_at_def as_factor_def len_array_def
        m f1 f2 Let_def del: map_map)
  show ?thesis
    using assms(1) by (simp add: fit_def PredictionModel_fit_def chk eval_on_def dispatch__fit_def
        cf then_on_def)
qed

lemma CAM_fit_column:
  assumes "cls self = CAM" "2 \<le> n"
    and "shape am = [n, k]" "shape y = [n, 1]"
    and "isnan_sum am = 0" "isnan_sum y = 0"
    and "attrs self ''n_features'' = Some nf" "eq_int nf (int k) = Inr True"
    and "attrs self ''mass_bins'' = Some mb" "attrs self ''mrange'' = Some mr"
    and "get_an_from_am E am mb mr = Inr an" "length an = n"
    and "attrs self ''cam_order'' = Some co" "number co = Some c"
  shows "fit E self am y
       = Inl (ValueError, setattr self ''an_to_mark''
            (VInterp \<lparr>ix = sort an, iy = map Num (map (\<lambda>i. (2 * real i + 1) / (2 * real n)) [0..<n]),
                      fill_below = Num 0, fill_above = Num 1\<rparr>))"
proof -
  let ?marks = "map (\<lambda>i. (2 * real i + 1) / (2 * real n)) [0..<n]"
  have chk: "fit_assertions self am y = Inr ()"
    using assms(3,4,5,6,7,8)
    by (simp add: fit_assertions_def shape_at_def getattr_def and_then_def)
  have m: "cam_marks n = Inr ?marks" by (rule cam_marks_two [OF assms(2)])
  have ne: "sort an \<noteq> []"
    using assms(2,12) by (metis length_sort list.size(3) not_numeral_le_zero)
  have f1: "interp1d_init (sort an) (map Num ?marks) (Num 0, Num 1)
      = Inr \<lparr>ix = sort an, iy = map Num ?marks, fill_below = Num 0, fill_above = Num 1\<rparr>"
    using interp1d_init_sorted [of "sort an" "map Num ?marks" "(Num 0, Num 1)"] ne assms(12)
    by simp
  have cf: "CAM__fit E self am y
      = Inl (ValueError, setattr self ''an_to_mark''
            (VInterp \<lparr>ix = sort an, iy = map Num ?marks, fill_below = Num 0, fill_above = Num 1\<rparr>))"
    using assms(3,4,9,10,11,12,13,14)
    by (simp add: CAM__fit_def eval_on_def getattr_def shape_at_def as_factor_def len_array_def
        m f1 Let_def del: map_map)
  show ?thesis
    using assms(1) by (simp add: fit_def PredictionModel_fit_def chk eval_on_def dispatch__fit_def
        cf then_on_def)
qed

lemmas cam_run_defs = construct_def bind_arguments_def parameters_def CAM_init_def py_len_def
  len_array_def PredictionModel_init_def new_object_def setattr_def getattr_def then_on_def
  eval_on_def and_then_def fit_def PredictionModel_fit_def fit_assertions_def dispatch__fit_def
  CAM__fit_def isnan_sum_def shape_at_def as_factor_def number_def int_value_def eq_int_def
  in_minus_one_one_def iterable_of_two_def is_ndarray_def with_exact_def first_column_def
  column_def nums_def Let_def

section \<open>Properties\<close>

text \<open>
  C1 (the claim). For every trained MultiVariateGaussian model and every
  two-dimensional input with the model's feature count and no missing value,
  \<open>predict\<close> would return the conditional mean computed from the covariance blocks
  stored at fit time, one prediction per row.

  What the code does: \<open>_fit\<close> keeps \<open>Sigma12\<close> and \<open>Sigma22\<close> in local variables and
  stores neither, while \<open>_predict\<close> reads \<open>self.Sigma12\<close> and \<open>self.Sigma22\<close>. So a
  model that was constructed and fitted is trained, and \<open>predict\<close> on it returns for no
  input at all: every call ends in an exception.
\<close>

theorem MultiVariateGaussian_predict_never_returns:
  assumes "construct MultiVariateGaussian nf kw = Inr m0"
    and "fit E m0 x y = Inr m1"
  shows "attrs m1 ''trained'' = Some (VBool True)
       \<and> attrs m1 ''Sigma12'' = None \<and> attrs m1 ''Sigma22'' = None
       \<and> (\<forall>x'. \<exists>e. predict E m1 x' = Inl e)"
proof -
  have m0: "cls m0 = MultiVariateGaussian"
    using assms(1)
    by (auto simp: construct_def and_then_Inr_iff drop_state_Inr_iff new_object_def
        dest!: MultiVariateGaussian_init_attrs)
  have cls1: "cls m1 = MultiVariateGaussian"
    using fit_cls [OF assms(2)] m0 by simp
  have s12: "attrs m1 ''Sigma12'' = None" and s22: "attrs m1 ''Sigma22'' = None"
    using construct_Sigma12 [OF assms(1)]
    by (simp_all add: fit_unassigned [OF assms(2)] assigned_by_fit_def)
  have "\<exists>e. predict E m1 x' = Inl e" for x'
    using predict_MVG_raises [OF cls1 s12, of E x'] by (cases "predict E m1 x'") auto
  with fit_trained [OF assms(2)] s12 s22 show ?thesis by simp
qed

theorem MultiVariateGaussian_predict_never_returns_witness:
  "\<forall>E. \<exists>m0 m1.
     construct MultiVariateGaussian (VInt 1) [] = Inr m0
   \<and> fit (with_exact E) m0 \<lparr>shape = [3, 1], data = [Num 0, Num 1, Num 2]\<rparr>
        \<lparr>shape = [3], data = [Num 1, Num 3, Num 5]\<rparr> = Inr m1
   \<and> attrs m1 ''trained'' = Some (VBool True)
   \<and> attrs m1 ''Sigma'' = Some (VArr \<lparr>shape = [2, 2], data = [Num 4, Num 2, Num 2, Num 1]\<rparr>)
   \<and> attrs m1 ''Sigma12'' = None
   \<and> predict (with_exact E) m1 \<lparr>shape = [3, 1], data = [Num 0, Num 1, Num 2]\<rparr>
       = Inl (AttributeError ''Sigma12'')"
proof
  fix E
  let ?x = "\<lparr>shape = [3, 1], data = [Num 0, Num 1, Num 2]\<rparr>"
  let ?y = "\<lparr>shape = [3], data = [Num 1, Num 3, Num 5]\<rparr>"
  let ?m0 = "\<lparr>cls = MultiVariateGaussian,
      attrs = [''n_features'' \<mapsto> VInt 1, ''trained'' \<mapsto> VBool False,
        ''use_qt'' \<mapsto> VBool False, ''use_logs'' \<mapsto> VBool False, ''qt_x'' \<mapsto> VNone,
        ''qt_y'' \<mapsto> VNone, ''mu1'' \<mapsto> VNone, ''mu2'' \<mapsto> VNone, ''Sigma'' \<mapsto> VNone,
        ''rho'' \<mapsto> VNone, ''sigma_cond'' \<mapsto> VNone]\<rparr>"
  have m0: "construct MultiVariateGaussian (VInt 1) [] = Inr ?m0"
    by (simp add: mvg_run_defs)
  obtain m1 where m1: "fit (with_exact E) ?m0 ?x ?y = Inr m1"
    and a1: "attrs m1 ''n_features'' = Some (VInt (int 1))"
      "attrs m1 ''use_qt'' = Some (VBool False)" "attrs m1 ''use_logs'' = Some (VBool False)"
      "attrs m1 ''mu1'' = Some (VArr \<lparr>shape = [1, 1], data = [Num 3]\<rparr>)"
      "attrs m1 ''Sigma'' = Some (VArr \<lparr>shape = [2, 2], data = [Num 4, Num 2, Num 2, Num 1]\<rparr>)"
    by (simp add: mvg_run_defs upt_rec numeral_eq_Suc)
  from MultiVariateGaussian_predict_never_returns [OF m0 m1]
  have t: "attrs m1 ''trained'' = Some (VBool True)" and s: "attrs m1 ''Sigma12'' = None"
    by simp_all
  have c: "cls m1 = MultiVariateGaussian"
    using fit_cls [OF m1] by simp
  have "predict (with_exact E) m1 ?x = Inl (AttributeError ''Sigma12'')"
    by (rule predict_MVG_AttributeError [OF c a1(2,3,1) _ t a1(4) s, where rows = 3])
       (simp_all add: isnan_sum_def)
  with m0 m1 t s a1(5) show "\<exists>m0 m1.
     construct MultiVariateGaussian (VInt 1) [] = Inr m0
   \<and> fit (with_exact E) m0 ?x ?y = Inr m1
   \<and> attrs m1 ''trained'' = Some (VBool True)
   \<and> attrs m1 ''Sigma'' = Some (VArr \<lparr>shape = [2, 2], data = [Num 4, Num 2, Num 2, Num 1]\<rparr>)
   \<and> attrs m1 ''Sigma12'' = None
   \<and> predict (with_exact E) m1 ?x = Inl (AttributeError ''Sigma12'')"
    by blast
qed

text \<open>
  C2 (as stated). After a first call \<open>get_values c1\<close> the result would be cached on
  the object, and a later \<open>get_values c2\<close> would return that cached array whatever
  \<open>c2\<close> is. It is not so: \<open>get_values\<close> writes nothing, and on a parameter whose
  values were never set a second call evaluates the second catalog.
\<close>

theorem get_values_not_cached:
  "Param_init ''mvir'' False
     = Inr \<lparr>key = ''mvir'', units = ''Msun/h'', derive = None, log' = False, values' = None\<rparr>
   \<and> get_values \<lparr>key = ''mvir'', units = ''Msun/h'', derive = None, log' = False, values' = None\<rparr>
        [(''mvir'', [1, 2])] = Inr [1, 2]
   \<and> get_values \<lparr>key = ''mvir'', units = ''Msun/h'', derive = None, log' = False, values' = None\<rparr>
        [(''mvir'', [3, 4])] = Inr [3, 4]
   \<and> get_values \<lparr>key = ''mvir'', units = ''Msun/h'', derive = None, log' = False, values' = None\<rparr>
        [(''mvir'', [3, 4])]
     \<noteq> get_values \<lparr>key = ''mvir'', units = ''Msun/h'', derive = None, log' = False, values' = None\<rparr>
        [(''mvir'', [1, 2])]"
  by (simp add: Param_init_def params_dict_def get_values_def cat_getitem_def and_then_def)

text \<open>
  C2 (amended). The cache is written by \<open>set_values\<close>: once \<open>set_values c1\<close> has
  returned, the array it computed is stored on the object, every later
  \<open>get_values c2\<close> returns that array whatever \<open>c2\<close> is, and a later \<open>set_values c2\<close>
  leaves the object as it is. \<open>get_values\<close> alone caches nothing.
\<close>

theorem set_values_caches:
  assumes "set_values p c1 = Inr p'"
  shows "\<exists>vals. get_values p c1 = Inr vals \<and> values' p' = Some vals
           \<and> (\<forall>c2. get_values p' c2 = Inr vals \<and> set_values p' c2 = Inr p')"
proof -
  from assms obtain vals where v: "get_values p c1 = Inr vals" "p' = p\<lparr>values' := Some vals\<rparr>"
    by (auto simp: set_values_def and_then_def split: sum.splits)
  have "get_values p' c2 = Inr vals \<and> set_values p' c2 = Inr p'" for c2
    by (simp add: v(2) get_values_def set_values_def and_then_def)
  with v show ?thesis by simp
qed

theorem set_values_caches_witness:
  "set_values \<lparr>key = ''mvir'', units = ''Msun/h'', derive = None, log' = False, values' = None\<rparr>
     [(''mvir'', [1, 2])]
   = Inr \<lparr>key = ''mvir'', units = ''Msun/h'', derive = None, log' = False, values' = Some [1, 2]\<rparr>
   \<and> get_values \<lparr>key = ''mvir'', units = ''Msun/h'', derive = None, log' = False,
                  values' = Some [1, 2]\<rparr> [(''mvir'', [3, 4])] = Inr [1, 2]"
proof -
  let ?p = "\<lparr>key = ''mvir'', units = ''Msun/h'', derive = None, log' = False, values' = None\<rparr>"
  let ?p' = "\<lparr>key = ''mvir'', units = ''Msun/h'', derive = None, log' = False,
              values' = Some [1, 2 :: real]\<rparr>"
  have s: "set_values ?p [(''mvir'', [1, 2])] = Inr ?p'"
    by (simp add: set_values_def get_values_def cat_getitem_def and_then_def)
  from set_values_caches [OF s] obtain vals where
    "values' ?p' = Some vals" "\<forall>c2. get_values ?p' c2 = Inr vals"
    by blast
  then have "get_values ?p' [(''mvir'', [3, 4])] = Inr [1, 2]" by simp
  with s show ?thesis by simp
qed

text \<open>
  C3. For all sorted, strictly ascending integer id arrays \<open>A\<close> and \<open>B\<close>,
  \<open>intersect A B\<close> returns a boolean mask of the length of \<open>A\<close> whose entry \<open>i\<close> is
  true exactly when \<open>A ! i\<close> occurs in \<open>B\<close>.
\<close>

theorem intersect_mask:
  assumes "sorted_wrt (<) A" "sorted_wrt (<) B"
  shows "\<exists>mask. intersect A B = Inr mask \<and> length mask = length A
           \<and> (\<forall>i<length A. mask ! i \<longleftrightarrow> A ! i \<in> set B)"
proof -
  have "sorted A" "sorted B"
    using assms by (simp_all add: strict_sorted_iff)
  then have "intersect A B = Inr (map (\<lambda>a. a \<in> set B) A)"
    by (rule intersect_sorted)
  then show ?thesis by simp
qed

theorem intersect_mask_witness:
  "sorted_wrt (<) [1, 3, 5, 8 :: int] \<and> sorted_wrt (<) [3, 4, 8, 9 :: int]
   \<and> intersect [1, 3, 5, 8] [3, 4, 8, 9] = Inr [False, True, False, True]"
proof -
  have a: "sorted_wrt (<) [1, 3, 5, 8 :: int]" and b: "sorted_wrt (<) [3, 4, 8, 9 :: int]"
    by simp_all
  from intersect_mask [OF a b] obtain mask where
    m: "intersect [1, 3, 5, 8] [3, 4, 8, 9] = Inr mask" "length mask = 4"
       "\<forall>i<4. mask ! i \<longleftrightarrow> [1, 3, 5, 8 :: int] ! i \<in> set [3, 4, 8, 9]"
    by auto
  have "mask ! 0 = False" "mask ! 1 = True" "mask ! 2 = False" "mask ! 3 = True"
    using m(3) by (simp_all add: nth_Cons')
  then have "mask = [False, True, False, True]"
    using m(2) by (auto simp: list_eq_iff_nth_eq less_Suc_eq numeral_eq_Suc nth_Cons')
  with a b m(1) show ?thesis by simp
qed

text \<open>
  C4. A CAM model with \<open>cam_order = +1\<close> that has been fitted on rank statistics \<open>an\<close>
  and targets \<open>y\<close>: if the pairing is monotonically increasing (the \<open>an\<close> are pairwise
  different, and a larger \<open>an\<close> never comes with a smaller \<open>y\<close>), then \<open>predict\<close> on the
  training input returns the training targets, in the order of the input. For every later
  input, an entry whose rank statistic lies below the smallest training \<open>an\<close> is mapped to
  the smallest training \<open>y\<close>, and one above the largest training \<open>an\<close> to the largest
  training \<open>y\<close>: the two interpolators clamp and never extrapolate. The rank statistic is
  whatever \<open>get_an_from_am\<close> returns; arithmetic is exact.
\<close>

theorem CAM_round_trip_and_clamp:
  assumes "cls self = CAM" "attrs self ''cam_order'' = Some (VInt 1)"
    and "fit E self am y = Inr self'"
  shows "\<exists>mb mr an ys.
      attrs self ''mass_bins'' = Some mb \<and> attrs self ''mrange'' = Some mr
    \<and> get_an_from_am E am mb mr = Inr an \<and> data y = map Num ys
    \<and> length ys = length an \<and> an \<noteq> []
    \<and> (distinct an \<and> (\<forall>i<length an. \<forall>j<length an. an ! i < an ! j \<longrightarrow> ys ! i \<le> ys ! j)
         \<longrightarrow> predict E self' am = Inr \<lparr>shape = [length an], data = data y\<rparr>)
    \<and> (\<forall>am' an'. length (shape am') = 2 \<and> shape am' ! 1 = shape am ! 1 \<and> isnan_sum am' = 0
          \<and> get_an_from_am E am' mb mr = Inr an'
         \<longrightarrow> (\<exists>p. predict E self' am' = Inr p \<and> length (data p) = length an'
               \<and> (\<forall>i<length an'.
                    (an' ! i < Min (set an) \<longrightarrow> data p ! i = Num (Min (set ys)))
                  \<and> (Max (set an) < an' ! i \<longrightarrow> data p ! i = Num (Max (set ys))))))"
proof -
  from CAM_fit_result [OF assms] obtain mb mr an n nf where
    mb: "attrs self ''mass_bins'' = Some mb" and mr: "attrs self ''mrange'' = Some mr"
    and an: "get_an_from_am E am mb mr = Inr an" and n: "length an = n" "2 \<le> n"
    and y: "shape y = [n]" "length (data y) = n" "isnan_sum y = 0"
    and am: "isnan_sum am = 0" "length (shape am) = 2"
      "attrs self ''n_features'' = Some nf" "eq_int nf (int (shape am ! 1)) = Inr True"
    and self': "self' = setattr (setattr (setattr self ''an_to_mark''
            (VInterp \<lparr>ix = sort an, iy = map Num (map (\<lambda>i. (2 * real i + 1) / (2 * real n)) [0..<n]),
                      fill_below = Num 0, fill_above = Num 1\<rparr>))
          ''mark_to_Y''
            (VInterp \<lparr>ix = map (\<lambda>i. (2 * real i + 1) / (2 * real n)) [0..<n],
                      iy = np_sort (data y),
                      fill_below = hd (np_sort (data y)), fill_above = last (np_sort (data y))\<rparr>))
          ''trained'' (VBool True)"
    by blast
  define marks where "marks = map (\<lambda>i. (2 * real i + 1) / (2 * real n)) [0..<n]"
  define ys where "ys = nums (data y)"
  define f1 where "f1 = \<lparr>ix = sort an, iy = map Num marks, fill_below = Num 0, fill_above = Num 1\<rparr>"
  define f2 where "f2 = \<lparr>ix = marks, iy = map Num (sort ys),
      fill_below = Num (Min (set ys)), fill_above = Num (Max (set ys))\<rparr>"
  have n0: "0 < n" using n(2) by simp
  have nonan: "filter (\<lambda>v. v = NaN) (data y) = []"
    using y(3) by (simp add: isnan_sum_def)
  have dy: "data y = map Num ys"
    unfolding ys_def by (rule no_nan_map_Num [OF nonan])
  have lys: "length ys = n" using dy y(2) by (metis length_map)
  have ys_ne: "ys \<noteq> []" and an_ne: "an \<noteq> []" using lys n n0 by auto
  have sorted_y: "np_sort (data y) = map Num (sort ys)"
    unfolding ys_def by (rule np_sort_no_nan [OF nonan])
  have sne: "sort ys \<noteq> []" using ys_ne by (metis length_0_conv length_sort)
  have hd_y: "hd (map Num (sort ys)) = Num (Min (set ys))"
    using sne hd_sort_Min [OF ys_ne] by (simp add: hd_map)
  have last_y: "last (map Num (sort ys)) = Num (Max (set ys))"
    using sne last_sort_Max [OF ys_ne] by (simp add: last_map)
  have self'': "self' = setattr (setattr (setattr self ''an_to_mark'' (VInterp f1))
      ''mark_to_Y'' (VInterp f2)) ''trained'' (VBool True)"
    unfolding self' f1_def f2_def marks_def sorted_y hd_y last_y by (rule refl)
  have a': "cls self' = CAM" "attrs self' ''n_features'' = Some nf"
    "eq_int nf (int (shape am ! 1)) = Inr True"
    "attrs self' ''trained'' = Some (VBool True)" "attrs self' ''mass_bins'' = Some mb"
    "attrs self' ''mrange'' = Some mr" "attrs self' ''an_to_mark'' = Some (VInterp f1)"
    "attrs self' ''mark_to_Y'' = Some (VInterp f2)"
    using assms(1) am(3,4) mb mr by (simp_all add: self'' setattr_def)
  have run: "predict E self' am'
      = Inr \<lparr>shape = [length an'],
             data = map (\<lambda>a. interp1d_call f2 (interp1d_call f1 (Num a))) an'\<rparr>"
    if "length (shape am') = 2" "shape am' ! 1 = shape am ! 1" "isnan_sum am' = 0"
      "get_an_from_am E am' mb mr = Inr an'" for am' an'
    by (rule CAM_predict_fitted [OF a' that])
  have marks_len: "length marks = n" by (simp add: marks_def)
  have marks_s: "sorted_wrt (<) marks" unfolding marks_def by (rule marks_strict [OF n0])
  have marks_hd: "0 < hd marks" unfolding marks_def by (rule marks_hd [OF n0])
  have marks_last: "last marks < 1" unfolding marks_def by (rule marks_last [OF n0])
  have marks_ne: "marks \<noteq> []" using marks_len n0 by auto
  have hd_le_last: "hd marks \<le> last marks"
    using marks_ne strict_sorted_imp_sorted [OF marks_s]
    by (simp add: hd_conv_nth last_conv_nth sorted_nth_mono)
  have below: "interp1d_call f2 (interp1d_call f1 (Num v)) = Num (Min (set ys))"
    if "v < Min (set an)" for v
  proof -
    have "v < hd (ix f1)" using that hd_sort_Min [OF an_ne] by (simp add: f1_def)
    then have "interp1d_call f1 (Num v) = Num 0"
      by (simp add: interp1d_call_below f1_def)
    moreover have "interp1d_call f2 (Num 0) = fill_below f2"
      by (rule interp1d_call_below) (simp add: f2_def marks_hd)
    ultimately show ?thesis by (simp add: f2_def)
  qed
  have above: "interp1d_call f2 (interp1d_call f1 (Num v)) = Num (Max (set ys))"
    if "Max (set an) < v" for v
  proof -
    have "Min (set an) \<le> Max (set an)" using an_ne by simp
    then have 1: "\<not> v < hd (ix f1)" using that hd_sort_Min [OF an_ne] by (simp add: f1_def)
    have 2: "last (ix f1) < v" using that last_sort_Max [OF an_ne] by (simp add: f1_def)
    have "interp1d_call f1 (Num v) = Num 1"
      using interp1d_call_above [OF 1 2] by (simp add: f1_def)
    moreover have "interp1d_call f2 (Num 1) = fill_above f2"
      by (rule interp1d_call_above) (use marks_last hd_le_last in \<open>simp_all add: f2_def\<close>)
    ultimately show ?thesis by (simp add: f2_def)
  qed
  have node: "interp1d_call f2 (interp1d_call f1 (Num (an ! i))) = Num (ys ! i)"
    if d: "distinct an" and mono: "\<forall>i<length an. \<forall>j<length an. an ! i < an ! j \<longrightarrow> ys ! i \<le> ys ! j"
      and i: "i < length an" for i
  proof -
    from monotone_pairing_sort [OF _ d mono i] lys n(1)
    obtain k where k: "k < length an" "sort an ! k = an ! i" "sort ys ! k = ys ! i"
      by auto
    have strict: "sorted_wrt (<) (sort an)"
      using d by (simp add: strict_sorted_iff)
    have "interp1d_call f1 (Num (sort an ! k)) = map Num marks ! k"
      unfolding f1_def
      by (rule interp1d_call_node [OF strict]) (use k(1) n marks_len in auto)
    then have 1: "interp1d_call f1 (Num (an ! i)) = Num (marks ! k)"
      using k n(1) marks_len by simp
    have "interp1d_call f2 (Num (marks ! k)) = map Num (sort ys) ! k"
      unfolding f2_def
      by (rule interp1d_call_node [OF marks_s]) (use k(1) n marks_len lys in auto)
    then show ?thesis using 1 k n(1) lys by simp
  qed
  have round: "predict E self' am = Inr \<lparr>shape = [length an], data = data y\<rparr>"
    if "distinct an \<and> (\<forall>i<length an. \<forall>j<length an. an ! i < an ! j \<longrightarrow> ys ! i \<le> ys ! j)"
  proof -
    have "map (\<lambda>a. interp1d_call f2 (interp1d_call f1 (Num a))) an = map Num ys"
      using that node lys n(1) by (simp add: list_eq_iff_nth_eq)
    then show ?thesis using run [OF am(2) refl am(1) an] by (simp add: dy)
  qed
  have clamp: "\<exists>p. predict E self' am' = Inr p \<and> length (data p) = length an'
               \<and> (\<forall>i<length an'.
                    (an' ! i < Min (set an) \<longrightarrow> data p ! i = Num (Min (set ys)))
                  \<and> (Max (set an) < an' ! i \<longrightarrow> data p ! i = Num (Max (set ys))))"
    if "length (shape am') = 2 \<and> shape am' ! 1 = shape am ! 1 \<and> isnan_sum am' = 0
          \<and> get_an_from_am E am' mb mr = Inr an'" for am' an'
  proof -
    from that have r: "predict E self' am'
      = Inr \<lparr>shape = [length an'],
             data = map (\<lambda>a. interp1d_call f2 (interp1d_call f1 (Num a))) an'\<rparr>"
      by (intro run) simp_all
    show ?thesis
      unfolding r using below above by simp
  qed
  from mb mr an dy lys n(1) an_ne round clamp show ?thesis
    by (intro exI [of _ mb] exI [of _ mr] exI [of _ an] exI [of _ ys]) simp
qed


theorem CAM_round_trip_and_clamp_witness:
  "\<forall>E. \<exists>m0 m1 p.
     construct CAM (VInt 1)
       [(''mass_bins'', VArr \<lparr>shape = [1], data = [Num 12]\<rparr>), (''mrange'', VSeq [11, 14]),
        (''cam_order'', VInt 1)] = Inr m0
   \<and> cls m0 = CAM \<and> attrs m0 ''cam_order'' = Some (VInt 1)
   \<and> fit (with_exact E) m0 \<lparr>shape = [3, 1], data = [Num (1 / 2), Num (1 / 5), Num (9 / 10)]\<rparr>
        \<lparr>shape = [3], data = [Num 4, Num 1, Num 9]\<rparr> = Inr m1
   \<and> predict (with_exact E) m1 \<lparr>shape = [3, 1], data = [Num (1 / 2), Num (1 / 5), Num (9 / 10)]\<rparr>
       = Inr \<lparr>shape = [3], data = [Num 4, Num 1, Num 9]\<rparr>
   \<and> predict (with_exact E) m1 \<lparr>shape = [2, 1], data = [Num (1 / 10), Num 2]\<rparr> = Inr p
   \<and> data p = [Num 1, Num 9]"
proof
  fix E
  let ?kw = "[(''mass_bins'', VArr \<lparr>shape = [1], data = [Num 12]\<rparr>), (''mrange'', VSeq [11, 14]),
        (''cam_order'', VInt 1)]"
  let ?am = "\<lparr>shape = [3, 1], data = [Num (1 / 2), Num (1 / 5), Num (9 / 10)]\<rparr>"
  let ?y = "\<lparr>shape = [3], data = [Num 4, Num 1, Num 9]\<rparr>"
  let ?am' = "\<lparr>shape = [2, 1], data = [Num (1 / 10), Num 2]\<rparr>"
  let ?mb = "VArr \<lparr>shape = [1], data = [Num 12]\<rparr>"
  let ?mr = "VSeq [11, 14]"
  let ?m0 = "\<lparr>cls = CAM,
      attrs = [''n_features'' \<mapsto> VInt 1, ''trained'' \<mapsto> VBool False,
        ''mrange'' \<mapsto> ?mr, ''cam_order'' \<mapsto> VInt 1,
        ''mass_bins'' \<mapsto> ?mb,
        ''an_to_mark'' \<mapsto> VNone, ''mark_to_Y'' \<mapsto> VNone]\<rparr>"
  have m0: "construct CAM (VInt 1) ?kw = Inr ?m0"
    by (simp add: cam_run_defs)
  have c: "cls ?m0 = CAM" "attrs ?m0 ''cam_order'' = Some (VInt 1)"
    by simp_all
  have "\<exists>m1. fit (with_exact E) ?m0 ?am ?y = Inr m1"
    by (simp add: cam_run_defs cam_marks_def interp1d_init_def np_sort_def scale_def
        fl_mul_def upt_rec numeral_eq_Suc)
  then obtain m1 where m1: "fit (with_exact E) ?m0 ?am ?y = Inr m1" ..
  from CAM_round_trip_and_clamp [OF c m1] obtain mb mr an ys where
    mb: "attrs ?m0 ''mass_bins'' = Some mb" and mr: "attrs ?m0 ''mrange'' = Some mr"
    and an: "get_an_from_am (with_exact E) ?am mb mr = Inr an"
    and ys: "data ?y = map Num ys"
    and round: "distinct an \<and> (\<forall>i<length an. \<forall>j<length an. an ! i < an ! j \<longrightarrow> ys ! i \<le> ys ! j)
         \<longrightarrow> predict (with_exact E) m1 ?am = Inr \<lparr>shape = [length an], data = data ?y\<rparr>"
    and clamp: "\<forall>am' an'. length (shape am') = 2 \<and> shape am' ! 1 = shape ?am ! 1 \<and> isnan_sum am' = 0
          \<and> get_an_from_am (with_exact E) am' mb mr = Inr an'
         \<longrightarrow> (\<exists>p. predict (with_exact E) m1 am' = Inr p \<and> length (data p) = length an'
               \<and> (\<forall>i<length an'.
                    (an' ! i < Min (set an) \<longrightarrow> data p ! i = Num (Min (set ys)))
                  \<and> (Max (set an) < an' ! i \<longrightarrow> data p ! i = Num (Max (set ys)))))"
    by blast
  have mb': "mb = ?mb" and mr': "mr = ?mr" using mb mr by simp_all
  have an': "an = [1 / 2, 1 / 5, 9 / 10]"
    using an by (simp add: with_exact_def first_column_def column_def nums_def upt_rec numeral_eq_Suc)
  have ys': "ys = [4, 1, 9]"
    using ys by (auto simp: map_eq_Cons_conv)
  have hyp1: "distinct an \<and> (\<forall>i<length an. \<forall>j<length an. an ! i < an ! j \<longrightarrow> ys ! i \<le> ys ! j)"
    by (simp add: an' ys' numeral_eq_Suc All_less_Suc nth_Cons')
  have r: "predict (with_exact E) m1 ?am = Inr \<lparr>shape = [3], data = [Num 4, Num 1, Num 9]\<rparr>"
    using round [rule_format, OF hyp1] by (simp add: an')
  have hyp2: "length (shape ?am') = 2 \<and> shape ?am' ! 1 = shape ?am ! 1 \<and> isnan_sum ?am' = 0
          \<and> get_an_from_am (with_exact E) ?am' mb mr = Inr [1 / 10, 2]"
    by (simp add: isnan_sum_def with_exact_def first_column_def column_def nums_def
        upt_rec numeral_eq_Suc)
  from clamp [rule_format, OF hyp2] obtain p where
    p: "predict (with_exact E) m1 ?am' = Inr p" and lp: "length (data p) = 2"
    and q: "\<forall>i<2. ((([1 / 10, 2] :: real list) ! i < Min (set an) \<longrightarrow> data p ! i = Num (Min (set ys)))
                  \<and> (Max (set an) < ([1 / 10, 2] :: real list) ! i \<longrightarrow> data p ! i = Num (Max (set ys))))"
    by auto
  have p0: "data p ! 0 = Num 1"
    using q [rule_format, of 0] by (simp add: an' ys')
  have p1: "data p ! 1 = Num 9"
    using q [rule_format, of 1] by (simp add: an' ys')
  have dp: "data p = [Num 1, Num 9]"
    using lp p0 p1 by (simp add: list_eq_iff_nth_eq less_Suc_eq numeral_eq_Suc nth_Cons')
  show "\<exists>m0 m1 p. construct CAM (VInt 1) ?kw = Inr m0
   \<and> cls m0 = CAM \<and> attrs m0 ''cam_order'' = Some (VInt 1)
   \<and> fit (with_exact E) m0 ?am ?y = Inr m1
   \<and> predict (with_exact E) m1 ?am = Inr \<lparr>shape = [3], data = [Num 4, Num 1, Num 9]\<rparr>
   \<and> predict (with_exact E) m1 ?am' = Inr p
   \<and> data p = [Num 1, Num 9]"
    by (intro exI [of _ ?m0] exI [of _ m1] exI [of _ p] conjI m0 c m1 r p dp)
qed

text \<open>
  C5 (the claim). For every PredictionModel instance, \<open>predict\<close> fails when the model
  is not fitted, or the input is not two-dimensional, or its column count differs from
  \<open>n_features\<close>, or it holds a missing value; when all these preconditions hold it
  returns one prediction per input row.

  The assertions of \<open>PredictionModel_predict\<close> do reject each violation (lemma
  \<open>PredictionModel_predict_rejects\<close>) and hand an accepted input to \<open>_predict\<close>
  (lemma \<open>PredictionModel_predict_accepts\<close>). The second half of the claim fails
  on one class: for a constructed and fitted MultiVariateGaussian model and an input
  that meets every precondition, \<open>predict\<close> raises \<open>AttributeError\<close>, because
  \<open>_predict\<close> reads the attribute \<open>Sigma12\<close> that \<open>_fit\<close> never stores.
\<close>

theorem predict_accepts_input_but_raises:
  assumes "construct MultiVariateGaussian (VInt (int n)) [] = Inr m0"
    and "fit E m0 x y = Inr m1"
    and "shape x' = [rows, n]" "wf_array x'" "isnan_sum x' = 0"
  shows "attrs m1 ''trained'' = Some (VBool True)
       \<and> attrs m1 ''n_features'' = Some (VInt (int n))
       \<and> length (shape x') = 2 \<and> shape x' ! 1 = n
       \<and> predict E m1 x' = Inl (AttributeError ''Sigma12'')"
proof -
  note c = construct_MVG_default [OF assms(1)]
  have keep: "attrs m1 a = attrs m0 a" if "a \<notin> assigned_by_fit" for a
    by (rule fit_unassigned [OF assms(2) that])
  have nf: "attrs m1 ''n_features'' = Some (VInt (int n))"
    and qt: "attrs m1 ''use_qt'' = Some (VBool False)"
    and lg: "attrs m1 ''use_logs'' = Some (VBool False)"
    using c(2,3,4) by (simp_all add: keep assigned_by_fit_def)
  have s12: "attrs m1 ''Sigma12'' = None"
    using construct_Sigma12 [OF assms(1)] by (simp add: keep assigned_by_fit_def)
  have cls1: "cls m1 = MultiVariateGaussian"
    using fit_cls [OF assms(2)] c(1) by simp
  obtain v where mu1: "attrs m1 ''mu1'' = Some v"
    using fit_MVG_mu1 [OF assms(2) c(1)] by blast
  have n: "0 < n" using c(5) by (simp add: int_value_def)
  have tr: "attrs m1 ''trained'' = Some (VBool True)"
    by (rule fit_trained [OF assms(2)])
  have len: "length (data x') = rows * n"
    using assms(3,4) by (simp add: wf_array_def)
  have "predict E m1 x' = Inl (AttributeError ''Sigma12'')"
    by (rule predict_MVG_AttributeError [OF cls1 qt lg nf n tr mu1 s12 assms(3) len assms(5)])
  with tr nf assms(3) show ?thesis by simp
qed

theorem predict_accepts_input_but_raises_witness:
  "\<forall>E. \<exists>m0 m1.
     construct MultiVariateGaussian (VInt (int 1)) [] = Inr m0
   \<and> fit (with_exact E) m0 \<lparr>shape = [4, 1], data = [Num 1, Num 2, Num 3, Num 4]\<rparr>
        \<lparr>shape = [4], data = [Num 2, Num 4, Num 6, Num 8]\<rparr> = Inr m1
   \<and> shape \<lparr>shape = [2, 1], data = [Num 5, Num 6]\<rparr> = [2, 1]
   \<and> wf_array \<lparr>shape = [2, 1], data = [Num 5, Num 6]\<rparr>
   \<and> isnan_sum \<lparr>shape = [2, 1], data = [Num 5, Num 6]\<rparr> = 0
   \<and> attrs m1 ''trained'' = Some (VBool True)
   \<and> predict (with_exact E) m1 \<lparr>shape = [2, 1], data = [Num 5, Num 6]\<rparr>
       = Inl (AttributeError ''Sigma12'')"
proof
  fix E
  let ?x = "\<lparr>shape = [4, 1], data = [Num 1, Num 2, Num 3, Num 4]\<rparr>"
  let ?y = "\<lparr>shape = [4], data = [Num 2, Num 4, Num 6, Num 8]\<rparr>"
  let ?x' = "\<lparr>shape = [2, 1], data = [Num 5, Num 6]\<rparr>"
  let ?m0 = "\<lparr>cls = MultiVariateGaussian,
      attrs = [''n_features'' \<mapsto> VInt 1, ''trained'' \<mapsto> VBool False,
        ''use_qt'' \<mapsto> VBool False, ''use_logs'' \<mapsto> VBool False, ''qt_x'' \<mapsto> VNone,
        ''qt_y'' \<mapsto> VNone, ''mu1'' \<mapsto> VNone, ''mu2'' \<mapsto> VNone, ''Sigma'' \<mapsto> VNone,
        ''rho'' \<mapsto> VNone, ''sigma_cond'' \<mapsto> VNone]\<rparr>"
  have m0: "construct MultiVariateGaussian (VInt (int 1)) [] = Inr ?m0"
    by (simp add: mvg_run_defs)
  obtain m1 where m1: "fit (with_exact E) ?m0 ?x ?y = Inr m1"
    by (simp add: mvg_run_defs upt_rec numeral_eq_Suc)
  have x': "shape ?x' = [2, 1]" "wf_array ?x'" "isnan_sum ?x' = 0"
    by (simp_all add: wf_array_def isnan_sum_def)
  from predict_accepts_input_but_raises [OF m0 m1 x']
  have "attrs m1 ''trained'' = Some (VBool True)"
    "predict (with_exact E) m1 ?x' = Inl (AttributeError ''Sigma12'')"
    by simp_all
  with m0 m1 x' show "\<exists>m0 m1.
     construct MultiVariateGaussian (VInt (int 1)) [] = Inr m0
   \<and> fit (with_exact E) m0 ?x ?y = Inr m1
   \<and> shape ?x' = [2, 1] \<and> wf_array ?x' \<and> isnan_sum ?x' = 0
   \<and> attrs m1 ''trained'' = Some (VBool True)
   \<and> predict (with_exact E) m1 ?x' = Inl (AttributeError ''Sigma12'')"
    by blast
qed

text \<open>
  C6. For every training-suite specification. If some entry has an unknown model name,
  a feature count that differs from the column count of its data, or is malformed
  (malformed keyword arguments included), or if the constructor call or the fit of some
  entry raises, then \<open>training_suite\<close> raises and returns no model at all, whatever
  the other entries are and wherever the entry stands. If it returns, the result has
  exactly the names of the input mapping, every model in it is trained, and (the names
  of a mapping being pairwise different) the model under the name of an entry is the
  one that entry describes: the object its class's constructor built from its
  \<^verbatim>\<open>n_features\<close> and \<^verbatim>\<open>kwargs\<close>, fitted on its \<open>x\<close> and \<open>y\<close>.
\<close>

theorem training_suite_all_or_nothing:
  "((\<exists>(nm, i) \<in> set entries.
        unknown_model i \<or> feature_mismatch i \<or> malformed i \<or> model_raises E i)
      \<longrightarrow> (\<exists>e. training_suite E entries = Inl e))
   \<and> (\<forall>res. training_suite E entries = Inr res \<longrightarrow>
         dom res = fst ` set entries
         \<and> (\<forall>nm m. res nm = Some m \<longrightarrow> attrs m ''trained'' = Some (VBool True))
         \<and> (distinct (map fst entries) \<longrightarrow>
              (\<forall>(nm, i) \<in> set entries. \<exists>m c nf d x y new_model fitted.
                   model i = Some m \<and> map_of available_models m = Some c
                 \<and> n_features i = Some nf \<and> kwargs i = Some (KwDict d)
                 \<and> xy i = Some (XYTuple [x, y])
                 \<and> construct c nf d = Inr new_model \<and> fit E new_model x y = Inr fitted
                 \<and> res nm = Some fitted \<and> cls fitted = c)))"
proof (intro conjI impI allI)
  assume bad: "\<exists>(nm, i) \<in> set entries.
      unknown_model i \<or> feature_mismatch i \<or> malformed i \<or> model_raises E i"
  then obtain nm i where i: "(nm, i) \<in> set entries"
    and b: "unknown_model i \<or> feature_mismatch i \<or> malformed i \<or> model_raises E i"
    by auto
  show "\<exists>e. training_suite E entries = Inl e"
  proof (cases "training_suite E entries")
    case (Inl e)
    then show ?thesis by blast
  next
    case (Inr res)
    from training_suite_Inr(1) [OF Inr] i obtain u where u: "check_entry i = Inr u" by auto
    from train_loop_entries [OF training_suite_Inr(2) [OF Inr] i] obtain fitted where
      "train_entry E i = Inr fitted" ..
    from trained_entry_well_formed [OF u this] b show ?thesis by blast
  qed
next
  fix res assume r: "training_suite E entries = Inr res"
  note loop = train_loop_result [OF training_suite_Inr(2) [OF r]]
  from loop show "dom res = fst ` set entries" by simp
  show "attrs m ''trained'' = Some (VBool True)" if m: "res nm = Some m" for nm m
    using train_loop_values [OF training_suite_Inr(2) [OF r] m]
    by (auto dest: train_entry_trained)
  show "\<forall>(nm, i) \<in> set entries. \<exists>m c nf d x y new_model fitted.
                   model i = Some m \<and> map_of available_models m = Some c
                 \<and> n_features i = Some nf \<and> kwargs i = Some (KwDict d)
                 \<and> xy i = Some (XYTuple [x, y])
                 \<and> construct c nf d = Inr new_model \<and> fit E new_model x y = Inr fitted
                 \<and> res nm = Some fitted \<and> cls fitted = c"
    if dist: "distinct (map fst entries)"
  proof (intro ballI, clarify)
    fix nm i assume i: "(nm, i) \<in> set entries"
    from loop dist i obtain fitted where f: "train_entry E i = Inr fitted"
      and res: "res nm = Some fitted"
      by blast
    from train_entry_Inr [OF f] obtain m c nf d x y new_model where
      t: "model i = Some m" "map_of available_models m = Some c" "n_features i = Some nf"
         "kwargs i = Some (KwDict d)" "xy i = Some (XYTuple [x, y])"
         "construct c nf d = Inr new_model" "fit E new_model x y = Inr fitted"
      by blast
    have "cls fitted = c"
      using fit_cls [OF t(7)] construct_cls [OF t(6)] by simp
    with t res show "\<exists>m c nf d x y new_model fitted.
                   model i = Some m \<and> map_of available_models m = Some c
                 \<and> n_features i = Some nf \<and> kwargs i = Some (KwDict d)
                 \<and> xy i = Some (XYTuple [x, y])
                 \<and> construct c nf d = Inr new_model \<and> fit E new_model x y = Inr fitted
                 \<and> res nm = Some fitted \<and> cls fitted = c"
      by blast
  qed
qed

theorem training_suite_all_or_nothing_witness:
  "\<forall>E. \<exists>res new_model g l.
     training_suite (with_exact E)
       [(''run'', \<lparr>xy = Some (XYTuple [\<lparr>shape = [3, 1], data = [Num 0, Num 1, Num 2]\<rparr>,
                                      \<lparr>shape = [3], data = [Num 1, Num 3, Num 5]\<rparr>]),
                  model = Some ''gaussian'', n_features = Some (VInt 1),
                  kwargs = Some (KwDict [])\<rparr>),
        (''draw'', \<lparr>xy = Some (XYTuple [\<lparr>shape = [2, 1], data = [Num 7, Num 8]\<rparr>,
                                       \<lparr>shape = [2], data = [Num 1, Num 2]\<rparr>]),
                   model = Some ''lognormal'', n_features = Some (VBool True),
                   kwargs = Some (KwDict [])\<rparr>)] = Inr res
   \<and> dom res = {''run'', ''draw''}
   \<and> construct MultiVariateGaussian (VInt 1) [] = Inr new_model
   \<and> fit (with_exact E) new_model \<lparr>shape = [3, 1], data = [Num 0, Num 1, Num 2]\<rparr>
        \<lparr>shape = [3], data = [Num 1, Num 3, Num 5]\<rparr> = Inr g
   \<and> res ''run'' = Some g \<and> cls g = MultiVariateGaussian
   \<and> attrs g ''trained'' = Some (VBool True)
   \<and> res ''draw'' = Some l \<and> cls l = LogNormalRandomSample
   \<and> attrs l ''trained'' = Some (VBool True)
   \<and> malformed \<lparr>xy = Some (XYTuple [\<lparr>shape = [2, 1], data = [Num 7, Num 8]\<rparr>,
                                     \<lparr>shape = [2], data = [Num 1, Num 2]\<rparr>]),
                 model = Some ''linear'', n_features = Some (VInt 1),
                 kwargs = Some (KwDict [(''use_qt'', VBool True), (''use_logs'', VBool True)])\<rparr>
   \<and> (\<exists>e. training_suite (with_exact E)
       [(''run'', \<lparr>xy = Some (XYTuple [\<lparr>shape = [3, 1], data = [Num 0, Num 1, Num 2]\<rparr>,
                                      \<lparr>shape = [3], data = [Num 1, Num 3, Num 5]\<rparr>]),
                  model = Some ''gaussian'', n_features = Some (VInt 1),
                  kwargs = Some (KwDict [])\<rparr>),
        (''flags'', \<lparr>xy = Some (XYTuple [\<lparr>shape = [2, 1], data = [Num 7, Num 8]\<rparr>,
                                        \<lparr>shape = [2], data = [Num 1, Num 2]\<rparr>]),
                    model = Some ''linear'', n_features = Some (VInt 1),
                    kwargs = Some (KwDict [(''use_qt'', VBool True), (''use_logs'', VBool True)])\<rparr>)]
       = Inl e)"
proof
  fix E
  let ?x = "\<lparr>shape = [3, 1], data = [Num 0, Num 1, Num 2]\<rparr>"
  let ?y = "\<lparr>shape = [3], data = [Num 1, Num 3, Num 5]\<rparr>"
  let ?x2 = "\<lparr>shape = [2, 1], data = [Num 7, Num 8]\<rparr>"
  let ?y2 = "\<lparr>shape = [2], data = [Num 1, Num 2]\<rparr>"
  let ?run = "\<lparr>xy = Some (XYTuple [?x, ?y]), model = Some ''gaussian'',
               n_features = Some (VInt 1), kwargs = Some (KwDict [])\<rparr>"
  let ?draw = "\<lparr>xy = Some (XYTuple [?x2, ?y2]), model = Some ''lognormal'',
                n_features = Some (VBool True), kwargs = Some (KwDict [])\<rparr>"
  let ?flags = "\<lparr>xy = Some (XYTuple [?x2, ?y2]), model = Some ''linear'',
                 n_features = Some (VInt 1),
                 kwargs = Some (KwDict [(''use_qt'', VBool True), (''use_logs'', VBool True)])\<rparr>"
  let ?good = "[(''run'', ?run), (''draw'', ?draw)]"
  let ?bad = "[(''run'', ?run), (''flags'', ?flags)]"
  have c1: "check_entry ?run = Inr ()" and c2: "check_entry ?draw = Inr ()"
    by (simp_all add: check_entry_def getitem_def tuple_first_def available_models_def
        and_then_def shape_at_def int_value_def)
  have "\<exists>g. train_entry (with_exact E) ?run = Inr g"
    apply (simp add: train_entry_def getitem_def unpack_pair_def available_models_def and_then_def)
    apply (simp add: mvg_run_defs upt_rec numeral_eq_Suc)
    done
  then obtain g0 where t1: "train_entry (with_exact E) ?run = Inr g0" ..
  have "\<exists>l. train_entry (with_exact E) ?draw = Inr l"
    apply (simp add: train_entry_def getitem_def unpack_pair_def available_models_def and_then_def)
    apply (simp add: construct_def bind_arguments_def parameters_def and_then_def
        LogNormalRandomSample_init_def PredictionModel_init_def int_value_def then_on_def
        new_object_def setattr_def)
    apply (simp add: fit_def PredictionModel_fit_def fit_assertions_def isnan_sum_def
        shape_at_def and_then_def getattr_def eq_int_def number_def eval_on_def
        dispatch__fit_def LogNormalRandomSample__fit_def then_on_def Let_def)
    done
  then obtain l0 where t2: "train_entry (with_exact E) ?draw = Inr l0" ..
  have "\<exists>res. training_suite (with_exact E) ?good = Inr res"
    by (simp add: training_suite_def and_then_def c1 c2 t1 t2 del: One_nat_def)
  then obtain res where res: "training_suite (with_exact E) ?good = Inr res" ..
  note r = training_suite_all_or_nothing [THEN conjunct2, rule_format, OF res]
  have d: "dom res = {''run'', ''draw''}"
    using r [THEN conjunct1] by simp
  have t: "attrs m ''trained'' = Some (VBool True)" if "res nm = Some m" for nm m
    using r [THEN conjunct2, THEN conjunct1, rule_format, OF that] .
  have dist: "distinct (map fst ?good)" by simp
  note tie = r [THEN conjunct2, THEN conjunct2, rule_format, OF dist]
  have "(''run'', ?run) \<in> set ?good" by simp
  from tie [OF this] obtain m c nf kw x y new_model g where
    g: "model ?run = Some m" "map_of available_models m = Some c" "n_features ?run = Some nf"
       "kwargs ?run = Some (KwDict kw)" "xy ?run = Some (XYTuple [x, y])"
       "construct c nf kw = Inr new_model" "fit (with_exact E) new_model x y = Inr g"
       "res ''run'' = Some g" "cls g = c"
    by auto
  from g(1,2) have c: "c = MultiVariateGaussian" by (auto simp: available_models_def)
  from g(3,4,5) have a: "nf = VInt 1" "kw = []" "x = ?x" "y = ?y" by simp_all
  have "(''draw'', ?draw) \<in> set ?good" by simp
  from tie [OF this] obtain m' c' l where
    l: "model ?draw = Some m'" "map_of available_models m' = Some c'"
       "res ''draw'' = Some l" "cls l = c'"
    by auto
  from l(1,2) have c': "c' = LogNormalRandomSample" by (auto simp: available_models_def)
  have mal: "malformed ?flags"
    by (simp add: malformed_def malformed_kwargs_def available_models_def parameters_def)
  have "\<exists>(nm, i) \<in> set ?bad.
      unknown_model i \<or> feature_mismatch i \<or> malformed i \<or> model_raises (with_exact E) i"
    using mal by simp
  from training_suite_all_or_nothing [THEN conjunct1, rule_format, OF this]
  have f: "\<exists>e. training_suite (with_exact E) ?bad = Inl e" .
  show "\<exists>res new_model g l. training_suite (with_exact E) ?good = Inr res
   \<and> dom res = {''run'', ''draw''}
   \<and> construct MultiVariateGaussian (VInt 1) [] = Inr new_model
   \<and> fit (with_exact E) new_model ?x ?y = Inr g
   \<and> res ''run'' = Some g \<and> cls g = MultiVariateGaussian
   \<and> attrs g ''trained'' = Some (VBool True)
   \<and> res ''draw'' = Some l \<and> cls l = LogNormalRandomSample
   \<and> attrs l ''trained'' = Some (VBool True)
   \<and> malformed ?flags
   \<and> (\<exists>e. training_suite (with_exact E) ?bad = Inl e)"
    using g(6,7,8,9) l(3,4) t [OF g(8)] t [OF l(3)]
    unfolding c c' a
    by (intro exI [of _ res] exI [of _ new_model] exI [of _ g] exI [of _ l] conjI res d mal f)
qed

text \<open>
  C7. For every catalog and every HaloFilter whose predicates all return an all-true
  mask (each predicate, applied to the values of its parameter on the catalog, gives
  one \<open>True\<close> per row), \<open>filter_cat\<close> returns the input catalog itself: the same
  rows, in the same order.
\<close>

theorem filter_cat_all_true:
  assumes "wf_catalog tab"
    and "\<forall>(param, ft) \<in> set (filters self).
           \<exists>vals. hparam_values param tab = Inr vals \<and> ft vals = replicate (nrows tab) True"
  shows "filter_cat hparam_values self tab = Inr tab"
  unfolding filter_cat_def
  by (rule filter_loop_all_true [OF assms(1)]) (use assms(2) in auto)

theorem filter_cat_all_true_witness:
  "filter_cat (\<lambda>param c. cat_getitem c param)
     (HaloFilter_init [(''mvir'', map (\<lambda>v. v > (0::real))), (''x0'', map (\<lambda>v. v < 1))] ''all'')
     [(''mvir'', [5, 7, 6]), (''x0'', [0.5, 0.1, 0.2])]
   = Inr [(''mvir'', [5, 7, 6]), (''x0'', [0.5, 0.1, 0.2])]"
  by (rule filter_cat_all_true)
     (simp_all add: wf_catalog_def nrows_def HaloFilter_init_def cat_getitem_def)

text \<open>
  C8. For every catalog object and every HaloFilter, a call with the default
  \<^verbatim>\<open>copy=True\<close> leaves every object that existed before the call as it was (the
  source catalog among them), whether the call returns or raises; when it returns, the
  result is a new object (its address is none of the old ones), whose table holds rows
  of the source table, selected by one mask, in their order and with their values.
\<close>

theorem HaloFilter_call_copies:
  assumes "hcat < length store" "wf_catalog (cat (store ! hcat))"
    and "HaloFilter_call hparam_values self hcat True store = (r, store')"
  shows "take (length store) store' = store
       \<and> store' ! hcat = store ! hcat
       \<and> (\<forall>new_hcat. r = Inr new_hcat \<longrightarrow>
            new_hcat \<noteq> hcat \<and> length store \<le> new_hcat \<and> new_hcat < length store'
            \<and> (\<exists>mask. length mask = nrows (cat (store ! hcat))
                  \<and> cat (store' ! new_hcat)
                      = map (\<lambda>(k, col). (k, mask_select mask col)) (cat (store ! hcat))))"
proof -
  have frame: "take (length store) store' = store"
    by (rule HaloFilter_call_frame [OF assms(1,3)])
  then have same: "store' ! hcat = store ! hcat"
    using assms(1) by (metis nth_take)
  have new: "new_hcat \<noteq> hcat \<and> length store \<le> new_hcat \<and> new_hcat < length store'
       \<and> (\<exists>mask. length mask = nrows (cat (store ! hcat))
             \<and> cat (store' ! new_hcat)
                 = map (\<lambda>(k, col). (k, mask_select mask col)) (cat (store ! hcat)))"
    if "r = Inr new_hcat" for new_hcat
  proof -
    from HaloFilter_call_result [OF assms(1) assms(3) [unfolded that]]
    have res: "new_hcat = length store" "length store' = Suc (length store)"
      "filter_cat hparam_values self (cat (store ! hcat)) = Inr (cat (store' ! new_hcat))"
      by simp_all
    from filter_loop_is_mask [OF assms(2) res(3) [unfolded filter_cat_def]]
    show ?thesis using res(1,2) assms(1) by simp
  qed
  from frame same new show ?thesis by blast
qed

theorem HaloFilter_call_copies_witness:
  "HaloFilter_call (\<lambda>param c. cat_getitem c param)
     (HaloFilter_init [(''mvir'', map (\<lambda>v. v > (5::real)))] ''massive'') 0 True
     [\<lparr>cat = [(''mvir'', [5, 7, 6]), (''x0'', [0.5, 0.1, 0.2])], name = ''all''\<rparr>]
   = (Inr 1,
      [\<lparr>cat = [(''mvir'', [5, 7, 6]), (''x0'', [0.5, 0.1, 0.2])], name = ''all''\<rparr>,
       \<lparr>cat = [(''mvir'', [7, 6]), (''x0'', [0.1, 0.2])], name = ''massive''\<rparr>])
   \<and> take 1 [\<lparr>cat = [(''mvir'', [5, 7, 6 :: real]), (''x0'', [0.5, 0.1, 0.2])], name = ''all''\<rparr>,
       \<lparr>cat = [(''mvir'', [7, 6]), (''x0'', [0.1, 0.2])], name = ''massive''\<rparr>]
     = [\<lparr>cat = [(''mvir'', [5, 7, 6]), (''x0'', [0.5, 0.1, 0.2])], name = ''all''\<rparr>]"
proof -
  let ?src = "\<lparr>cat = [(''mvir'', [5, 7, 6 :: real]), (''x0'', [0.5, 0.1, 0.2])], name = ''all''\<rparr>"
  let ?new = "\<lparr>cat = [(''mvir'', [7, 6 :: real]), (''x0'', [0.1, 0.2])], name = ''massive''\<rparr>"
  let ?hf = "HaloFilter_init [(''mvir'', map (\<lambda>v. v > (5::real)))] ''massive''"
  have run: "HaloFilter_call (\<lambda>param c. cat_getitem c param) ?hf 0 True [?src]
      = (Inr 1, [?src, ?new])"
    by (simp add: HaloFilter_call_def HaloFilter_init_def deepcopy_def filter_cat_def
        cat_getitem_def cat_getitem_mask_def nrows_def and_then_def)
  have "0 < length [?src]" "wf_catalog (cat ([?src] ! 0))"
    by (simp_all add: wf_catalog_def nrows_def)
  from HaloFilter_call_copies [OF this run]
  have "take (length [?src]) [?src, ?new] = [?src]" by blast
  with run show ?thesis by simp
qed

text \<open>
  C9. For every HaloFilter and every catalog argument, a call with \<^verbatim>\<open>copy=False\<close>
  raises \<^verbatim>\<open>NotImplementedError\<close> before anything else is done: no object is copied,
  no filter runs, and the store is the one the call started from.
\<close>

theorem HaloFilter_call_no_copy:
  "HaloFilter_call hparam_values self hcat False store = (Inl NotImplementedError, store)"
  by (simp add: HaloFilter_call_def)

text \<open>
  C10. \<open>CAM.fit\<close> needs at least two training samples. For a training set of
  exactly one row the call raises (at the latest where the half-step offset reads the
  second mark) and leaves the object as it was, so the model does not become trained.
  For \<open>n\<close> rows, two or more, the mark construction succeeds: on a training set that
  meets what \<open>fit\<close> asserts (no missing value, \<open>n\<close> targets in a one-dimensional
  array, \<^verbatim>\<open>n_features\<close> columns), for which \<^verbatim>\<open>get_an_from_am\<close> gives \<open>n\<close> numbers and
  with \<^verbatim>\<open>cam_order\<close> a number, \<open>fit\<close> returns; the object it returns is trained and
  its two interpolators are built on the marks \<open>(2 i + 1) / (2 n)\<close>, \<open>i\<close> from \<open>0\<close>
  to \<open>n - 1\<close>: they are the values of \<^verbatim>\<open>an_to_mark\<close> and the abscissae of
  \<^verbatim>\<open>mark_to_Y\<close>. When the \<open>n\<close> targets come as a single column, which \<open>fit\<close>
  lets through, the marks are built all the same and \<^verbatim>\<open>an_to_mark\<close> is assigned with
  them; it is the second interpolator that refuses the column, with a \<^verbatim>\<open>ValueError\<close>.
\<close>

theorem CAM_fit_needs_two_rows:
  "(cls self = CAM \<and> shape_at am 0 = Inr 1 \<longrightarrow> (\<exists>e. fit E self am y = Inl (e, self)))
   \<and> (cls self = CAM \<and> 2 \<le> n \<and> shape am = [n, k] \<and> shape y = [n] \<and> wf_array y
        \<and> isnan_sum am = 0 \<and> isnan_sum y = 0
        \<and> attrs self ''n_features'' = Some nf \<and> eq_int nf (int k) = Inr True
        \<and> attrs self ''mass_bins'' = Some mb \<and> attrs self ''mrange'' = Some mr
        \<and> get_an_from_am E am mb mr = Inr an \<and> length an = n
        \<and> attrs self ''cam_order'' = Some co \<and> number co = Some c
      \<longrightarrow> (\<exists>self' f1 f2.
            fit E self am y = Inr self'
          \<and> attrs self' ''trained'' = Some (VBool True)
          \<and> attrs self' ''an_to_mark'' = Some (VInterp f1)
          \<and> attrs self' ''mark_to_Y'' = Some (VInterp f2)
          \<and> iy f1 = map Num (map (\<lambda>i. (2 * real i + 1) / (2 * real n)) [0..<n])
          \<and> ix f2 = map (\<lambda>i. (2 * real i + 1) / (2 * real n)) [0..<n]))
   \<and> (cls self = CAM \<and> 2 \<le> n \<and> shape am = [n, k] \<and> shape y = [n, 1]
        \<and> isnan_sum am = 0 \<and> isnan_sum y = 0
        \<and> attrs self ''n_features'' = Some nf \<and> eq_int nf (int k) = Inr True
        \<and> attrs self ''mass_bins'' = Some mb \<and> attrs self ''mrange'' = Some mr
        \<and> get_an_from_am E am mb mr = Inr an \<and> length an = n
        \<and> attrs self ''cam_order'' = Some co \<and> number co = Some c
      \<longrightarrow> (\<exists>self1 f1.
            fit E self am y = Inl (ValueError, self1)
          \<and> attrs self1 ''an_to_mark'' = Some (VInterp f1)
          \<and> iy f1 = map Num (map (\<lambda>i. (2 * real i + 1) / (2 * real n)) [0..<n])))"
proof (intro conjI impI)
  assume a: "cls self = CAM \<and> shape_at am 0 = Inr 1"
  show "\<exists>e. fit E self am y = Inl (e, self)"
  proof (cases "fit_assertions self am y")
    case (Inl e)
    with a show ?thesis by (simp add: fit_def PredictionModel_fit_def eval_on_def)
  next
    case (Inr u)
    from fit_assertions_rows(2) [OF Inr] a have "len_array y = Inr 1" by auto
    from CAM__fit_one_row [OF this, of E self am] obtain e where
      "CAM__fit E self am y = Inl (e, self)" by auto
    with a Inr show ?thesis
      by (simp add: fit_def PredictionModel_fit_def eval_on_def dispatch__fit_def then_on_def)
  qed
next
  assume h: "cls self = CAM \<and> 2 \<le> n \<and> shape am = [n, k] \<and> shape y = [n] \<and> wf_array y
        \<and> isnan_sum am = 0 \<and> isnan_sum y = 0
        \<and> attrs self ''n_features'' = Some nf \<and> eq_int nf (int k) = Inr True
        \<and> attrs self ''mass_bins'' = Some mb \<and> attrs self ''mrange'' = Some mr
        \<and> get_an_from_am E am mb mr = Inr an \<and> length an = n
        \<and> attrs self ''cam_order'' = Some co \<and> number co = Some c"
  then have ly: "length (data y) = n" by (simp add: wf_array_def)
  have "fit E self am y
       = Inr (setattr (setattr (setattr self ''an_to_mark''
            (VInterp \<lparr>ix = sort an, iy = map Num (map (\<lambda>i. (2 * real i + 1) / (2 * real n)) [0..<n]),
                      fill_below = Num 0, fill_above = Num 1\<rparr>))
          ''mark_to_Y''
            (VInterp \<lparr>ix = map (\<lambda>i. (2 * real i + 1) / (2 * real n)) [0..<n],
                      iy = scale c (np_sort (scale c (data y))),
                      fill_below = hd (scale c (np_sort (scale c (data y)))),
                      fill_above = last (scale c (np_sort (scale c (data y))))\<rparr>))
          ''trained'' (VBool True))"
    by (rule CAM_fit_succeeds [where k = k and nf = nf and mb = mb and mr = mr and co = co])
       (use h ly in simp_all)
  then show "\<exists>self' f1 f2.
            fit E self am y = Inr self'
          \<and> attrs self' ''trained'' = Some (VBool True)
          \<and> attrs self' ''an_to_mark'' = Some (VInterp f1)
          \<and> attrs self' ''mark_to_Y'' = Some (VInterp f2)
          \<and> iy f1 = map Num (map (\<lambda>i. (2 * real i + 1) / (2 * real n)) [0..<n])
          \<and> ix f2 = map (\<lambda>i. (2 * real i + 1) / (2 * real n)) [0..<n]"
    by (simp add: attrs_setattr del: map_map)
next
  assume h: "cls self = CAM \<and> 2 \<le> n \<and> shape am = [n, k] \<and> shape y = [n, 1]
        \<and> isnan_sum am = 0 \<and> isnan_sum y = 0
        \<and> attrs self ''n_features'' = Some nf \<and> eq_int nf (int k) = Inr True
        \<and> attrs self ''mass_bins'' = Some mb \<and> attrs self ''mrange'' = Some mr
        \<and> get_an_from_am E am mb mr = Inr an \<and> length an = n
        \<and> attrs self ''cam_order'' = Some co \<and> number co = Some c"
  have "fit E self am y
       = Inl (ValueError, setattr self ''an_to_mark''
            (VInterp \<lparr>ix = sort an, iy = map Num (map (\<lambda>i. (2 * real i + 1) / (2 * real n)) [0..<n]),
                      fill_below = Num 0, fill_above = Num 1\<rparr>))"
    by (rule CAM_fit_column [where k = k and nf = nf and mb = mb and mr = mr and co = co
          and c = c])
       (use h in simp_all)
  then show "\<exists>self1 f1.
            fit E self am y = Inl (ValueError, self1)
          \<and> attrs self1 ''an_to_mark'' = Some (VInterp f1)
          \<and> iy f1 = map Num (map (\<lambda>i. (2 * real i + 1) / (2 * real n)) [0..<n])"
    by (simp add: attrs_setattr del: map_map)
qed

theorem CAM_fit_needs_two_rows_witness:
  "\<forall>E. \<exists>m0 m2 f1 f2 m3 f3.
     construct CAM (VInt 1)
       [(''mass_bins'', VArr \<lparr>shape = [1], data = [Num 12]\<rparr>), (''mrange'', VSeq [11, 14]),
        (''cam_order'', VInt 1)] = Inr m0
   \<and> cls m0 = CAM \<and> attrs m0 ''trained'' = Some (VBool False)
   \<and> shape_at \<lparr>shape = [1, 1], data = [Num (1 / 2)]\<rparr> 0 = Inr 1
   \<and> fit (with_exact E) m0 \<lparr>shape = [1, 1], data = [Num (1 / 2)]\<rparr>
        \<lparr>shape = [1], data = [Num 3]\<rparr> = Inl (IndexError, m0)
   \<and> fit (with_exact E) m0 \<lparr>shape = [2, 1], data = [Num (1 / 2), Num (1 / 5)]\<rparr>
        \<lparr>shape = [2], data = [Num 3, Num 1]\<rparr> = Inr m2
   \<and> attrs m2 ''trained'' = Some (VBool True)
   \<and> attrs m2 ''an_to_mark'' = Some (VInterp f1) \<and> attrs m2 ''mark_to_Y'' = Some (VInterp f2)
   \<and> iy f1 = [Num (1 / 4), Num (3 / 4)] \<and> ix f2 = [1 / 4, 3 / 4]
   \<and> fit (with_exact E) m0 \<lparr>shape = [2, 1], data = [Num (1 / 2), Num (1 / 5)]\<rparr>
        \<lparr>shape = [2, 1], data = [Num 3, Num 1]\<rparr> = Inl (ValueError, m3)
   \<and> attrs m3 ''an_to_mark'' = Some (VInterp f3) \<and> iy f3 = [Num (1 / 4), Num (3 / 4)]"
proof
  fix E
  let ?y3 = "\<lparr>shape = [2, 1], data = [Num 3, Num 1]\<rparr>"
  let ?kw = "[(''mass_bins'', VArr \<lparr>shape = [1], data = [Num 12]\<rparr>), (''mrange'', VSeq [11, 14]),
        (''cam_order'', VInt 1)]"
  let ?am = "\<lparr>shape = [1, 1], data = [Num (1 / 2)]\<rparr>"
  let ?y = "\<lparr>shape = [1], data = [Num 3]\<rparr>"
  let ?am2 = "\<lparr>shape = [2, 1], data = [Num (1 / 2), Num (1 / 5)]\<rparr>"
  let ?y2 = "\<lparr>shape = [2], data = [Num 3, Num 1]\<rparr>"
  let ?mb = "VArr \<lparr>shape = [1], data = [Num 12]\<rparr>"
  let ?m0 = "\<lparr>cls = CAM,
      attrs = [''n_features'' \<mapsto> VInt 1, ''trained'' \<mapsto> VBool False,
        ''mrange'' \<mapsto> VSeq [11, 14], ''cam_order'' \<mapsto> VInt 1,
        ''mass_bins'' \<mapsto> ?mb,
        ''an_to_mark'' \<mapsto> VNone, ''mark_to_Y'' \<mapsto> VNone]\<rparr>"
  have m0: "construct CAM (VInt 1) ?kw = Inr ?m0"
    by (simp add: cam_run_defs)
  have c: "cls ?m0 = CAM \<and> shape_at ?am 0 = Inr 1"
    by (simp add: shape_at_def)
  note one = CAM_fit_needs_two_rows [where self = ?m0 and am = ?am and E = "with_exact E"
      and y = ?y, THEN conjunct1]
  from one [rule_format, OF c] obtain e where
    e: "fit (with_exact E) ?m0 ?am ?y = Inl (e, ?m0)" ..
  have f: "fit (with_exact E) ?m0 ?am ?y = Inl (IndexError, ?m0)"
    by (simp add: cam_run_defs cam_marks_def)
  have h: "cls ?m0 = CAM \<and> 2 \<le> (2::nat) \<and> shape ?am2 = [2, 1] \<and> shape ?y2 = [2] \<and> wf_array ?y2
        \<and> isnan_sum ?am2 = 0 \<and> isnan_sum ?y2 = 0
        \<and> attrs ?m0 ''n_features'' = Some (VInt 1) \<and> eq_int (VInt 1) (int 1) = Inr True
        \<and> attrs ?m0 ''mass_bins'' = Some ?mb \<and> attrs ?m0 ''mrange'' = Some (VSeq [11, 14])
        \<and> get_an_from_am (with_exact E) ?am2 ?mb (VSeq [11, 14]) = Inr [1 / 2, 1 / 5]
        \<and> length [1 / 2, 1 / 5 :: real] = 2
        \<and> attrs ?m0 ''cam_order'' = Some (VInt 1) \<and> number (VInt 1) = Some (Num 1)"
    by (simp add: wf_array_def isnan_sum_def eq_int_def number_def with_exact_def
        first_column_def column_def nums_def upt_rec numeral_eq_Suc)
  note two = CAM_fit_needs_two_rows [where self = ?m0 and am = ?am2 and E = "with_exact E"
      and y = ?y2 and n = 2 and k = 1 and nf = "VInt 1" and mb = ?mb and mr = "VSeq [11, 14]"
      and an = "[1 / 2, 1 / 5]" and co = "VInt 1" and c = "Num 1", THEN conjunct2,
      THEN conjunct1]
  from two [rule_format, OF h] obtain m2 f1 f2 where
    m2: "fit (with_exact E) ?m0 ?am2 ?y2 = Inr m2"
    and t: "attrs m2 ''trained'' = Some (VBool True)"
    and a1: "attrs m2 ''an_to_mark'' = Some (VInterp f1)"
    and a2: "attrs m2 ''mark_to_Y'' = Some (VInterp f2)"
    and i1: "iy f1 = map Num (map (\<lambda>i. (2 * real i + 1) / (2 * real (2::nat))) [0..<2])"
    and i2: "ix f2 = map (\<lambda>i. (2 * real i + 1) / (2 * real (2::nat))) [0..<2]"
    by blast
  have i1': "iy f1 = [Num (1 / 4), Num (3 / 4)]"
    unfolding i1 by (simp add: upt_rec numeral_eq_Suc)
  have i2': "ix f2 = [1 / 4, 3 / 4]"
    unfolding i2 by (simp add: upt_rec numeral_eq_Suc)
  have h3: "cls ?m0 = CAM \<and> 2 \<le> (2::nat) \<and> shape ?am2 = [2, 1] \<and> shape ?y3 = [2, 1]
        \<and> isnan_sum ?am2 = 0 \<and> isnan_sum ?y3 = 0
        \<and> attrs ?m0 ''n_features'' = Some (VInt 1) \<and> eq_int (VInt 1) (int 1) = Inr True
        \<and> attrs ?m0 ''mass_bins'' = Some ?mb \<and> attrs ?m0 ''mrange'' = Some (VSeq [11, 14])
        \<and> get_an_from_am (with_exact E) ?am2 ?mb (VSeq [11, 14]) = Inr [1 / 2, 1 / 5]
        \<and> length [1 / 2, 1 / 5 :: real] = 2
        \<and> attrs ?m0 ''cam_order'' = Some (VInt 1) \<and> number (VInt 1) = Some (Num 1)"
    by (simp add: isnan_sum_def eq_int_def number_def with_exact_def
        first_column_def column_def nums_def upt_rec numeral_eq_Suc)
  note three = CAM_fit_needs_two_rows [where self = ?m0 and am = ?am2 and E = "with_exact E"
      and y = ?y3 and n = 2 and k = 1 and nf = "VInt 1" and mb = ?mb and mr = "VSeq [11, 14]"
      and an = "[1 / 2, 1 / 5]" and co = "VInt 1" and c = "Num 1", THEN conjunct2,
      THEN conjunct2]
  from three [rule_format, OF h3] obtain m3 f3 where
    m3: "fit (with_exact E) ?m0 ?am2 ?y3 = Inl (ValueError, m3)"
    and a3: "attrs m3 ''an_to_mark'' = Some (VInterp f3)"
    and i3: "iy f3 = map Num (map (\<lambda>i. (2 * real i + 1) / (2 * real (2::nat))) [0..<2])"
    by blast
  have i3': "iy f3 = [Num (1 / 4), Num (3 / 4)]"
    unfolding i3 by (simp add: upt_rec numeral_eq_Suc)
  have c1: "cls ?m0 = CAM" and c2: "attrs ?m0 ''trained'' = Some (VBool False)"
    and c3: "shape_at ?am 0 = Inr 1"
    by (simp_all add: shape_at_def)
  show "\<exists>m0 m2 f1 f2 m3 f3. construct CAM (VInt 1) ?kw = Inr m0
   \<and> cls m0 = CAM \<and> attrs m0 ''trained'' = Some (VBool False)
   \<and> shape_at ?am 0 = Inr 1
   \<and> fit (with_exact E) m0 ?am ?y = Inl (IndexError, m0)
   \<and> fit (with_exact E) m0 ?am2 ?y2 = Inr m2
   \<and> attrs m2 ''trained'' = Some (VBool True)
   \<and> attrs m2 ''an_to_mark'' = Some (VInterp f1) \<and> attrs m2 ''mark_to_Y'' = Some (VInterp f2)
   \<and> iy f1 = [Num (1 / 4), Num (3 / 4)] \<and> ix f2 = [1 / 4, 3 / 4]
   \<and> fit (with_exact E) m0 ?am2 ?y3 = Inl (ValueError, m3)
   \<and> attrs m3 ''an_to_mark'' = Some (VInterp f3) \<and> iy f3 = [Num (1 / 4), Num (3 / 4)]"
    by (intro exI [of _ ?m0] exI [of _ m2] exI [of _ f1] exI [of _ f2] exI [of _ m3]
        exI [of _ f3] conjI m0 c1 c2 c3 f m2 t a1 a2 i1' i2' m3 a3 i3')
qed

end
